theory Spec2Isabelle
  imports Complex_Main "HOL-Library.Sublist"
begin

section \<open>Strings of the source language\<close>

text \<open>
  A source string is modelled as a \<^typ>\<open>string\<close>; a \<^typ>\<open>char\<close> stands for one
  code unit in the range 0..255. The library operations the program calls on strings
  are written out below with the results the language standard gives them on that range.
\<close>

definition backslash :: char where
  "backslash = CHR 0x5C"

definition newline :: char where
  "newline = CHR 0x0A"

text \<open>\<^verbatim>\<open>String.prototype.trim\<close> removes white space and line terminators at both ends.\<close>

definition is_space :: "char \<Rightarrow> bool" where
  "is_space c = (c \<in> set [CHR 0x09, CHR 0x0A, CHR 0x0B, CHR 0x0C, CHR 0x0D, CHR 0x20, CHR 0xA0])"

definition trim :: "string \<Rightarrow> string" where
  "trim s = rev (dropWhile is_space (rev (dropWhile is_space s)))"

text \<open>\<^verbatim>\<open>toLowerCase\<close>: the letters A-Z and the upper-case letters of 0xC0..0xDE move by 32.\<close>

definition lower_char :: "char \<Rightarrow> char" where
  "lower_char c =
     (let n = (of_char c :: nat)
      in if (65 \<le> n \<and> n \<le> 90) \<or> (192 \<le> n \<and> n \<le> 222 \<and> n \<noteq> 215)
         then char_of (n + 32) else c)"

definition toLowerCase :: "string \<Rightarrow> string" where
  "toLowerCase s = map lower_char s"

text \<open>\<^verbatim>\<open>s.split(sep)\<close> for a one-character separator: never the empty list.\<close>

fun split_on :: "char \<Rightarrow> string \<Rightarrow> string list" where
  "split_on sep [] = [[]]"
| "split_on sep (c # cs) =
     (if c = sep then [] # split_on sep cs
      else (case split_on sep cs of
              [] \<Rightarrow> [[c]]
            | w # ws \<Rightarrow> (c # w) # ws))"

text \<open>\<^verbatim>\<open>parts.join(sep)\<close>.\<close>

fun join :: "string \<Rightarrow> string list \<Rightarrow> string" where
  "join sep [] = []"
| "join sep [w] = w"
| "join sep (w # v # ws) = w @ sep @ join sep (v # ws)"

text \<open>
  \<^verbatim>\<open>s.slice(a, b)\<close>: a negative index counts from the end, both indices are clamped to
  the string, and the result is empty when the start is not before the end.
\<close>

definition slice_index :: "nat \<Rightarrow> int \<Rightarrow> nat" where
  "slice_index len i = (if i < 0 then nat (max (int len + i) 0) else min (nat i) len)"

definition slice :: "'a list \<Rightarrow> int \<Rightarrow> int \<Rightarrow> 'a list" where
  "slice s a b =
     (let from = slice_index (length s) a; to = slice_index (length s) b
      in take (to - from) (drop from s))"

text \<open>\<^verbatim>\<open>s.lastIndexOf(c)\<close> for a single character: \<open>-1\<close> when \<open>c\<close> does not occur.\<close>

fun lastIndexOf :: "string \<Rightarrow> char \<Rightarrow> int" where
  "lastIndexOf [] c = -1"
| "lastIndexOf (x # xs) c =
     (let r = lastIndexOf xs c
      in if r \<ge> 0 then r + 1 else if x = c then 0 else -1)"

section \<open>Crawl policy: \<^verbatim>\<open>robots-txt-parser.ts\<close>\<close>

subsection \<open>The regular expressions that \<^verbatim>\<open>matchesPattern\<close> builds\<close>

text \<open>
  \<^verbatim>\<open>matchesPattern\<close> rewrites the pattern with three \<^verbatim>\<open>replace\<close> calls, hands the text
  to \<^verbatim>\<open>new RegExp\<close> behind a \<^verbatim>\<open>^\<close>, and calls \<^verbatim>\<open>test\<close>. The three rewrites are modelled
  on the text; the regular-expression engine is modelled for the fragment of the
  syntax that such a text can contain: literal characters, \<^verbatim>\<open>\\<close> before a syntax
  character, \<^verbatim>\<open>.\<close>, the quantifier \<^verbatim>\<open>*\<close>, and the assertions \<^verbatim>\<open>^\<close> and \<^verbatim>\<open>$\<close>.
  A text outside the fragment compiles to \<open>None\<close>.
\<close>

text \<open>The character class \<^verbatim>\<open>[.+?^${}()|[\]\\]\<close> of the first \<^verbatim>\<open>replace\<close>.\<close>

definition escape_class :: "char list" where
  "escape_class = ''.+?^${}()|[]'' @ [backslash]"

text \<open>\<^verbatim>\<open>.replace(/[.+?^${}()|[\]\\]/g, "\\$&")\<close>: a backslash before every match.\<close>

definition escape_specials :: "string \<Rightarrow> string" where
  "escape_specials p = concat (map (\<lambda>c. if c \<in> set escape_class then [backslash, c] else [c]) p)"

text \<open>\<^verbatim>\<open>.replace(/\*/g, ".*")\<close>.\<close>

definition star_to_dotstar :: "string \<Rightarrow> string" where
  "star_to_dotstar p = concat (map (\<lambda>c. if c = CHR ''*'' then ''.*'' else [c]) p)"

text \<open>
  \<^verbatim>\<open>.replace(/\$/g, "$")\<close>: in a replacement text a \<^verbatim>\<open>$\<close> that is followed by nothing
  stands for itself, so every \<^verbatim>\<open>$\<close> is replaced by \<^verbatim>\<open>$\<close>.
\<close>

definition dollar_to_dollar :: "string \<Rightarrow> string" where
  "dollar_to_dollar p = concat (map (\<lambda>c. if c = CHR ''$'' then ''$'' else [c]) p)"

definition regexPattern :: "string \<Rightarrow> string" where
  "regexPattern pattern = dollar_to_dollar (star_to_dotstar (escape_specials pattern))"

datatype token = TLit char | TDot | TStar | TCaret | TDollar

text \<open>The syntax characters of the pattern language; \<^verbatim>\<open>\\<close> before one of them is that character.\<close>

definition syntax_chars :: "char list" where
  "syntax_chars = ''^$.*+?()[]{}|/'' @ [backslash]"

definition tok :: "char \<Rightarrow> token option" where
  "tok c =
     (if c = CHR ''.'' then Some TDot
      else if c = CHR ''*'' then Some TStar
      else if c = CHR ''^'' then Some TCaret
      else if c = CHR ''$'' then Some TDollar
      else if c \<in> set ''+?()[]{}|'' then None
      else Some (TLit c))"

fun regex_lex :: "string \<Rightarrow> token list option" where
  "regex_lex [] = Some []"
| "regex_lex [c] = (if c = backslash then None else map_option (\<lambda>t. [t]) (tok c))"
| "regex_lex (c # d # cs) =
     (if c = backslash
      then (if d \<in> set syntax_chars then map_option ((#) (TLit d)) (regex_lex cs) else None)
      else (case tok c of
              None \<Rightarrow> None
            | Some t \<Rightarrow> map_option ((#) t) (regex_lex (d # cs))))"

datatype atom = AChar char | AAny

datatype rterm = Atom atom | Star atom | AssertStart | AssertEnd

fun regex_parse :: "token list \<Rightarrow> rterm list option" where
  "regex_parse [] = Some []"
| "regex_parse (TLit c # TStar # ts) = map_option ((#) (Star (AChar c))) (regex_parse ts)"
| "regex_parse (TDot # TStar # ts) = map_option ((#) (Star AAny)) (regex_parse ts)"
| "regex_parse (TLit c # ts) = map_option ((#) (Atom (AChar c))) (regex_parse ts)"
| "regex_parse (TDot # ts) = map_option ((#) (Atom AAny)) (regex_parse ts)"
| "regex_parse (TCaret # TStar # ts) = None"
| "regex_parse (TDollar # TStar # ts) = None"
| "regex_parse (TCaret # ts) = map_option ((#) AssertStart) (regex_parse ts)"
| "regex_parse (TDollar # ts) = map_option ((#) AssertEnd) (regex_parse ts)"
| "regex_parse (TStar # ts) = None"

definition regex_compile :: "string \<Rightarrow> rterm list option" where
  "regex_compile src = (case regex_lex src of None \<Rightarrow> None | Some ts \<Rightarrow> regex_parse ts)"

text \<open>Without the \<^verbatim>\<open>s\<close> flag, \<^verbatim>\<open>.\<close> matches every character but a line terminator.\<close>

definition line_terminator :: "char \<Rightarrow> bool" where
  "line_terminator c = (c = CHR 0x0A \<or> c = CHR 0x0D)"

fun atom_ok :: "atom \<Rightarrow> char \<Rightarrow> bool" where
  "atom_ok (AChar c) x = (x = c)"
| "atom_ok AAny x = (\<not> line_terminator x)"

text \<open>
  \<open>rmatch ts pos s\<close>: the terms \<open>ts\<close> match some prefix of \<open>s\<close>, which starts at index
  \<open>pos\<close> of the input. Backtracking tries every way, so for a yes-or-no answer it is
  the disjunction of the alternatives.
\<close>

fun rmatch :: "rterm list \<Rightarrow> nat \<Rightarrow> string \<Rightarrow> bool" where
  "rmatch [] pos s = True"
| "rmatch (AssertStart # ts) pos s = (pos = 0 \<and> rmatch ts pos s)"
| "rmatch (AssertEnd # ts) pos s = (s = [] \<and> rmatch ts pos s)"
| "rmatch (Atom a # ts) pos [] = False"
| "rmatch (Atom a # ts) pos (x # xs) = (atom_ok a x \<and> rmatch ts (Suc pos) xs)"
| "rmatch (Star a # ts) pos [] = rmatch ts pos []"
| "rmatch (Star a # ts) pos (x # xs) =
     (rmatch ts pos (x # xs) \<or> (atom_ok a x \<and> rmatch (Star a # ts) (Suc pos) xs))"

text \<open>\<^verbatim>\<open>regex.test(path)\<close> without the \<^verbatim>\<open>g\<close> flag: a match may start at any index.\<close>

definition regex_test :: "rterm list \<Rightarrow> string \<Rightarrow> bool" where
  "regex_test ts s = list_ex (\<lambda>i. rmatch ts i (drop i s)) [0 ..< Suc (length s)]"

datatype js_error = TypeError | SyntaxError | RangeError | Error string

definition matchesPattern :: "string \<Rightarrow> string \<Rightarrow> js_error + bool" where
  "matchesPattern path pattern =
     (case regex_compile (CHR ''^'' # regexPattern pattern) of
        None \<Rightarrow> Inl SyntaxError
      | Some regex \<Rightarrow> Inr (regex_test regex path))"

subsection \<open>The rule table and its parser\<close>

text \<open>
  \<^verbatim>\<open>crawlDelay\<close> holds what \<^verbatim>\<open>Number.parseFloat\<close> returns; the number type is a
  parameter \<open>'n\<close> and the function is passed to the parser.
\<close>

record 'n RobotsTxtRule =
  userAgent :: string
  disallow :: "string list"
  allow :: "string list"
  crawlDelay :: "'n option"
  sitemap :: "string list option"

record 'n RobotsTxtParser =
  rules :: "string \<rightharpoonup> 'n RobotsTxtRule"
  defaultRule :: "'n RobotsTxtRule"

record 'n parse_state =
  ps_rules :: "string \<rightharpoonup> 'n RobotsTxtRule"
  currentUserAgent :: "string option"
  currentRule :: "'n RobotsTxtRule option"

definition initial_defaultRule :: "'n RobotsTxtRule" where
  "initial_defaultRule =
     \<lparr>userAgent = ''*'', disallow = [], allow = [], crawlDelay = None, sitemap = None\<rparr>"

text \<open>\<^verbatim>\<open>if (currentUserAgent && currentRule) this.rules.set(currentUserAgent, currentRule)\<close>.\<close>

definition save_rule :: "'n parse_state \<Rightarrow> string \<rightharpoonup> 'n RobotsTxtRule" where
  "save_rule st =
     (case (currentUserAgent st, currentRule st) of
        (Some ua, Some rule) \<Rightarrow> if ua \<noteq> [] then (ps_rules st)(ua \<mapsto> rule) else ps_rules st
      | _ \<Rightarrow> ps_rules st)"

text \<open>The \<^verbatim>\<open>switch\<close> on the normalized key, for a line below a \<^verbatim>\<open>User-agent\<close> line.\<close>

definition add_directive :: "(string \<Rightarrow> 'n) \<Rightarrow> string \<Rightarrow> string \<Rightarrow> 'n RobotsTxtRule \<Rightarrow> 'n RobotsTxtRule" where
  "add_directive parseFloat normalizedKey val rule =
     (if normalizedKey = ''disallow'' then rule\<lparr>disallow := disallow rule @ [val]\<rparr>
      else if normalizedKey = ''allow'' then rule\<lparr>allow := allow rule @ [val]\<rparr>
      else if normalizedKey = ''crawl-delay'' then rule\<lparr>crawlDelay := Some (parseFloat val)\<rparr>
      else if normalizedKey = ''sitemap''
        then rule\<lparr>sitemap := Some ((case sitemap rule of None \<Rightarrow> [] | Some xs \<Rightarrow> xs) @ [val])\<rparr>
      else rule)"

text \<open>The body of the loop over the trimmed lines.\<close>

definition parse_line :: "(string \<Rightarrow> 'n) \<Rightarrow> 'n parse_state \<Rightarrow> string \<Rightarrow> 'n parse_state" where
  "parse_line parseFloat st line =
     (if (line \<noteq> [] \<and> hd line = CHR ''#'') \<or> length line = 0 then st
      else (case split_on CHR '':'' line of
              [] \<Rightarrow> st
            | key # valueParts \<Rightarrow>
                (let val = trim (join '':'' valueParts)
                 in if key = [] \<or> val = [] then st
                    else (let normalizedKey = toLowerCase key
                          in if normalizedKey = ''user-agent''
                             then st\<lparr>ps_rules := save_rule st,
                                     currentUserAgent := Some (toLowerCase val),
                                     currentRule := Some \<lparr>userAgent = val, disallow = [], allow = [],
                                                           crawlDelay = None, sitemap = None\<rparr>\<rparr>
                             else (case currentRule st of
                                     None \<Rightarrow> st
                                   | Some rule \<Rightarrow>
                                       st\<lparr>currentRule :=
                                            Some (add_directive parseFloat normalizedKey val rule)\<rparr>)))))"

text \<open>The constructor: \<^verbatim>\<open>parse(robotsTxtContent)\<close> on the fresh object.\<close>

definition parse :: "(string \<Rightarrow> 'n) \<Rightarrow> string \<Rightarrow> 'n RobotsTxtParser" where
  "parse parseFloat content =
     (let lines = map trim (split_on newline content);
          st = foldl (parse_line parseFloat)
                 \<lparr>ps_rules = Map.empty, currentUserAgent = None, currentRule = None\<rparr> lines;
          rules' = save_rule st
      in \<lparr>rules = rules',
          defaultRule = (case rules' ''*'' of Some r \<Rightarrow> r | None \<Rightarrow> initial_defaultRule)\<rparr>)"

subsection \<open>\<^verbatim>\<open>isAllowed\<close>\<close>

text \<open>
  \<^verbatim>\<open>new URL(url)\<close> is the platform's parser: it is a parameter \<open>parseURL\<close>, which
  returns \<open>None\<close> where the constructor throws.
\<close>

record URL =
  protocol :: string
  hostname :: string
  pathname :: string

text \<open>
  A loop \<^verbatim>\<open>for (const p of patterns) if (this.matchesPattern(path, p)) return ...\<close>:
  \<open>Inr True\<close> when it returns from inside, \<open>Inr False\<close> when it runs to its end.
\<close>

fun first_match :: "string \<Rightarrow> string list \<Rightarrow> js_error + bool" where
  "first_match path [] = Inr False"
| "first_match path (p # ps) =
     (case matchesPattern path p of
        Inl e \<Rightarrow> Inl e
      | Inr b \<Rightarrow> if b then Inr True else first_match path ps)"

definition isAllowed :: "(string \<Rightarrow> URL option) \<Rightarrow> 'n RobotsTxtParser \<Rightarrow> string \<Rightarrow> string \<Rightarrow> js_error + bool" where
  "isAllowed parseURL this u agent =
     (case parseURL u of
        None \<Rightarrow> Inl TypeError
      | Some urlObj \<Rightarrow>
          (let rule = (case rules this (toLowerCase agent) of
                         Some r \<Rightarrow> r
                       | None \<Rightarrow> defaultRule this)
           in case first_match (pathname urlObj) (allow rule) of
                Inl e \<Rightarrow> Inl e
              | Inr a \<Rightarrow>
                  if a then Inr True
                  else (case first_match (pathname urlObj) (disallow rule) of
                          Inl e \<Rightarrow> Inl e
                        | Inr d \<Rightarrow> if d then Inr False else Inr True)))"

text \<open>
  What the pattern language of the specification says: \<^verbatim>\<open>*\<close> is any character
  sequence, \<^verbatim>\<open>$\<close> is the end of the path, every other character is itself, and the
  pattern has to match a prefix of the path.
\<close>

fun spec_matches :: "string \<Rightarrow> string \<Rightarrow> bool" where
  "spec_matches [] s = True"
| "spec_matches (p # ps) [] =
     (if p = CHR ''*'' \<or> p = CHR ''$'' then spec_matches ps [] else False)"
| "spec_matches (p # ps) (x # xs) =
     (if p = CHR ''*'' then spec_matches ps (x # xs) \<or> spec_matches (p # ps) xs
      else if p = CHR ''$'' then False
      else x = p \<and> spec_matches ps xs)"

text \<open>
  What the three rewrites make of one pattern character, as text, as tokens and as a
  term of the compiled expression.
\<close>

definition piece :: "char \<Rightarrow> string" where
  "piece c = (if c \<in> set escape_class then [backslash, c] else if c = CHR ''*'' then ''.*'' else [c])"

definition piece_tokens :: "char \<Rightarrow> token list" where
  "piece_tokens c = (if c = CHR ''*'' then [TDot, TStar] else [TLit c])"

definition piece_term :: "char \<Rightarrow> rterm" where
  "piece_term c = (if c = CHR ''*'' then Star AAny else Atom (AChar c))"


section \<open>The rate limiter: \<^verbatim>\<open>rate-limiter.ts\<close>\<close>

text \<open>
  Clock readings (\<^verbatim>\<open>Date.now()\<close>) are integers, in milliseconds. The numbers of the
  configuration and the durations passed to \<^verbatim>\<open>sleep\<close> are modelled as reals; the program
  computes them in double precision.
\<close>

record RateLimitConfig =
  requestsPerMinute :: real
  minDelay :: real
  maxDelay :: real

record PartialRateLimitConfig =
  requestsPerMinute_opt :: "real option"
  minDelay_opt :: "real option"
  maxDelay_opt :: "real option"

record RequestRecord =
  timestamp :: int
  count :: int

record RateLimiter =
  domainRecords :: "string \<rightharpoonup> RequestRecord list"
  config :: RateLimitConfig

text \<open>\<^verbatim>\<open>value || fallback\<close> on an optional number: a missing value and 0 give the fallback.\<close>

definition or_default :: "real option \<Rightarrow> real \<Rightarrow> real" where
  "or_default v fallback = (case v of None \<Rightarrow> fallback | Some x \<Rightarrow> if x = 0 then fallback else x)"

text \<open>The constructor; without an argument the partial configuration is empty.\<close>

definition new_RateLimiter :: "PartialRateLimitConfig option \<Rightarrow> RateLimiter" where
  "new_RateLimiter cfg =
     (let c = (case cfg of
                 None \<Rightarrow> \<lparr>requestsPerMinute_opt = None, minDelay_opt = None, maxDelay_opt = None\<rparr>
               | Some c \<Rightarrow> c)
      in \<lparr>domainRecords = Map.empty,
          config = \<lparr>requestsPerMinute = or_default (requestsPerMinute_opt c) 30,
                     minDelay = or_default (minDelay_opt c) 1000,
                     maxDelay = or_default (maxDelay_opt c) 3000\<rparr>\<rparr>)"

text \<open>The records of a domain that are less than one minute old at \<open>now\<close>.\<close>

definition recentRecords :: "RateLimiter \<Rightarrow> string \<Rightarrow> int \<Rightarrow> RequestRecord list" where
  "recentRecords this domain now =
     filter (\<lambda>record. now - timestamp record < 60000)
       (case domainRecords this domain of None \<Rightarrow> [] | Some records \<Rightarrow> records)"

definition totalRequests :: "RequestRecord list \<Rightarrow> int" where
  "totalRequests records = foldl (\<lambda>sum record. sum + count record) 0 records"

text \<open>
  \<open>waitForSlot\<close>: \<open>now\<close> is the clock at the start, \<open>random\<close> the value of
  \<^verbatim>\<open>Math.random()\<close>, \<open>now_after\<close> the clock when the sleep is over. The result is the
  duration passed to \<^verbatim>\<open>sleep\<close> and the limiter afterwards. When the budget is reached and
  there is no recent record, reading \<^verbatim>\<open>oldestRecord.timestamp\<close> throws.
\<close>

definition waitForSlot :: "int \<Rightarrow> real \<Rightarrow> int \<Rightarrow> RateLimiter \<Rightarrow> string \<Rightarrow> js_error + (real \<times> RateLimiter)" where
  "waitForSlot now random now_after this domain =
     (let recent = recentRecords this domain now;
          record_request = this\<lparr>domainRecords :=
             (domainRecords this)(domain \<mapsto> recent @ [\<lparr>timestamp = now_after, count = 1\<rparr>])\<rparr>
      in if real_of_int (totalRequests recent) \<ge> requestsPerMinute (config this)
         then (case recent of
                 [] \<Rightarrow> Inl TypeError
               | oldestRecord # _ \<Rightarrow>
                   (let waitTime = 60000 - (now - timestamp oldestRecord)
                    in Inr (max (real_of_int waitTime) (minDelay (config this)), record_request)))
         else (let delay = minDelay (config this)
                       + random * (maxDelay (config this) - minDelay (config this))
               in Inr (delay, record_request)))"

text \<open>\<open>getRequestCount\<close>.\<close>

definition getRequestCount :: "int \<Rightarrow> RateLimiter \<Rightarrow> string \<Rightarrow> int" where
  "getRequestCount now this domain = totalRequests (recentRecords this domain now)"

section \<open>Chunking: \<^verbatim>\<open>chunkText\<close> of \<^verbatim>\<open>embeddings.ts\<close>\<close>

text \<open>
  One pass through the body of the \<^verbatim>\<open>while\<close> loop, from the offset \<open>start\<close>: the
  chunk that is pushed and the next value of \<open>start\<close>. Offsets are integers, since the
  subtraction of the overlap can make \<open>start\<close> negative.
\<close>

definition chunk_step :: "string \<Rightarrow> int \<Rightarrow> int \<Rightarrow> int \<Rightarrow> string \<times> int" where
  "chunk_step text maxChunkSize overlap start =
     (let end' = min (start + maxChunkSize) (int (length text));
          chunk = slice text start end';
          lastPeriod = lastIndexOf chunk CHR ''.'';
          lastNewline = lastIndexOf chunk newline;
          breakPoint = max lastPeriod lastNewline;
          (pushed, start') =
             (if breakPoint > 0 \<and> end' < int (length text)
              then (trim (slice text start (start + breakPoint + 1)), start + breakPoint + 1 - overlap)
              else (trim chunk, end'))
      in (pushed, if start' \<ge> end' then end' else start'))"

text \<open>The loop; \<open>None\<close> when it does not come to an end.\<close>

partial_function (option) chunk_loop :: "string \<Rightarrow> int \<Rightarrow> int \<Rightarrow> int \<Rightarrow> string list \<Rightarrow> string list option" where
  "chunk_loop text maxChunkSize overlap start chunks =
     (if start < int (length text)
      then (case chunk_step text maxChunkSize overlap start of
              (pushed, start') \<Rightarrow> chunk_loop text maxChunkSize overlap start' (chunks @ [pushed]))
      else Some chunks)"

declare chunk_loop.simps [code]

definition chunkText :: "string \<Rightarrow> int \<Rightarrow> int \<Rightarrow> string list option" where
  "chunkText text maxChunkSize overlap =
     map_option (filter (\<lambda>chunk. length chunk > 0)) (chunk_loop text maxChunkSize overlap 0 [])"

section \<open>The crawl executor: \<^verbatim>\<open>scraper.ts\<close>\<close>

record ScraperConfig =
  userAgent :: string
  respectRobotsTxt :: bool
  rateLimitConfig :: "PartialRateLimitConfig option"

record PartialScraperConfig =
  userAgent_opt :: "string option"
  respectRobotsTxt_opt :: "bool option"
  rateLimitConfig_opt :: "PartialRateLimitConfig option"

record Metadata =
  title :: "string option"
  description :: "string option"
  lastModified :: "string option"

record ScrapeResult =
  url :: string
  content :: string
  contentType :: string
  timestamp :: int
  statusCode :: int
  metadata :: Metadata

record ScrapeLog =
  url :: string
  timestamp :: int
  allowed :: bool
  reason :: "string option"
  statusCode :: "int option"

record 'n EthicalScraper =
  config :: ScraperConfig
  rateLimiter :: RateLimiter
  robotsTxtCache :: "string \<rightharpoonup> 'n RobotsTxtParser"
  logs :: "ScrapeLog list"

definition new_EthicalScraper :: "PartialScraperConfig option \<Rightarrow> 'n EthicalScraper" where
  "new_EthicalScraper cfg =
     (let c = (case cfg of
                 None \<Rightarrow> \<lparr>userAgent_opt = None, respectRobotsTxt_opt = None, rateLimitConfig_opt = None\<rparr>
               | Some c \<Rightarrow> c);
          conf = \<lparr>userAgent = (case userAgent_opt c of
                                 None \<Rightarrow> ''RegulatoryComplianceBot/1.0; +https://assurecode.com/bot.html''
                               | Some ua \<Rightarrow>
                                   if ua = [] then ''RegulatoryComplianceBot/1.0; +https://assurecode.com/bot.html''
                                   else ua),
                  respectRobotsTxt = (respectRobotsTxt_opt c \<noteq> Some False),
                  rateLimitConfig = rateLimitConfig_opt c\<rparr>
      in \<lparr>config = conf, rateLimiter = new_RateLimiter (rateLimitConfig conf),
          robotsTxtCache = Map.empty, logs = []\<rparr>)"

text \<open>
  What \<^verbatim>\<open>fetch\<close> does: it throws, or it resolves to a response. Of a response the program
  reads the status, the status text, two headers and the body; \<open>body = None\<close> when
  reading the body fails.
\<close>

record Response =
  status :: int
  statusText :: string
  content_type :: "string option"
  last_modified :: "string option"
  body :: "string option"

datatype fetch_result = FetchThrows js_error | FetchResponse Response

definition ok :: "Response \<Rightarrow> bool" where
  "ok response = (200 \<le> status response \<and> status response \<le> 299)"

text \<open>The decimal text of a number, for the message of an HTTP error.\<close>

fun digits :: "nat \<Rightarrow> nat \<Rightarrow> string" where
  "digits 0 n = []"
| "digits (Suc fuel) n =
     (if n < 10 then [char_of (48 + n)] else digits fuel (n div 10) @ [char_of (48 + n mod 10)])"

definition number_text :: "int \<Rightarrow> string" where
  "number_text i = (if i < 0 then CHR ''-'' # digits (Suc (nat (- i))) (nat (- i)) else digits (Suc (nat i)) (nat i))"

text \<open>
  What one call of \<open>scrape\<close> takes from outside: the answers of the network for
  \<^verbatim>\<open>robots.txt\<close> and for the page, the clock readings, and the random number of the rate
  limiter.
\<close>

record scrape_env =
  robots_fetch :: fetch_result
  page_fetch :: fetch_result
  t_denied :: int
  t_slot :: int
  slot_random :: real
  t_slot_after :: int
  t_logged :: int
  t_result :: int

text \<open>
  \<open>checkRobotsTxt\<close>: the answer and the scraper with its cache. The call is made with a
  URL that the platform has parsed already.
\<close>

definition checkRobotsTxt ::
    "(string \<Rightarrow> URL option) \<Rightarrow> (string \<Rightarrow> 'n) \<Rightarrow> scrape_env \<Rightarrow> 'n EthicalScraper \<Rightarrow> string
      \<Rightarrow> (js_error + bool) \<times> 'n EthicalScraper" where
  "checkRobotsTxt parseURL parseFloat env this u =
     (case parseURL u of
        None \<Rightarrow> (Inl TypeError, this)
      | Some urlObj \<Rightarrow>
          (let domain = hostname urlObj
           in case robotsTxtCache this domain of
                Some parser \<Rightarrow> (isAllowed parseURL parser u (userAgent (config this)), this)
              | None \<Rightarrow>
                  (case robots_fetch env of
                     FetchThrows e \<Rightarrow> (Inr True, this)
                   | FetchResponse response \<Rightarrow>
                       if ok response
                       then (case body response of
                               None \<Rightarrow> (Inr True, this)
                             | Some text \<Rightarrow>
                                 (let parser = parse parseFloat text;
                                      this' = this\<lparr>robotsTxtCache := (robotsTxtCache this)(domain \<mapsto> parser)\<rparr>
                                  in (isAllowed parseURL parser u (userAgent (config this)), this')))
                       else (Inr True, this))))"

text \<open>
  \<open>scrape\<close>: the result or the error thrown, and the scraper afterwards.
  \<open>extractMetadata\<close> is a parameter: it gives the title and the description that the two
  searches of the markup find.
\<close>

definition scrape ::
    "(string \<Rightarrow> URL option) \<Rightarrow> (string \<Rightarrow> 'n) \<Rightarrow> (string \<Rightarrow> string \<Rightarrow> string option \<times> string option)
      \<Rightarrow> scrape_env \<Rightarrow> 'n EthicalScraper \<Rightarrow> string \<Rightarrow> (js_error + ScrapeResult) \<times> 'n EthicalScraper" where
  "scrape parseURL parseFloat extractMetadata env this u =
     (case parseURL u of
        None \<Rightarrow> (Inl TypeError, this)
      | Some urlObj \<Rightarrow>
          (let domain = hostname urlObj;
               (checked, this1) =
                  (if respectRobotsTxt (config this)
                   then checkRobotsTxt parseURL parseFloat env this u
                   else (Inr True, this))
           in case checked of
                Inl e \<Rightarrow> (Inl e, this1)
              | Inr is_allowed \<Rightarrow>
                  if \<not> is_allowed
                  then (Inl (Error (''URL '' @ u @ '' is disallowed by robots.txt'')),
                        this1\<lparr>logs := logs this1 @
                           [\<lparr>url = u, timestamp = t_denied env, allowed = False,
                             reason = Some ''Blocked by robots.txt'', statusCode = None\<rparr>]\<rparr>)
                  else (case waitForSlot (t_slot env) (slot_random env) (t_slot_after env)
                               (rateLimiter this1) domain of
                          Inl e \<Rightarrow> (Inl e, this1)
                        | Inr (slept, limiter) \<Rightarrow>
                            (let this2 = this1\<lparr>rateLimiter := limiter\<rparr>
                             in case page_fetch env of
                                  FetchThrows e \<Rightarrow> (Inl e, this2)
                                | FetchResponse response \<Rightarrow>
                                    if \<not> ok response
                                    then (Inl (Error (''HTTP '' @ number_text (status response) @ '': ''
                                                      @ statusText response)),
                                          this2\<lparr>logs := logs this2 @
                                             [\<lparr>url = u, timestamp = t_logged env, allowed = True,
                                               reason = None, statusCode = Some (status response)\<rparr>]\<rparr>)
                                    else (case body response of
                                            None \<Rightarrow> (Inl TypeError, this2)
                                          | Some text \<Rightarrow>
                                              (let ctype = (case content_type response of
                                                              None \<Rightarrow> ''text/html''
                                                            | Some c \<Rightarrow> if c = [] then ''text/html'' else c);
                                                   (found_title, found_description) = extractMetadata text ctype;
                                                   meta = \<lparr>title = found_title, description = found_description,
                                                           lastModified =
                                                             (case last_modified response of
                                                                None \<Rightarrow> None
                                                              | Some m \<Rightarrow> if m = [] then None else Some m)\<rparr>
                                               in (Inr \<lparr>ScrapeResult.url = u, content = text, contentType = ctype,
                                                         ScrapeResult.timestamp = t_result env,
                                                         ScrapeResult.statusCode = status response,
                                                         metadata = meta\<rparr>,
                                                   this2\<lparr>logs := logs this2 @
                                                      [\<lparr>url = u, timestamp = t_logged env, allowed = True,
                                                        reason = None,
                                                        statusCode = Some (status response)\<rparr>]\<rparr>)))))))"

text \<open>\<open>getLogs\<close> returns a copy of the list; \<open>clearLogs\<close> empties it.\<close>

definition getLogs :: "'n EthicalScraper \<Rightarrow> ScrapeLog list" where
  "getLogs this = logs this"

definition clearLogs :: "'n EthicalScraper \<Rightarrow> 'n EthicalScraper" where
  "clearLogs this = this\<lparr>logs := []\<rparr>"

section \<open>Retrieval: \<^verbatim>\<open>semantic-search.ts\<close>\<close>

text \<open>
  The rows that the store returns have no declared type in the program. A row of
  \<^verbatim>\<open>match_documents\<close> is a \<open>Document\<close>, with the fields of its metadata that the program
  reads; a row of \<^verbatim>\<open>regulations\<close> is a \<open>Regulation\<close>. A field that may be missing or null
  is an option. Similarity scores are reals.
\<close>

record DocMetadata =
  meta_regulation_id :: "string option"
  meta_title :: "string option"
  meta_url :: "string option"

record Document =
  doc_id :: string
  doc_content :: string
  doc_similarity :: real
  doc_metadata :: "DocMetadata option"

record Regulation =
  reg_id :: string
  reg_title :: string
  reg_summary :: "string option"
  reg_jurisdiction :: "string option"
  reg_category :: "string option"
  reg_priority :: "string option"
  source_url :: string
  effective_date :: "string option"

record SearchFilter =
  jurisdiction :: "string list option"
  category :: "string list option"
  priority :: "string list option"
  dateRange :: "(string \<times> string) option"

record SearchResult =
  id' :: string
  regulationId :: "string option"
  title :: string
  content :: string
  summary :: "string option"
  jurisdiction :: "string option"
  category :: "string option"
  priority :: "string option"
  similarity :: real
  url :: string
  effectiveDate :: "string option"

text \<open>\<^verbatim>\<open>a <= b\<close> on strings: by code units, a proper prefix first.\<close>

fun string_le :: "string \<Rightarrow> string \<Rightarrow> bool" where
  "string_le [] b = True"
| "string_le (x # xs) [] = False"
| "string_le (x # xs) (y # ys) =
     (if (of_char x :: nat) < of_char y then True
      else if x = y then string_le xs ys
      else False)"

text \<open>\<^verbatim>\<open>a || b\<close> on optional strings: a missing and an empty string are falsy.\<close>

definition truthy :: "string option \<Rightarrow> bool" where
  "truthy v = (case v of None \<Rightarrow> False | Some s \<Rightarrow> s \<noteq> [])"

text \<open>
  One of the three list filters of \<open>search\<close>: it applies when the filter is given and
  not empty, and keeps the results whose field is truthy and in the list.
\<close>

definition apply_list_filter ::
    "string list option \<Rightarrow> (SearchResult \<Rightarrow> string option) \<Rightarrow> SearchResult list \<Rightarrow> SearchResult list" where
  "apply_list_filter wanted field results =
     (case wanted of
        None \<Rightarrow> results
      | Some ws \<Rightarrow>
          if length ws > 0
          then filter (\<lambda>r. truthy (field r) \<and> the (field r) \<in> set ws) results
          else results)"

text \<open>The result that \<open>search\<close> builds from a document and the regulations fetched.\<close>

definition to_result :: "Regulation list \<Rightarrow> Document \<Rightarrow> SearchResult" where
  "to_result regulations doc =
     (let regulationId = (case doc_metadata doc of None \<Rightarrow> None | Some m \<Rightarrow> meta_regulation_id m);
          regulation = (case regulationId of
                          None \<Rightarrow> None
                        | Some rid \<Rightarrow> find (\<lambda>r. reg_id r = rid) regulations);
          meta_title' = (case doc_metadata doc of None \<Rightarrow> None | Some m \<Rightarrow> meta_title m);
          meta_url' = (case doc_metadata doc of None \<Rightarrow> None | Some m \<Rightarrow> meta_url m)
      in \<lparr>id' = doc_id doc,
          regulationId = regulationId,
          title = (if truthy meta_title' then the meta_title'
                   else (case regulation of
                           None \<Rightarrow> ''Untitled''
                         | Some r \<Rightarrow> if reg_title r \<noteq> [] then reg_title r else ''Untitled'')),
          content = doc_content doc,
          summary = (case regulation of None \<Rightarrow> None | Some r \<Rightarrow> reg_summary r),
          jurisdiction = (case regulation of None \<Rightarrow> None | Some r \<Rightarrow> reg_jurisdiction r),
          category = (case regulation of None \<Rightarrow> None | Some r \<Rightarrow> reg_category r),
          priority = (case regulation of None \<Rightarrow> None | Some r \<Rightarrow> reg_priority r),
          similarity = doc_similarity doc,
          url = (if truthy meta_url' then the meta_url'
                 else (case regulation of None \<Rightarrow> [] | Some r \<Rightarrow> source_url r)),
          effectiveDate = (case regulation of None \<Rightarrow> None | Some r \<Rightarrow> effective_date r)\<rparr>)"

text \<open>
  \<open>search\<close>. The store's answers are parameters: \<open>matched\<close> is what \<^verbatim>\<open>match_documents\<close>
  returns for the embedded query (its rows, or an error message), and \<open>regsData\<close> is
  what the query on \<^verbatim>\<open>regulations\<close> returns for the ids found in the rows.
\<close>

definition search ::
    "string + Document list \<Rightarrow> Regulation list option \<Rightarrow> SearchFilter \<Rightarrow> int
      \<Rightarrow> js_error + SearchResult list" where
  "search matched regsData filters limit =
     (case matched of
        Inl message \<Rightarrow> Inl (Error (''Search failed: '' @ message))
      | Inr documents \<Rightarrow>
          (let regulationIds =
                 filter (\<lambda>i. i \<noteq> None)
                   (map (\<lambda>doc. case doc_metadata doc of None \<Rightarrow> None | Some m \<Rightarrow> meta_regulation_id m)
                      documents);
               regulations = (if length regulationIds > 0
                              then (case regsData of None \<Rightarrow> [] | Some rs \<Rightarrow> rs)
                              else []);
               results = map (to_result regulations) documents;
               by_jurisdiction = apply_list_filter (SearchFilter.jurisdiction filters) jurisdiction results;
               by_category = apply_list_filter (SearchFilter.category filters) category by_jurisdiction;
               by_priority = apply_list_filter (SearchFilter.priority filters) priority by_category;
               filteredResults =
                 (case dateRange filters of
                    None \<Rightarrow> by_priority
                  | Some (start, end') \<Rightarrow>
                      filter (\<lambda>r. truthy (effectiveDate r) \<and>
                                  string_le start (the (effectiveDate r)) \<and>
                                  string_le (the (effectiveDate r)) end')
                        by_priority)
           in Inr (slice filteredResults 0 limit)))"

text \<open>
  The \<^verbatim>\<open>Map\<close> of \<open>hybridSearch\<close>, as the list of its entries in insertion order:
  \<^verbatim>\<open>set\<close> on a key that is there replaces the value in place.
\<close>

definition map_has :: "(string \<times> 'v) list \<Rightarrow> string \<Rightarrow> bool" where
  "map_has m k = (k \<in> fst ` set m)"

definition map_set :: "string \<Rightarrow> 'v \<Rightarrow> (string \<times> 'v) list \<Rightarrow> (string \<times> 'v) list" where
  "map_set k v m =
     (if map_has m k then map (\<lambda>(k', v'). if k' = k then (k', v) else (k', v')) m
      else m @ [(k, v)])"

text \<open>The loop over the semantic results.\<close>

fun add_semantic :: "SearchResult list \<Rightarrow> (string \<times> SearchResult) list \<Rightarrow> (string \<times> SearchResult) list" where
  "add_semantic [] m = m"
| "add_semantic (result # rest) m =
     add_semantic rest
       (if truthy (regulationId result) then map_set (the (regulationId result)) result m else m)"

text \<open>The result built for a regulation that only the keyword search found.\<close>

definition keyword_result :: "Regulation \<Rightarrow> SearchResult" where
  "keyword_result regulation =
     \<lparr>id' = reg_id regulation,
      regulationId = Some (reg_id regulation),
      title = reg_title regulation,
      content = (if truthy (reg_summary regulation) then the (reg_summary regulation) else []),
      summary = reg_summary regulation,
      jurisdiction = reg_jurisdiction regulation,
      category = reg_category regulation,
      priority = reg_priority regulation,
      similarity = 1 / 2,
      url = source_url regulation,
      effectiveDate = effective_date regulation\<rparr>"

text \<open>The loop over the keyword results.\<close>

fun add_keyword :: "Regulation list \<Rightarrow> (string \<times> SearchResult) list \<Rightarrow> (string \<times> SearchResult) list" where
  "add_keyword [] m = m"
| "add_keyword (regulation # rest) m =
     add_keyword rest
       (if \<not> map_has m (reg_id regulation)
        then map_set (reg_id regulation) (keyword_result regulation) m
        else m)"

text \<open>
  \<open>hybridSearch\<close>; \<open>keywordResults\<close> is what the title search returns (its rows, or
  nothing). \<^verbatim>\<open>sort\<close> is stable: \<open>sort_key\<close> on the negated similarity.
\<close>

definition hybridSearch ::
    "string + Document list \<Rightarrow> Regulation list option \<Rightarrow> Regulation list option \<Rightarrow> SearchFilter \<Rightarrow> int
      \<Rightarrow> js_error + SearchResult list" where
  "hybridSearch matched regsData keywordResults filters limit =
     (case search matched regsData filters limit of
        Inl e \<Rightarrow> Inl e
      | Inr semanticResults \<Rightarrow>
          (let mergedResults = add_semantic semanticResults [];
               mergedResults' = (case keywordResults of
                                   None \<Rightarrow> mergedResults
                                 | Some regulations \<Rightarrow> add_keyword regulations mergedResults)
           in Inr (slice (sort_key (\<lambda>r. - similarity r) (map snd mergedResults')) 0 limit)))"

text \<open>Every value of the map carries the key of its entry as its record identifier.\<close>

definition keyed :: "(string \<times> SearchResult) list \<Rightarrow> bool" where
  "keyed m = (\<forall>(k, v) \<in> set m. regulationId v = Some k)"


section \<open>The job scheduler: \<^verbatim>\<open>job-manager.ts\<close>\<close>

text \<open>
  A row of the table \<^verbatim>\<open>scraping_jobs\<close>. A time stamp is its time value in milliseconds
  (the program stores the ISO text of the same instant); the two counters are natural
  numbers. The table is the list of its rows; the store is reached only through the
  queries below.
\<close>

datatype JobStatus = pending | running | completed | failed

record Job =
  id' :: string
  source_id :: string
  url :: string
  status :: JobStatus
  priority :: int
  scheduled_at :: int
  started_at :: "int option"
  completed_at :: "int option"
  updated_at :: "int option"
  error_message :: "string option"
  retry_count :: nat
  max_retries :: nat

text \<open>
  \<^verbatim>\<open>new Date(t).toISOString()\<close> throws a \<^verbatim>\<open>RangeError\<close> when \<open>t\<close> is outside the range
  of time values, \<open>8.64e15\<close> milliseconds either side of the epoch.
\<close>

definition valid_time :: "int \<Rightarrow> bool" where
  "valid_time t = (\<bar>t\<bar> \<le> 8640000000000000)"

text \<open>
  \<^verbatim>\<open>.update(updates).eq("id", jobId)\<close>: every row with that id is updated. The flag says
  whether the store applied the update; when it did not, the program logs the error
  and goes on.
\<close>

definition db_update :: "bool \<Rightarrow> string \<Rightarrow> (Job \<Rightarrow> Job) \<Rightarrow> Job list \<Rightarrow> Job list" where
  "db_update applied jobId f tbl =
     (if applied then map (\<lambda>r. if id' r = jobId then f r else r) tbl else tbl)"

text \<open>
  \<open>createJob\<close>. The optional schedule time is a \<^verbatim>\<open>Date\<close>, given by its time value; for a
  \<^verbatim>\<open>Date\<close> outside the time values \<^verbatim>\<open>toISOString\<close> throws, before anything is sent to the
  store. Otherwise the store chooses the id of the new row and returns the row, or it
  answers with an error message, which \<open>createJob\<close> throws.
\<close>

definition createJob ::
    "string option \<Rightarrow> string \<Rightarrow> int \<Rightarrow> string \<Rightarrow> string \<Rightarrow> int \<Rightarrow> int option \<Rightarrow> Job list \<Rightarrow> js_error + (string \<times> Job list)" where
  "createJob insert_error new_id now sourceId u prio scheduledAt tbl =
     (if (case scheduledAt of Some t \<Rightarrow> \<not> valid_time t | None \<Rightarrow> False) then Inl RangeError
      else (case insert_error of
              Some message \<Rightarrow> Inl (Error (''Failed to create job: '' @ message))
            | None \<Rightarrow>
                Inr (new_id,
                   tbl @ [\<lparr>id' = new_id, source_id = sourceId, url = u, status = pending,
                           priority = prio,
                           scheduled_at = (case scheduledAt of Some t \<Rightarrow> t | None \<Rightarrow> now),
                           started_at = None, completed_at = None, updated_at = None,
                           error_message = None, retry_count = 0, max_retries = 3\<rparr>])))"

text \<open>
  \<open>getNextJob\<close>: the pending rows whose time has come, by priority descending, then
  by scheduled time ascending, the first of them. Among rows equal in both the store
  may return any; the model returns the earliest in the table.
\<close>

definition precedes :: "Job \<Rightarrow> Job \<Rightarrow> bool" where
  "precedes a b = (priority a > priority b \<or> (priority a = priority b \<and> scheduled_at a < scheduled_at b))"

fun first_in_order :: "Job list \<Rightarrow> Job option" where
  "first_in_order [] = None"
| "first_in_order (r # rs) =
     (case first_in_order rs of
        None \<Rightarrow> Some r
      | Some b \<Rightarrow> if precedes b r then Some b else Some r)"

definition getNextJob :: "int \<Rightarrow> Job list \<Rightarrow> Job option" where
  "getNextJob now tbl = first_in_order (filter (\<lambda>r. status r = pending \<and> scheduled_at r \<le> now) tbl)"

text \<open>
  \<open>updateJobStatus\<close>, with the two clock readings of the call. The error message is
  written only when it is given and is not the empty string (\<^verbatim>\<open>if (errorMessage)\<close>).
\<close>

definition updateJobStatus ::
    "bool \<Rightarrow> int \<Rightarrow> int \<Rightarrow> string \<Rightarrow> JobStatus \<Rightarrow> string option \<Rightarrow> Job list \<Rightarrow> Job list" where
  "updateJobStatus applied t_updated t_stamp jobId st errorMessage tbl =
     db_update applied jobId
       (\<lambda>r. let r1 = r\<lparr>status := st, updated_at := Some t_updated\<rparr>;
                r2 = (if st = running then r1\<lparr>started_at := Some t_stamp\<rparr>
                      else if st = completed \<or> st = failed then r1\<lparr>completed_at := Some t_stamp\<rparr>
                      else r1)
            in (case errorMessage of
                  None \<Rightarrow> r2
                | Some m \<Rightarrow> if m \<noteq> [] then r2\<lparr>error_message := Some m\<rparr> else r2))
       tbl"

text \<open>
  What \<^verbatim>\<open>runPipeline\<close> does in one execution: it returns a result with a status and
  its error list, or the call throws (an \<^verbatim>\<open>Error\<close> with its message, or another value).
\<close>

datatype PipelineStatus = p_success | p_partial | p_failed

datatype run_outcome = Returned PipelineStatus "string list" | Threw "string option"

text \<open>
  The message that reaches the \<^verbatim>\<open>catch\<close> block of \<open>executeJob\<close>, if any: a result that is
  neither \<^verbatim>\<open>success\<close> nor \<^verbatim>\<open>partial\<close> is thrown with its errors joined by a comma.
\<close>

fun failure_message :: "run_outcome \<Rightarrow> string option" where
  "failure_message (Returned p_success errs) = None"
| "failure_message (Returned p_partial errs) = None"
| "failure_message (Returned p_failed errs) = Some (join '', '' errs)"
| "failure_message (Threw (Some m)) = Some m"
| "failure_message (Threw None) = Some ''Unknown error''"

text \<open>What one call of \<open>executeJob\<close> takes from outside: the pipeline, the clock, the store.\<close>

record exec_env =
  outcome :: run_outcome
  t_next :: int
  t_running_updated :: int
  t_running_started :: int
  t_final_updated :: int
  t_final_completed :: int
  t_retry :: int
  applied_running :: bool
  applied_final :: bool

text \<open>
  \<open>executeJob\<close>: the table after the call, and the error with which the call ends
  if it throws. \<open>job\<close> is the object the caller holds; its counters are read from it,
  not from the table.
\<close>

definition executeJob :: "exec_env \<Rightarrow> Job \<Rightarrow> Job list \<Rightarrow> Job list \<times> js_error option" where
  "executeJob env job tbl =
     (let tbl1 = updateJobStatus (applied_running env) (t_running_updated env) (t_running_started env)
                   (id' job) running None tbl
      in case failure_message (outcome env) of
           None \<Rightarrow>
             (updateJobStatus (applied_final env) (t_final_updated env) (t_final_completed env)
                (id' job) completed None tbl1, None)
         | Some errorMessage \<Rightarrow>
             if retry_count job < max_retries job
             then (if valid_time (t_retry env + 60000 * 2 ^ retry_count job)
                   then (db_update (applied_final env) (id' job)
                           (\<lambda>r. r\<lparr>status := pending,
                                   retry_count := retry_count job + 1,
                                   error_message := Some errorMessage,
                                   scheduled_at := t_retry env + 60000 * 2 ^ retry_count job\<rparr>)
                           tbl1, None)
                   else (tbl1, Some RangeError))
             else (updateJobStatus (applied_final env) (t_final_updated env) (t_final_completed env)
                     (id' job) failed (Some errorMessage) tbl1, None))"

text \<open>
  \<open>processQueue\<close>: iteration \<open>i\<close> of the loop runs in the environment \<open>envs i\<close> and
  reads the clock for \<open>getNextJob\<close> at \<open>t_next (envs i)\<close>. The result is the number of
  jobs processed and the table, with the error if an execution threw.
\<close>

fun run_queue :: "exec_env list \<Rightarrow> Job list \<Rightarrow> nat \<Rightarrow> nat \<times> Job list \<times> js_error option" where
  "run_queue [] tbl processed = (processed, tbl, None)"
| "run_queue (env # envs) tbl processed =
     (case getNextJob (t_next env) tbl of
        None \<Rightarrow> (processed, tbl, None)
      | Some job \<Rightarrow>
          (case executeJob env job tbl of
             (tbl', Some e) \<Rightarrow> (processed, tbl', Some e)
           | (tbl', None) \<Rightarrow> run_queue envs tbl' (processed + 1)))"

definition processQueue :: "nat \<Rightarrow> (nat \<Rightarrow> exec_env) \<Rightarrow> Job list \<Rightarrow> nat \<times> Job list \<times> js_error option" where
  "processQueue maxJobs envs tbl = run_queue (map envs [0 ..< maxJobs]) tbl 0"

text \<open>
  For the invariant of the retry counter: a row is within its bound, and a row of the
  job that is executed has the bound that the caller's object has.
\<close>

definition counts_ok :: "Job \<Rightarrow> Job \<Rightarrow> bool" where
  "counts_ok job r = (retry_count r \<le> max_retries r \<and> (id' r = id' job \<longrightarrow> max_retries r = max_retries job))"


section \<open>Properties of the crawl policy\<close>

subsection \<open>The compiled expression of a pattern\<close>

lemma dollar_to_dollar_id: "dollar_to_dollar s = s"
  by (induction s) (simp_all add: dollar_to_dollar_def)

lemma star_to_dotstar_append: "star_to_dotstar (xs @ ys) = star_to_dotstar xs @ star_to_dotstar ys"
  by (simp add: star_to_dotstar_def)

lemma regexPattern_pieces: "regexPattern p = concat (map piece p)"
proof (induction p)
  case Nil
  show ?case
    by (simp add: regexPattern_def dollar_to_dollar_id star_to_dotstar_def escape_specials_def)
next
  case (Cons c p)
  have "star_to_dotstar (escape_specials (c # p)) = piece c @ star_to_dotstar (escape_specials p)"
    by (simp add: star_to_dotstar_def escape_specials_def piece_def escape_class_def backslash_def)
  with Cons show ?case
    by (simp add: regexPattern_def dollar_to_dollar_id)
qed

lemma regex_lex_plain:
  "c \<noteq> backslash \<Longrightarrow> tok c = Some t \<Longrightarrow> regex_lex (c # rest) = map_option ((#) t) (regex_lex rest)"
  by (cases rest) simp_all

lemma regex_lex_piece:
  "regex_lex (piece c @ rest) = map_option ((@) (piece_tokens c)) (regex_lex rest)"
proof -
  consider (esc) "c \<in> set escape_class" | (star) "c = CHR ''*''" | (lit) "c \<notin> set escape_class" "c \<noteq> CHR ''*''"
    by blast
  then show ?thesis
  proof cases
    case esc
    then have "c \<in> set syntax_chars" "c \<noteq> CHR ''*''"
      by (auto simp: escape_class_def syntax_chars_def backslash_def)
    then show ?thesis using esc
      by (cases "regex_lex rest") (simp_all add: piece_def piece_tokens_def)
  next
    case star
    have "regex_lex (CHR ''.'' # CHR ''*'' # rest) = map_option ((#) TDot) (regex_lex (CHR ''*'' # rest))"
      by (simp add: backslash_def tok_def)
    also have "regex_lex (CHR ''*'' # rest) = map_option ((#) TStar) (regex_lex rest)"
      by (rule regex_lex_plain) (simp_all add: backslash_def tok_def)
    finally show ?thesis using star
      by (cases "regex_lex rest") (simp_all add: piece_def piece_tokens_def escape_class_def backslash_def)
  next
    case lit
    then have "c \<noteq> backslash" "tok c = Some (TLit c)"
      by (auto simp: escape_class_def tok_def)
    then show ?thesis using lit
      by (cases "regex_lex rest") (simp_all add: piece_def piece_tokens_def regex_lex_plain)
  qed
qed

lemma regex_lex_pieces: "regex_lex (concat (map piece p)) = Some (concat (map piece_tokens p))"
  by (induction p) (simp_all add: regex_lex_piece)

lemma regex_parse_pieces: "regex_parse (concat (map piece_tokens p)) = Some (map piece_term p)"
proof (induction p)
  case Nil
  show ?case by simp
next
  case (Cons c p)
  show ?case
  proof (cases "c = CHR ''*''")
    case True
    with Cons show ?thesis by (simp add: piece_tokens_def piece_term_def)
  next
    case False
    have step: "regex_parse (TLit c # concat (map piece_tokens p)) =
          map_option ((#) (Atom (AChar c))) (regex_parse (concat (map piece_tokens p)))"
      by (cases p) (simp_all add: piece_tokens_def)
    have "concat (map piece_tokens (c # p)) = TLit c # concat (map piece_tokens p)"
      using False by (simp add: piece_tokens_def)
    then show ?thesis using Cons step False by (simp add: piece_term_def)
  qed
qed

lemma regex_compile_pattern:
  "regex_compile (CHR ''^'' # regexPattern p) = Some (AssertStart # map piece_term p)"
proof -
  have "regex_lex (CHR ''^'' # regexPattern p) = Some (TCaret # concat (map piece_tokens p))"
    by (simp add: regex_lex_plain [where t = TCaret] backslash_def tok_def regexPattern_pieces regex_lex_pieces)
  moreover have "regex_parse (TCaret # concat (map piece_tokens p)) = Some (AssertStart # map piece_term p)"
    using regex_parse_pieces [of p] by (cases p) (auto simp: piece_tokens_def)
  ultimately show ?thesis by (simp add: regex_compile_def)
qed

lemma matchesPattern_total:
  "matchesPattern path p = Inr (regex_test (AssertStart # map piece_term p) path)"
  by (simp add: matchesPattern_def regex_compile_pattern)

lemma first_match_any:
  "first_match path ps = Inr (\<exists>p \<in> set ps. matchesPattern path p = Inr True)"
  by (induction ps) (auto simp: matchesPattern_total)


subsection \<open>Allow before disallow\<close>

lemma defaultRule_parse:
  "defaultRule (parse parseFloat robotsTxtContent) =
     (case rules (parse parseFloat robotsTxtContent) ''*'' of Some r \<Rightarrow> r | None \<Rightarrow> initial_defaultRule)"
  by (simp add: parse_def Let_def)

text \<open>
  Claim C1. For every parsed crawl-policy document, agent name and URL that the platform
  parses, \<open>isAllowed\<close> takes the rule set stored under the lower-cased agent name if
  there is one, else the rule set of \<^verbatim>\<open>*\<close>, else the empty rule set. It returns true when
  the pathname matches some allow pattern, also when it matches a disallow pattern as
  well; false when no allow pattern matches and some disallow pattern does; true when
  neither list matches.
\<close>

theorem isAllowed_allow_precedence:
  assumes "parseURL u = Some urlObj"
  shows "isAllowed parseURL (parse parseFloat robotsTxtContent) u agent =
     Inr (let table = rules (parse parseFloat robotsTxtContent);
              rule = (case table (toLowerCase agent) of
                        Some r \<Rightarrow> r
                      | None \<Rightarrow> (case table ''*'' of Some r \<Rightarrow> r | None \<Rightarrow> initial_defaultRule))
          in if (\<exists>p \<in> set (allow rule). matchesPattern (pathname urlObj) p = Inr True) then True
             else if (\<exists>p \<in> set (disallow rule). matchesPattern (pathname urlObj) p = Inr True) then False
             else True)"
proof -
  have "(case rules (parse parseFloat robotsTxtContent) (toLowerCase agent) of
           Some r \<Rightarrow> r
         | None \<Rightarrow> defaultRule (parse parseFloat robotsTxtContent)) =
        (case rules (parse parseFloat robotsTxtContent) (toLowerCase agent) of
           Some r \<Rightarrow> r
         | None \<Rightarrow> (case rules (parse parseFloat robotsTxtContent) ''*'' of
                       Some r \<Rightarrow> r
                     | None \<Rightarrow> initial_defaultRule))"
    by (simp add: defaultRule_parse [symmetric] split: option.split)
  then show ?thesis
    using assms by (simp add: isAllowed_def first_match_any Let_def)
qed

text \<open>
  The scenario of the specification: \<^verbatim>\<open>/private/public/doc\<close> matches the disallow
  pattern \<^verbatim>\<open>/private\<close> and the allow pattern \<^verbatim>\<open>/private/public\<close>, and is allowed.
\<close>

theorem isAllowed_allow_precedence_witness:
  "(\<lambda>s. if s = ''https://example.com/private/public/doc''
         then Some \<lparr>protocol = ''https:'', hostname = ''example.com'', pathname = ''/private/public/doc''\<rparr>
         else None) ''https://example.com/private/public/doc''
     = Some \<lparr>protocol = ''https:'', hostname = ''example.com'', pathname = ''/private/public/doc''\<rparr>
   \<and> isAllowed
       (\<lambda>s. if s = ''https://example.com/private/public/doc''
         then Some \<lparr>protocol = ''https:'', hostname = ''example.com'', pathname = ''/private/public/doc''\<rparr>
         else None)
       (parse (\<lambda>s. ()) ''User-agent: *\<newline>Disallow: /private\<newline>Allow: /private/public'')
       ''https://example.com/private/public/doc'' ''RegulatoryComplianceBot/1.0'' = Inr True"
proof -
  let ?P = "\<lambda>s. if s = ''https://example.com/private/public/doc''
         then Some \<lparr>protocol = ''https:'', hostname = ''example.com'', pathname = ''/private/public/doc''\<rparr>
         else None"
  let ?doc = "parse (\<lambda>s. ()) ''User-agent: *\<newline>Disallow: /private\<newline>Allow: /private/public''"
  have h: "?P ''https://example.com/private/public/doc''
     = Some \<lparr>protocol = ''https:'', hostname = ''example.com'', pathname = ''/private/public/doc''\<rparr>"
    by simp
  have r: "(let table = rules ?doc;
              rule = (case table (toLowerCase ''RegulatoryComplianceBot/1.0'') of
                        Some r \<Rightarrow> r
                      | None \<Rightarrow> (case table ''*'' of Some r \<Rightarrow> r | None \<Rightarrow> initial_defaultRule))
          in if (\<exists>p \<in> set (allow rule). matchesPattern ''/private/public/doc'' p = Inr True) then True
             else if (\<exists>p \<in> set (disallow rule). matchesPattern ''/private/public/doc'' p = Inr True) then False
             else True) = True"
    by code_simp
  have e: "isAllowed ?P ?doc ''https://example.com/private/public/doc'' ''RegulatoryComplianceBot/1.0'' =
     Inr (let table = rules ?doc;
              rule = (case table (toLowerCase ''RegulatoryComplianceBot/1.0'') of
                        Some r \<Rightarrow> r
                      | None \<Rightarrow> (case table ''*'' of Some r \<Rightarrow> r | None \<Rightarrow> initial_defaultRule))
          in if (\<exists>p \<in> set (allow rule). matchesPattern ''/private/public/doc'' p = Inr True) then True
             else if (\<exists>p \<in> set (disallow rule). matchesPattern ''/private/public/doc'' p = Inr True) then False
             else True)"
    using isAllowed_allow_precedence [of ?P "''https://example.com/private/public/doc''"
        "\<lparr>protocol = ''https:'', hostname = ''example.com'', pathname = ''/private/public/doc''\<rparr>"
        "\<lambda>s. ()" "''User-agent: *\<newline>Disallow: /private\<newline>Allow: /private/public''"
        "''RegulatoryComplianceBot/1.0''"]
    by simp
  show ?thesis
    by (intro conjI, rule h, simp only: e r)
qed

subsection \<open>The end anchor\<close>

text \<open>
  Claim C6. The pattern match treats \<^verbatim>\<open>*\<close> as any character sequence and \<^verbatim>\<open>$\<close> as the end
  of the path, escapes every other metacharacter, and succeeds when a prefix of the path
  matches. The first rewrite escapes \<^verbatim>\<open>$\<close> with the other metacharacters and the third
  rewrite leaves the text as it is, so in the compiled expression \<^verbatim>\<open>$\<close> is the character
  \<^verbatim>\<open>$\<close>: the pattern \<^verbatim>\<open>/page$\<close> does not match the path \<^verbatim>\<open>/page\<close>, which it should, and
  matches the path \<^verbatim>\<open>/page$x\<close>, which it should not.
\<close>

theorem matchesPattern_dollar_is_literal:
  "matchesPattern ''/page'' ''/page$'' = Inr False \<and> spec_matches ''/page$'' ''/page'' = True
   \<and> matchesPattern ''/page$x'' ''/page$'' = Inr True \<and> spec_matches ''/page$'' ''/page$x'' = False"
  by code_simp


section \<open>Properties of the rate limiter\<close>

lemma totalRequests_foldl: "foldl (\<lambda>sum record. sum + count record) a rs = a + sum_list (map count rs)"
  by (induction rs arbitrary: a) simp_all

lemma totalRequests_sum: "totalRequests rs = sum_list (map count rs)"
  by (simp add: totalRequests_def totalRequests_foldl)

lemma sorted_filter_hd_least:
  "sorted (map f xs) \<Longrightarrow> filter P xs = y # ys \<Longrightarrow> \<forall>x \<in> set (filter P xs). f y \<le> f x"
proof (induction xs)
  case Nil
  then show ?case by simp
next
  case (Cons a xs)
  then show ?case by (auto split: if_splits)
qed

text \<open>
  Claim C2. \<open>recentRecords\<close> are the records of the domain less than 60 seconds old at
  \<open>now\<close>, and \<open>totalRequests\<close> of them is the number of requests in the window. When
  that number has reached a (positive) budget, \<open>waitForSlot\<close> sleeps
  \<open>max (60000 - (now - oldestTimestamp)) minDelay\<close> milliseconds, where the oldest record is
  the first of the window, the one with the least time stamp when the records are in
  the order of their time stamps. When the window is under budget, it sleeps the
  randomized delay \<open>minDelay + random * (maxDelay - minDelay)\<close>, where \<open>random\<close> is what
  \<^verbatim>\<open>Math.random()\<close> returns; for a random number in \<open>[0, 1)\<close> and \<open>minDelay \<le> maxDelay\<close> the
  delay lies in \<open>[minDelay, maxDelay]\<close>.
  In both cases the list stored for the domain is the window followed by a record with
  the clock reading after the sleep; every record kept is less than 60 seconds old at
  \<open>now\<close> and every such record is kept.
\<close>

theorem waitForSlot_delay:
  "(real_of_int (totalRequests (recentRecords this domain now)) \<ge> requestsPerMinute (RateLimiter.config this) \<and>
      0 < requestsPerMinute (RateLimiter.config this)
    \<longrightarrow> (\<exists>oldest rest. recentRecords this domain now = oldest # rest \<and>
          (sorted (map RequestRecord.timestamp (case domainRecords this domain of None \<Rightarrow> [] | Some rs \<Rightarrow> rs))
             \<longrightarrow> (\<forall>r \<in> set (recentRecords this domain now). RequestRecord.timestamp oldest \<le> RequestRecord.timestamp r)) \<and>
          waitForSlot now random now_after this domain =
            Inr (max (real_of_int (60000 - (now - RequestRecord.timestamp oldest))) (minDelay (RateLimiter.config this)),
                 this\<lparr>domainRecords := (domainRecords this)(domain \<mapsto>
                        recentRecords this domain now @ [\<lparr>RequestRecord.timestamp = now_after, count = 1\<rparr>])\<rparr>)))
   \<and> (real_of_int (totalRequests (recentRecords this domain now)) < requestsPerMinute (RateLimiter.config this)
    \<longrightarrow> waitForSlot now random now_after this domain =
          Inr (minDelay (RateLimiter.config this)
                 + random * (maxDelay (RateLimiter.config this) - minDelay (RateLimiter.config this)),
               this\<lparr>domainRecords := (domainRecords this)(domain \<mapsto>
                      recentRecords this domain now @ [\<lparr>RequestRecord.timestamp = now_after, count = 1\<rparr>])\<rparr>)
        \<and> (0 \<le> random \<and> random < 1 \<and> minDelay (RateLimiter.config this) \<le> maxDelay (RateLimiter.config this)
             \<longrightarrow> minDelay (RateLimiter.config this)
                    \<le> minDelay (RateLimiter.config this)
                       + random * (maxDelay (RateLimiter.config this) - minDelay (RateLimiter.config this))
                 \<and> minDelay (RateLimiter.config this)
                       + random * (maxDelay (RateLimiter.config this) - minDelay (RateLimiter.config this))
                    \<le> maxDelay (RateLimiter.config this)))
   \<and> (\<forall>r \<in> set (recentRecords this domain now). now - RequestRecord.timestamp r < 60000)
   \<and> (\<forall>r \<in> set (case domainRecords this domain of None \<Rightarrow> [] | Some rs \<Rightarrow> rs).
         now - RequestRecord.timestamp r < 60000 \<longrightarrow> r \<in> set (recentRecords this domain now))"
proof (intro conjI impI)
  assume h: "real_of_int (totalRequests (recentRecords this domain now)) \<ge> requestsPerMinute (RateLimiter.config this) \<and>
      0 < requestsPerMinute (RateLimiter.config this)"
  then have "recentRecords this domain now \<noteq> []"
    by (auto simp: totalRequests_sum)
  then obtain oldest rest where r: "recentRecords this domain now = oldest # rest"
    by (cases "recentRecords this domain now") auto
  have "sorted (map RequestRecord.timestamp (case domainRecords this domain of None \<Rightarrow> [] | Some rs \<Rightarrow> rs))
             \<longrightarrow> (\<forall>r \<in> set (recentRecords this domain now). RequestRecord.timestamp oldest \<le> RequestRecord.timestamp r)"
    using r sorted_filter_hd_least [of RequestRecord.timestamp _ "\<lambda>record. now - RequestRecord.timestamp record < 60000" oldest rest]
    unfolding recentRecords_def by blast
  moreover have "waitForSlot now random now_after this domain =
            Inr (max (real_of_int (60000 - (now - RequestRecord.timestamp oldest))) (minDelay (RateLimiter.config this)),
                 this\<lparr>domainRecords := (domainRecords this)(domain \<mapsto>
                        recentRecords this domain now @ [\<lparr>RequestRecord.timestamp = now_after, count = 1\<rparr>])\<rparr>)"
    using h r by (simp add: waitForSlot_def Let_def)
  ultimately show "\<exists>oldest rest. recentRecords this domain now = oldest # rest \<and>
          (sorted (map RequestRecord.timestamp (case domainRecords this domain of None \<Rightarrow> [] | Some rs \<Rightarrow> rs))
             \<longrightarrow> (\<forall>r \<in> set (recentRecords this domain now). RequestRecord.timestamp oldest \<le> RequestRecord.timestamp r)) \<and>
          waitForSlot now random now_after this domain =
            Inr (max (real_of_int (60000 - (now - RequestRecord.timestamp oldest))) (minDelay (RateLimiter.config this)),
                 this\<lparr>domainRecords := (domainRecords this)(domain \<mapsto>
                        recentRecords this domain now @ [\<lparr>RequestRecord.timestamp = now_after, count = 1\<rparr>])\<rparr>)"
    using r by blast
next
  assume "real_of_int (totalRequests (recentRecords this domain now)) < requestsPerMinute (RateLimiter.config this)"
  then show "waitForSlot now random now_after this domain =
          Inr (minDelay (RateLimiter.config this)
                 + random * (maxDelay (RateLimiter.config this) - minDelay (RateLimiter.config this)),
               this\<lparr>domainRecords := (domainRecords this)(domain \<mapsto>
                      recentRecords this domain now @ [\<lparr>RequestRecord.timestamp = now_after, count = 1\<rparr>])\<rparr>)"
    by (simp add: waitForSlot_def Let_def)
next
  assume h: "0 \<le> random \<and> random < 1 \<and> minDelay (RateLimiter.config this) \<le> maxDelay (RateLimiter.config this)"
  then show "minDelay (RateLimiter.config this)
                    \<le> minDelay (RateLimiter.config this)
                       + random * (maxDelay (RateLimiter.config this) - minDelay (RateLimiter.config this))"
    by simp
next
  assume h: "0 \<le> random \<and> random < 1 \<and> minDelay (RateLimiter.config this) \<le> maxDelay (RateLimiter.config this)"
  have "random * (maxDelay (RateLimiter.config this) - minDelay (RateLimiter.config this))
          \<le> 1 * (maxDelay (RateLimiter.config this) - minDelay (RateLimiter.config this))"
    using h by (intro mult_right_mono) simp_all
  then show "minDelay (RateLimiter.config this)
                       + random * (maxDelay (RateLimiter.config this) - minDelay (RateLimiter.config this))
                    \<le> maxDelay (RateLimiter.config this)"
    by simp
next
  show "\<forall>r \<in> set (recentRecords this domain now). now - RequestRecord.timestamp r < 60000"
    by (simp add: recentRecords_def)
next
  show "\<forall>r \<in> set (case domainRecords this domain of None \<Rightarrow> [] | Some rs \<Rightarrow> rs).
         now - RequestRecord.timestamp r < 60000 \<longrightarrow> r \<in> set (recentRecords this domain now)"
    by (simp add: recentRecords_def)
qed


text \<open>
  The scenario of the specification (budget 2, two requests in the last second, the
  third call sleeps 59200 ms), and a first request on a limiter with the defaults.
\<close>

theorem waitForSlot_delay_witness:
  "(\<exists>after. waitForSlot 1900 (1 / 4) 61100 \<lparr>domainRecords = [''x.com'' \<mapsto> [\<lparr>RequestRecord.timestamp = 1100, count = 1\<rparr>, \<lparr>RequestRecord.timestamp = 1700, count = 1\<rparr>]], RateLimiter.config = \<lparr>requestsPerMinute = 2, minDelay = 100, maxDelay = 100\<rparr>\<rparr> ''x.com'' = Inr (59200, after) \<and>
      domainRecords after ''x.com'' =
        Some [\<lparr>RequestRecord.timestamp = 1100, count = 1\<rparr>, \<lparr>RequestRecord.timestamp = 1700, count = 1\<rparr>,
              \<lparr>RequestRecord.timestamp = 61100, count = 1\<rparr>])
   \<and> (\<exists>after. waitForSlot 1000 (1 / 2) 3000 (new_RateLimiter None) ''www.sec.gov'' = Inr (2000, after) \<and>
      domainRecords after ''www.sec.gov'' = Some [\<lparr>RequestRecord.timestamp = 3000, count = 1\<rparr>])
   \<and> (1000 :: real) \<le> 1000 + 1 / 2 * (3000 - 1000) \<and> (1000 :: real) + 1 / 2 * (3000 - 1000) \<le> 3000"
proof -
  let ?lim = "\<lparr>domainRecords = [''x.com'' \<mapsto> [\<lparr>RequestRecord.timestamp = 1100, count = 1\<rparr>, \<lparr>RequestRecord.timestamp = 1700, count = 1\<rparr>]], RateLimiter.config = \<lparr>requestsPerMinute = 2, minDelay = 100, maxDelay = 100\<rparr>\<rparr>"
  have rec2: "recentRecords ?lim ''x.com'' 1900 =
      [\<lparr>RequestRecord.timestamp = 1100, count = 1\<rparr>, \<lparr>RequestRecord.timestamp = 1700, count = 1\<rparr>]"
    by (simp add: recentRecords_def)
  have h2: "real_of_int (totalRequests (recentRecords ?lim ''x.com'' 1900)) \<ge> requestsPerMinute (RateLimiter.config ?lim) \<and>
      0 < requestsPerMinute (RateLimiter.config ?lim)"
    by (simp add: rec2 totalRequests_def)
  from waitForSlot_delay [where this = ?lim and domain = "''x.com''" and now = 1900
      and random = "1 / 4" and now_after = 61100] h2
  obtain oldest rest where o: "recentRecords ?lim ''x.com'' 1900 = oldest # rest"
    "waitForSlot 1900 (1 / 4) 61100 ?lim ''x.com'' =
       Inr (max (real_of_int (60000 - (1900 - RequestRecord.timestamp oldest))) (minDelay (RateLimiter.config ?lim)),
            ?lim\<lparr>domainRecords := (domainRecords ?lim)(''x.com'' \<mapsto>
               recentRecords ?lim ''x.com'' 1900 @ [\<lparr>RequestRecord.timestamp = 61100, count = 1\<rparr>])\<rparr>)"
    by blast
  from o(1) rec2 have "oldest = \<lparr>RequestRecord.timestamp = 1100, count = 1\<rparr>" by simp
  with o(2) rec2 have first: "\<exists>after. waitForSlot 1900 (1 / 4) 61100 ?lim ''x.com'' = Inr (59200, after) \<and>
      domainRecords after ''x.com'' =
        Some [\<lparr>RequestRecord.timestamp = 1100, count = 1\<rparr>, \<lparr>RequestRecord.timestamp = 1700, count = 1\<rparr>,
              \<lparr>RequestRecord.timestamp = 61100, count = 1\<rparr>]"
    by simp
  let ?new = "new_RateLimiter None"
  have rec0: "recentRecords ?new ''www.sec.gov'' 1000 = []"
    by (simp add: recentRecords_def new_RateLimiter_def)
  have cfg: "RateLimiter.config ?new = \<lparr>requestsPerMinute = 30, minDelay = 1000, maxDelay = 3000\<rparr>"
    by (simp add: new_RateLimiter_def or_default_def)
  have tot0: "totalRequests (recentRecords ?new ''www.sec.gov'' 1000) = 0"
    unfolding rec0 by (simp add: totalRequests_def)
  have h0: "real_of_int (totalRequests (recentRecords ?new ''www.sec.gov'' 1000)) < requestsPerMinute (RateLimiter.config ?new)"
    unfolding tot0 cfg by simp
  have r0: "0 \<le> (1 / 2 :: real) \<and> (1 / 2 :: real) < 1 \<and> minDelay (RateLimiter.config ?new) \<le> maxDelay (RateLimiter.config ?new)"
    unfolding cfg by simp
  note W = waitForSlot_delay [where this = ?new and domain = "''www.sec.gov''" and now = 1000
      and random = "1 / 2" and now_after = 3000]
  from W h0 have run: "waitForSlot 1000 (1 / 2) 3000 ?new ''www.sec.gov'' =
       Inr (minDelay (RateLimiter.config ?new)
              + 1 / 2 * (maxDelay (RateLimiter.config ?new) - minDelay (RateLimiter.config ?new)),
            ?new\<lparr>domainRecords := (domainRecords ?new)(''www.sec.gov'' \<mapsto>
               recentRecords ?new ''www.sec.gov'' 1000 @ [\<lparr>RequestRecord.timestamp = 3000, count = 1\<rparr>])\<rparr>)"
    by blast
  from W h0 r0 have bounds: "minDelay (RateLimiter.config ?new)
        \<le> minDelay (RateLimiter.config ?new)
            + 1 / 2 * (maxDelay (RateLimiter.config ?new) - minDelay (RateLimiter.config ?new))"
      "minDelay (RateLimiter.config ?new)
            + 1 / 2 * (maxDelay (RateLimiter.config ?new) - minDelay (RateLimiter.config ?new))
        \<le> maxDelay (RateLimiter.config ?new)"
    by blast+
  have second: "\<exists>after. waitForSlot 1000 (1 / 2) 3000 ?new ''www.sec.gov'' = Inr (2000, after) \<and>
      domainRecords after ''www.sec.gov'' = Some [\<lparr>RequestRecord.timestamp = 3000, count = 1\<rparr>]"
    using run unfolding rec0 cfg by simp
  have third: "(1000 :: real) \<le> 1000 + 1 / 2 * (3000 - 1000) \<and> (1000 :: real) + 1 / 2 * (3000 - 1000) \<le> 3000"
    using bounds unfolding cfg by simp
  from first second third show ?thesis by blast
qed


section \<open>Properties of chunking\<close>

subsection \<open>A start offset that does not move\<close>

lemma chunk_loop_stuck:
  assumes "snd (chunk_step txt m ov s) = s" and "s < int (length txt)"
  shows "chunk_loop txt m ov s acc = None"
proof (rule ccontr)
  assume "chunk_loop txt m ov s acc \<noteq> None"
  then obtain y where y: "chunk_loop txt m ov s acc = Some y" by auto
  note ri = chunk_loop.raw_induct
    [where P = "\<lambda>t' m' ov' s' acc' y'. \<not> (t' = txt \<and> m' = m \<and> ov' = ov \<and> s' = s)"]
  have "\<not> (txt = txt \<and> m = m \<and> ov = ov \<and> s = s)"
  proof (rule ri [OF _ y])
    fix loop t' m' ov' s' acc' y'
    assume IH: "\<And>t'' m'' ov'' s'' acc'' y''. loop t'' m'' ov'' s'' acc'' = Some y''
                  \<Longrightarrow> \<not> (t'' = txt \<and> m'' = m \<and> ov'' = ov \<and> s'' = s)"
      and body: "(if s' < int (length t')
                  then (case chunk_step t' m' ov' s' of
                          (pushed, start') \<Rightarrow> loop t' m' ov' start' (acc' @ [pushed]))
                  else Some acc') = Some y'"
    show "\<not> (t' = txt \<and> m' = m \<and> ov' = ov \<and> s' = s)"
    proof
      assume "t' = txt \<and> m' = m \<and> ov' = ov \<and> s' = s"
      with body assms have "loop txt m ov s (acc' @ [fst (chunk_step txt m ov s)]) = Some y'"
        by (simp add: split_beta)
      from IH [OF this] show False by simp
    qed
  qed
  then show False by simp
qed

lemma lastIndexOf_absent: "c \<notin> set xs \<Longrightarrow> lastIndexOf xs c = -1"
  by (induction xs) (auto simp: Let_def)

lemma lastIndexOf_last: "c \<notin> set ys \<Longrightarrow> lastIndexOf (xs @ c # ys) c = int (length xs)"
  by (induction xs) (auto simp: Let_def lastIndexOf_absent)

lemma lastIndexOf_bounds: "- 1 \<le> lastIndexOf xs c \<and> lastIndexOf xs c < int (length xs)"
  by (induction xs) (auto simp: Let_def)

text \<open>
  Claim C9. \<open>chunkText\<close> terminates for every text and every configuration with
  \<open>maxChunkSize \<ge> 1\<close> and \<open>0 \<le> overlap < maxChunkSize\<close>, because the guard moves the
  start forward on every iteration. The guard \<^verbatim>\<open>if (start >= end) start = end\<close> compares
  the next start with the end of the window, not with the start it came from: when the
  last sentence break of a window lies at index \<open>overlap - 1\<close>, the next start is the old
  one and the loop pushes the same chunk for ever. It does so for a window of 10 with
  overlap 2, and for the default window of 1000 with overlap 200 on a sentence of 200
  characters followed by 900 characters without a full stop or a newline.
\<close>

theorem chunkText_no_progress:
  "chunk_step ''a.bcdefghijklmnop'' 10 2 0 = (''a.'', 0)
   \<and> chunkText ''a.bcdefghijklmnop'' 10 2 = None
   \<and> chunkText (replicate 199 CHR ''x'' @ ''.'' @ replicate 900 CHR ''x'') 1000 200 = None"
proof -
  let ?long = "replicate 199 CHR ''x'' @ ''.'' @ replicate 900 CHR ''x''"
  have s1: "chunk_step ''a.bcdefghijklmnop'' 10 2 0 = (''a.'', 0)"
    by code_simp
  have window: "slice ?long 0 1000 = replicate 199 CHR ''x'' @ CHR ''.'' # replicate 800 CHR ''x''"
    by (simp add: slice_def slice_index_def)
  have "lastIndexOf (slice ?long 0 1000) CHR ''.'' = 199"
    unfolding window by (subst lastIndexOf_last) simp_all
  moreover have "lastIndexOf (slice ?long 0 1000) newline = - 1"
    unfolding window by (rule lastIndexOf_absent) (simp add: newline_def)
  ultimately have s2: "snd (chunk_step ?long 1000 200 0) = 0"
    by (simp add: chunk_step_def Let_def)
  have "chunk_loop ''a.bcdefghijklmnop'' 10 2 0 [] = None"
    by (rule chunk_loop_stuck) (simp_all add: s1)
  moreover have "chunk_loop ?long 1000 200 0 [] = None"
    by (rule chunk_loop_stuck [OF s2]) simp
  ultimately show ?thesis using s1 by (simp add: chunkText_def)
qed


subsection \<open>What the chunks keep of the text\<close>

lemma dropWhile_id: "xs = [] \<or> \<not> P (hd xs) \<Longrightarrow> dropWhile P xs = xs"
  by (cases xs) auto

lemma last_dropWhile: "dropWhile P xs \<noteq> [] \<Longrightarrow> last (dropWhile P xs) = last xs"
  by (induction xs) (auto split: if_splits)

lemma trim_edges:
  assumes "trim s \<noteq> []"
  shows "\<not> is_space (hd (trim s)) \<and> \<not> is_space (last (trim s))"
proof -
  let ?u = "dropWhile is_space s"
  let ?v = "dropWhile is_space (rev ?u)"
  from assms have v: "?v \<noteq> []" by (simp add: trim_def)
  then have u: "?u \<noteq> []" by (metis dropWhile.simps(1) rev.simps(1))
  have "hd (trim s) = last ?v" using v by (simp add: trim_def hd_rev)
  also have "\<dots> = last (rev ?u)" using v by (rule last_dropWhile)
  also have "\<dots> = hd ?u" using u by (simp add: last_rev)
  finally have "\<not> is_space (hd (trim s))" using hd_dropWhile [OF u] by simp
  moreover have "last (trim s) = hd ?v" using v by (simp add: trim_def last_rev)
  then have "\<not> is_space (last (trim s))" using hd_dropWhile [OF v] by simp
  ultimately show ?thesis by simp
qed

lemma trim_trim: "trim (trim s) = trim s"
proof (cases "trim s = []")
  case True
  have "trim [] = []" by (simp add: trim_def)
  with True show ?thesis by simp
next
  case False
  let ?t = "trim s"
  from trim_edges [OF False] have h: "\<not> is_space (hd ?t)" and l: "\<not> is_space (last ?t)" by simp_all
  have "dropWhile is_space ?t = ?t" using h False by (simp add: dropWhile_id)
  moreover have "dropWhile is_space (rev ?t) = rev ?t"
    using l False by (intro dropWhile_id) (simp add: hd_rev)
  ultimately show ?thesis unfolding trim_def [of ?t] by simp
qed


lemma chunk_step_pushed: "\<exists>a b. fst (chunk_step txt m ov s) = trim (slice txt a b)"
proof -
  let ?e = "min (s + m) (int (length txt))"
  let ?bp = "max (lastIndexOf (slice txt s ?e) CHR ''.'') (lastIndexOf (slice txt s ?e) newline)"
  show ?thesis
  proof (cases "?bp > 0 \<and> ?e < int (length txt)")
    case True
    then have "fst (chunk_step txt m ov s) = trim (slice txt s (s + ?bp + 1))"
      by (simp add: chunk_step_def Let_def)
    then show ?thesis by blast
  next
    case False
    then have "fst (chunk_step txt m ov s) = trim (slice txt s ?e)"
      by (auto simp: chunk_step_def Let_def)
    then show ?thesis by blast
  qed
qed

lemma chunk_loop_chunks:
  assumes "chunk_loop txt m ov s acc = Some y"
    and "\<forall>c \<in> set acc. \<exists>a b. c = trim (slice txt a b)"
  shows "\<forall>c \<in> set y. \<exists>a b. c = trim (slice txt a b)"
proof -
  note ri = chunk_loop.raw_induct
    [where P = "\<lambda>t' m' ov' s' acc' y'. (\<forall>c \<in> set acc'. \<exists>a b. c = trim (slice t' a b))
                  \<longrightarrow> (\<forall>c \<in> set y'. \<exists>a b. c = trim (slice t' a b))"]
  have "(\<forall>c \<in> set acc. \<exists>a b. c = trim (slice txt a b))
        \<longrightarrow> (\<forall>c \<in> set y. \<exists>a b. c = trim (slice txt a b))"
  proof (rule ri [OF _ assms(1)])
    fix loop t' m' ov' s' acc' y'
    assume IH: "\<And>t'' m'' ov'' s'' acc'' y''. loop t'' m'' ov'' s'' acc'' = Some y''
                  \<Longrightarrow> (\<forall>c \<in> set acc''. \<exists>a b. c = trim (slice t'' a b))
                      \<longrightarrow> (\<forall>c \<in> set y''. \<exists>a b. c = trim (slice t'' a b))"
      and body: "(if s' < int (length t')
                  then (case chunk_step t' m' ov' s' of
                          (pushed, start') \<Rightarrow> loop t' m' ov' start' (acc' @ [pushed]))
                  else Some acc') = Some y'"
    show "(\<forall>c \<in> set acc'. \<exists>a b. c = trim (slice t' a b))
          \<longrightarrow> (\<forall>c \<in> set y'. \<exists>a b. c = trim (slice t' a b))"
    proof
      assume acc': "\<forall>c \<in> set acc'. \<exists>a b. c = trim (slice t' a b)"
      show "\<forall>c \<in> set y'. \<exists>a b. c = trim (slice t' a b)"
      proof (cases "s' < int (length t')")
        case False
        with body acc' show ?thesis by simp
      next
        case True
        with body have run: "loop t' m' ov' (snd (chunk_step t' m' ov' s'))
                           (acc' @ [fst (chunk_step t' m' ov' s')]) = Some y'"
          by (simp add: split_beta)
        have "\<forall>c \<in> set (acc' @ [fst (chunk_step t' m' ov' s')]). \<exists>a b. c = trim (slice t' a b)"
          using acc' chunk_step_pushed [of t' m' ov' s'] by auto
        with IH [OF run] show ?thesis by blast
      qed
    qed
  qed
  with assms(2) show ?thesis by blast
qed

lemma length_slice:
  "0 \<le> a \<Longrightarrow> a \<le> b \<Longrightarrow> b \<le> int (length xs) \<Longrightarrow> length (slice xs a b) = nat (b - a)"
  by (simp add: slice_def slice_index_def Let_def min_def) linarith

lemma slice_take_drop:
  "0 \<le> a \<Longrightarrow> a \<le> b \<Longrightarrow> slice xs a b = take (nat b - nat a) (drop (nat a) xs)"
  by (auto simp: slice_def slice_index_def Let_def min_def)

lemma slice_then_rest:
  assumes "0 \<le> a" "a \<le> b"
  shows "slice xs a b @ drop (nat b) xs = drop (nat a) xs"
proof -
  have "drop (nat b) xs = drop (nat b - nat a) (drop (nat a) xs)"
    using assms by simp
  then show ?thesis
    by (simp only: slice_take_drop [OF assms] append_take_drop_id)
qed

lemma chunk_step_overlap0:
  assumes "1 \<le> m" "0 \<le> s" "s < int (length txt)"
  shows "\<exists>c. chunk_step txt m 0 s = (trim (slice txt s c), c) \<and> s < c \<and> c \<le> int (length txt)"
proof -
  define e where "e = min (s + m) (int (length txt))"
  define chunk where "chunk = slice txt s e"
  define bp where "bp = max (lastIndexOf chunk CHR ''.'') (lastIndexOf chunk newline)"
  have e: "s < e" "e \<le> int (length txt)" using assms by (simp_all add: e_def)
  have len: "int (length chunk) = e - s"
    using length_slice [of s e "txt"] assms e by (simp add: chunk_def)
  have bp: "bp < e - s"
    using lastIndexOf_bounds [of chunk "CHR ''.''"] lastIndexOf_bounds [of chunk newline] len
    by (simp add: bp_def max_def)
  have step: "chunk_step txt m 0 s =
      (if bp > 0 \<and> e < int (length txt)
       then (trim (slice txt s (s + bp + 1)), if s + bp + 1 \<ge> e then e else s + bp + 1)
       else (trim chunk, e))"
    by (simp add: chunk_step_def Let_def e_def chunk_def bp_def)
  show ?thesis
  proof (cases "bp > 0 \<and> e < int (length txt)")
    case True
    have "(if s + bp + 1 \<ge> e then e else s + bp + 1) = s + bp + 1"
      using bp by simp
    with True step have "chunk_step txt m 0 s = (trim (slice txt s (s + bp + 1)), s + bp + 1)"
      by simp
    moreover have "s < s + bp + 1" "s + bp + 1 \<le> int (length txt)"
      using True bp by linarith+
    ultimately show ?thesis by blast
  next
    case False
    with step have "chunk_step txt m 0 s = (trim (slice txt s e), e)"
      by (simp add: chunk_def)
    with e show ?thesis by blast
  qed
qed

lemma chunk_loop_overlap0:
  assumes "1 \<le> m"
  shows "0 \<le> s \<Longrightarrow> s \<le> int (length txt) \<Longrightarrow>
         \<exists>ws. concat ws = drop (nat s) txt \<and> chunk_loop txt m 0 s acc = Some (acc @ map trim ws)"
proof (induction "length txt - nat s" arbitrary: s acc rule: less_induct)
  case less
  show ?case
  proof (cases "s < int (length txt)")
    case False
    with less.prems have "chunk_loop txt m 0 s acc = Some (acc @ map trim [])" "concat [] = drop (nat s) txt"
      by (simp_all add: chunk_loop.simps)
    then show ?thesis by blast
  next
    case True
    from chunk_step_overlap0 [OF assms less.prems(1) True]
    obtain c where c: "chunk_step txt m 0 s = (trim (slice txt s c), c)" "s < c" "c \<le> int (length txt)"
      by blast
    have "length txt - nat c < length txt - nat s"
      using c True less.prems by linarith
    from less.hyps [OF this, of "acc @ [trim (slice txt s c)]"] c less.prems
    obtain ws where ws: "concat ws = drop (nat c) txt"
      "chunk_loop txt m 0 c (acc @ [trim (slice txt s c)]) = Some ((acc @ [trim (slice txt s c)]) @ map trim ws)"
      by auto
    have "chunk_loop txt m 0 s acc = Some (acc @ map trim (slice txt s c # ws))"
      using True c ws by (subst chunk_loop.simps) simp
    moreover have "concat (slice txt s c # ws) = drop (nat s) txt"
      using ws slice_then_rest [of s c "txt"] c less.prems by simp
    ultimately show ?thesis by blast
  qed
qed

text \<open>
  What the chunks do keep. Whenever \<open>chunkText\<close> returns, every returned chunk is the
  trimmed text of one slice of the input and is not empty. With overlap 0 and
  \<open>maxChunkSize \<ge> 1\<close> the function returns, the windows it cuts are consecutive and their
  concatenation is the whole text, and the returned chunks are the trimmed windows that
  are not empty, in order.
\<close>

lemma chunkText_trimmed_windows:
  "(chunkText txt m ov = Some cs \<longrightarrow>
      (\<forall>c \<in> set cs. trim c \<noteq> [] \<and> trim c = c \<and> (\<exists>a b. c = trim (slice txt a b))))
   \<and> (1 \<le> m \<longrightarrow>
      (\<exists>ws. concat ws = txt \<and>
            chunkText txt m 0 = Some (filter (\<lambda>chunk. length chunk > 0) (map trim ws))))"
proof (intro conjI impI)
  assume cs: "chunkText txt m ov = Some cs"
  then obtain y where y: "chunk_loop txt m ov 0 [] = Some y"
    and cs_y: "cs = filter (\<lambda>chunk. length chunk > 0) y"
    by (auto simp: chunkText_def)
  from chunk_loop_chunks [OF y] have "\<forall>c \<in> set y. \<exists>a b. c = trim (slice txt a b)"
    by simp
  then show "\<forall>c \<in> set cs. trim c \<noteq> [] \<and> trim c = c \<and> (\<exists>a b. c = trim (slice txt a b))"
    unfolding cs_y using trim_trim by fastforce
next
  assume "1 \<le> m"
  from chunk_loop_overlap0 [OF this, of 0 "txt" "[]"]
  obtain ws where "concat ws = txt" "chunk_loop txt m 0 0 [] = Some (map trim ws)"
    by auto
  then show "\<exists>ws. concat ws = txt \<and>
            chunkText txt m 0 = Some (filter (\<lambda>chunk. length chunk > 0) (map trim ws))"
    by (auto simp: chunkText_def)
qed

subsection \<open>Text that no chunk holds\<close>

lemma trim_no_edge_space:
  "s = [] \<or> (\<not> is_space (hd s) \<and> \<not> is_space (last s)) \<Longrightarrow> trim s = s"
proof (cases "s = []")
  case True
  then show ?thesis by (simp add: trim_def)
next
  case False
  assume "s = [] \<or> (\<not> is_space (hd s) \<and> \<not> is_space (last s))"
  with False have h: "\<not> is_space (hd s)" and l: "\<not> is_space (last s)" by simp_all
  have "dropWhile is_space s = s" using h False by (simp add: dropWhile_id)
  moreover have "dropWhile is_space (rev s) = rev s"
    using l False by (intro dropWhile_id) (simp add: hd_rev)
  ultimately show ?thesis by (simp add: trim_def)
qed

lemma trim_replicate_x: "trim (replicate n CHR ''x'') = replicate n CHR ''x''"
  by (rule trim_no_edge_space) (cases n, simp_all add: is_space_def)

text \<open>
  Claim C7. The non-overlap portions of the returned chunks, concatenated, are the text
  with no character lost, and no returned chunk is empty. The next start is the cut
  point minus the overlap, with nothing to keep it at or after the start it came from.
  With the window and overlap of the pipeline, 1000 and 200, on the text \<^verbatim>\<open>Intro.\<close>
  followed by 2000 letters \<^verbatim>\<open>x\<close> (no white space, so cleaning and trimming leave it as
  it is): the first window is cut after the full stop at index 5, the next start is
  \<open>5 + 1 - 200 = -194\<close>, \<^verbatim>\<open>slice\<close> counts a negative start from the end and gives an empty
  window, and the loop goes on from 806. The chunks hold 1206 of the 2006 characters:
  the characters at 6 to 805 are in no chunk.
\<close>

theorem chunkText_overlap_drops_text:
  "chunkText (''Intro.'' @ replicate 2000 CHR ''x'') 1000 200
     = Some [''Intro.'', replicate 1000 CHR ''x'', replicate 200 CHR ''x'']
   \<and> length (''Intro.'' @ replicate 2000 CHR ''x'') = 2006
   \<and> length (concat [''Intro.'', replicate 1000 CHR ''x'', replicate 200 CHR ''x'']) = 1206
   \<and> \<not> list_ex is_space (''Intro.'' @ replicate 2000 CHR ''x'')
   \<and> chunk_step (''Intro.'' @ replicate 2000 CHR ''x'') 1000 200 0 = (''Intro.'', - 194)"
proof -
  define T where "T = ''Intro.'' @ replicate 2000 CHR ''x''"
  have len: "length T = 2006" by (simp add: T_def)
  have no_nl: "lastIndexOf (replicate n CHR ''x'') c = - 1" if "c \<noteq> CHR ''x''" for n c
    using that by (intro lastIndexOf_absent) simp
  have w1: "slice T 0 1000 = ''Intro'' @ CHR ''.'' # replicate 994 CHR ''x''"
    by (simp add: T_def slice_def slice_index_def)
  have p1: "slice T 0 6 = ''Intro.''"
    by (simp add: T_def slice_def slice_index_def)
  have "lastIndexOf (slice T 0 1000) CHR ''.'' = 5"
    unfolding w1 by (subst lastIndexOf_last) simp_all
  moreover have "lastIndexOf (slice T 0 1000) newline = - 1"
    unfolding w1 by (rule lastIndexOf_absent) (simp add: newline_def)
  moreover have "trim ''Intro.'' = ''Intro.''"
    by (rule trim_no_edge_space) (simp add: is_space_def)
  ultimately have s1: "chunk_step T 1000 200 0 = (''Intro.'', - 194)"
    by (simp add: chunk_step_def Let_def len p1)
  have w2: "slice T (- 194) 806 = []"
    by (simp add: slice_def slice_index_def len)
  have "trim [] = []" by (simp add: trim_def)
  then have s2: "chunk_step T 1000 200 (- 194) = ([], 806)"
    by (simp add: chunk_step_def Let_def len w2)
  have w3: "slice T 806 1806 = replicate 1000 CHR ''x''"
    by (simp add: T_def slice_def slice_index_def)
  have s3: "chunk_step T 1000 200 806 = (replicate 1000 CHR ''x'', 1806)"
    by (simp add: chunk_step_def Let_def len w3 no_nl newline_def trim_replicate_x)
  have w4: "slice T 1806 2006 = replicate 200 CHR ''x''"
    by (simp add: T_def slice_def slice_index_def)
  have s4: "chunk_step T 1000 200 1806 = (replicate 200 CHR ''x'', 2006)"
    by (simp add: chunk_step_def Let_def len w4 no_nl newline_def trim_replicate_x)
  have "chunk_loop T 1000 200 2006 acc = Some acc" for acc
    by (subst chunk_loop.simps) (simp add: len)
  then have "chunk_loop T 1000 200 1806 acc = Some (acc @ [replicate 200 CHR ''x''])" for acc
    by (subst chunk_loop.simps) (simp add: len s4)
  then have "chunk_loop T 1000 200 806 acc = Some (acc @ [replicate 1000 CHR ''x'', replicate 200 CHR ''x''])" for acc
    by (subst chunk_loop.simps) (simp add: len s3)
  then have "chunk_loop T 1000 200 (- 194) acc = Some (acc @ [[], replicate 1000 CHR ''x'', replicate 200 CHR ''x''])" for acc
    by (subst chunk_loop.simps) (simp add: len s2)
  then have "chunk_loop T 1000 200 0 [] = Some [''Intro.'', [], replicate 1000 CHR ''x'', replicate 200 CHR ''x'']"
    by (subst chunk_loop.simps) (simp add: len s1)
  then have run: "chunkText T 1000 200 = Some [''Intro.'', replicate 1000 CHR ''x'', replicate 200 CHR ''x'']"
    by (simp add: chunkText_def)
  have "\<not> list_ex is_space T"
    by (simp add: T_def list_ex_iff is_space_def)
  with run s1 len show ?thesis unfolding T_def by simp
qed


section \<open>Properties of the crawl executor\<close>

text \<open>
  Claim C5. Every call of \<open>scrape\<close>, whatever its outcome, appends exactly one entry to
  the audit log. The entry is pushed where \<^verbatim>\<open>robots.txt\<close> denies the URL, where the response
  is not a success, and where the page is returned; the \<^verbatim>\<open>catch\<close> block around the fetch
  prints the error and throws it again without an entry. With \<^verbatim>\<open>robots.txt\<close> allowing the
  URL and the request in its rate budget, a fetch that throws leaves the log of a new
  scraper empty, while a response 404 to the same request is logged.
\<close>

theorem scrape_fetch_failure_not_logged:
  "fst (scrape (\<lambda>s. if s = ''https://www.sec.gov/rules'' then Some \<lparr>protocol = ''https:'', hostname = ''www.sec.gov'', pathname = ''/rules''\<rparr> else None) (\<lambda>s. ()) (\<lambda>text ctype. (None, None)) \<lparr>robots_fetch = FetchResponse \<lparr>Response.status = 200, statusText = ''OK'', content_type = Some ''text/plain'', last_modified = None, body = Some ''User-agent: *\<newline>Disallow: /private''\<rparr>, page_fetch = FetchThrows TypeError, t_denied = 1700000000100, t_slot = 1700000000200, slot_random = 1 / 2, t_slot_after = 1700000002200, t_logged = 1700000002300, t_result = 1700000002400\<rparr> (new_EthicalScraper None) ''https://www.sec.gov/rules'') = Inl TypeError
   \<and> getLogs (snd (scrape (\<lambda>s. if s = ''https://www.sec.gov/rules'' then Some \<lparr>protocol = ''https:'', hostname = ''www.sec.gov'', pathname = ''/rules''\<rparr> else None) (\<lambda>s. ()) (\<lambda>text ctype. (None, None)) \<lparr>robots_fetch = FetchResponse \<lparr>Response.status = 200, statusText = ''OK'', content_type = Some ''text/plain'', last_modified = None, body = Some ''User-agent: *\<newline>Disallow: /private''\<rparr>, page_fetch = FetchThrows TypeError, t_denied = 1700000000100, t_slot = 1700000000200, slot_random = 1 / 2, t_slot_after = 1700000002200, t_logged = 1700000002300, t_result = 1700000002400\<rparr> (new_EthicalScraper None) ''https://www.sec.gov/rules'')) = []
   \<and> getLogs (snd (scrape (\<lambda>s. if s = ''https://www.sec.gov/rules'' then Some \<lparr>protocol = ''https:'', hostname = ''www.sec.gov'', pathname = ''/rules''\<rparr> else None) (\<lambda>s. ()) (\<lambda>text ctype. (None, None)) \<lparr>robots_fetch = FetchResponse \<lparr>Response.status = 200, statusText = ''OK'', content_type = Some ''text/plain'', last_modified = None, body = Some ''User-agent: *\<newline>Disallow: /private''\<rparr>, page_fetch = FetchResponse \<lparr>Response.status = 404, statusText = ''Not Found'', content_type = Some ''text/html'', last_modified = None, body = Some ''gone''\<rparr>, t_denied = 1700000000100, t_slot = 1700000000200, slot_random = 1 / 2, t_slot_after = 1700000002200, t_logged = 1700000002300, t_result = 1700000002400\<rparr> (new_EthicalScraper None) ''https://www.sec.gov/rules'')) =
       [\<lparr>ScrapeLog.url = ''https://www.sec.gov/rules'', ScrapeLog.timestamp = 1700000002300,
         allowed = True, reason = None, ScrapeLog.statusCode = Some 404\<rparr>]"
  by code_simp


section \<open>Properties of the job scheduler\<close>

subsection \<open>Retry with exponential backoff\<close>

lemma map_id_db_update:
  "(\<And>r. id' (f r) = id' r) \<Longrightarrow> map id' (db_update applied jid f tbl) = map id' tbl"
  by (induction tbl) (auto simp: db_update_def)

lemma map_id_updateJobStatus:
  "map id' (updateJobStatus applied t1 t2 jid st msg tbl) = map id' tbl"
  unfolding updateJobStatus_def
  by (rule map_id_db_update) (simp add: Let_def split: option.split)

lemma map_retry_count_updateJobStatus:
  "map retry_count (updateJobStatus applied t1 t2 jid st msg tbl) = map retry_count tbl"
  by (induction tbl) (auto simp: updateJobStatus_def db_update_def Let_def split: option.split)

text \<open>
  Claim C3. An execution fails when the pipeline returns the status \<^verbatim>\<open>failed\<close> or the call
  throws; \<open>failure_message\<close> is then the message \<open>msg\<close>. With the store applying the
  final update: if \<open>retryCount < maxRetries\<close> (and the new time is a time value), every
  row of the job is \<open>pending\<close> again, with the retry count of the job plus one, the
  message, and \<open>scheduledAt = now + 60000 * 2 ^ retryCount\<close> for the count before the
  increment; if \<open>retryCount \<ge> maxRetries\<close>, the rows are \<open>failed\<close> with the message
  (a non-empty one) and no retry count of the table changes.
\<close>

theorem executeJob_retry_policy:
  assumes "failure_message (outcome env) = Some msg" and "applied_final env"
  shows "(retry_count job < max_retries job \<longrightarrow> valid_time (t_retry env + 60000 * 2 ^ retry_count job) \<longrightarrow>
            (\<exists>tbl'. executeJob env job tbl = (tbl', None) \<and> map id' tbl' = map id' tbl \<and>
               (\<forall>row \<in> set tbl'. id' row = id' job \<longrightarrow>
                  status row = pending \<and> retry_count row = retry_count job + 1 \<and>
                  error_message row = Some msg \<and>
                  scheduled_at row = t_retry env + 60000 * 2 ^ retry_count job)))
       \<and> (retry_count job \<ge> max_retries job \<longrightarrow> msg \<noteq> [] \<longrightarrow>
            (\<exists>tbl'. executeJob env job tbl = (tbl', None) \<and> map id' tbl' = map id' tbl \<and>
               map retry_count tbl' = map retry_count tbl \<and>
               (\<forall>row \<in> set tbl'. id' row = id' job \<longrightarrow>
                  status row = failed \<and> error_message row = Some msg)))"
proof (intro conjI impI)
  let ?tbl1 = "updateJobStatus (applied_running env) (t_running_updated env) (t_running_started env)
                   (id' job) running None tbl"
  assume lt: "retry_count job < max_retries job"
    and v: "valid_time (t_retry env + 60000 * 2 ^ retry_count job)"
  let ?f = "\<lambda>r. r\<lparr>status := pending, retry_count := retry_count job + 1,
                   error_message := Some msg,
                   scheduled_at := t_retry env + 60000 * 2 ^ retry_count job\<rparr>"
  let ?tbl' = "db_update (applied_final env) (id' job) ?f ?tbl1"
  have "executeJob env job tbl = (?tbl', None)"
    using assms lt v by (simp add: executeJob_def Let_def)
  moreover have "map id' ?tbl' = map id' tbl"
    by (simp add: map_id_db_update map_id_updateJobStatus)
  moreover have "\<forall>row \<in> set ?tbl'. id' row = id' job \<longrightarrow>
                  status row = pending \<and> retry_count row = retry_count job + 1 \<and>
                  error_message row = Some msg \<and>
                  scheduled_at row = t_retry env + 60000 * 2 ^ retry_count job"
    using assms(2) by (auto simp: db_update_def)
  ultimately show "\<exists>tbl'. executeJob env job tbl = (tbl', None) \<and> map id' tbl' = map id' tbl \<and>
               (\<forall>row \<in> set tbl'. id' row = id' job \<longrightarrow>
                  status row = pending \<and> retry_count row = retry_count job + 1 \<and>
                  error_message row = Some msg \<and>
                  scheduled_at row = t_retry env + 60000 * 2 ^ retry_count job)"
    by blast
next
  let ?tbl1 = "updateJobStatus (applied_running env) (t_running_updated env) (t_running_started env)
                   (id' job) running None tbl"
  assume ge: "retry_count job \<ge> max_retries job" and ne: "msg \<noteq> []"
  let ?tbl' = "updateJobStatus (applied_final env) (t_final_updated env) (t_final_completed env)
                     (id' job) failed (Some msg) ?tbl1"
  have "executeJob env job tbl = (?tbl', None)"
    using assms ge by (simp add: executeJob_def Let_def)
  moreover have "map id' ?tbl' = map id' tbl"
    by (simp add: map_id_updateJobStatus)
  moreover have "map retry_count ?tbl' = map retry_count tbl"
    by (simp add: map_retry_count_updateJobStatus)
  moreover have "\<forall>row \<in> set ?tbl'. id' row = id' job \<longrightarrow>
                  status row = failed \<and> error_message row = Some msg"
    using assms(2) ne unfolding updateJobStatus_def [of "applied_final env"]
    by (auto simp: db_update_def Let_def)
  ultimately show "\<exists>tbl'. executeJob env job tbl = (tbl', None) \<and> map id' tbl' = map id' tbl \<and>
               map retry_count tbl' = map retry_count tbl \<and>
               (\<forall>row \<in> set tbl'. id' row = id' job \<longrightarrow>
                  status row = failed \<and> error_message row = Some msg)"
    by blast
qed


text \<open>
  The scenario of the specification: a job with retry count 2 of 3 fails and is pending
  with retry count 3, 240 seconds later; with retry count 3 of 3 it fails for good.
\<close>

theorem executeJob_retry_policy_witness:
  "(\<exists>row. executeJob \<lparr>outcome = Returned p_failed [''HTTP 500: Internal Server Error''], t_next = 1700000100000, t_running_updated = 1700000100001, t_running_started = 1700000100002, t_final_updated = 1700000100003, t_final_completed = 1700000100004, t_retry = 1700000100005, applied_running = True, applied_final = True\<rparr> \<lparr>id' = ''job-1'', source_id = ''us-sec'', url = ''https://www.sec.gov/rules'', status = pending, priority = 0, scheduled_at = 1700000000000, started_at = None, completed_at = None, updated_at = None, error_message = None, retry_count = 2, max_retries = 3\<rparr> [\<lparr>id' = ''job-1'', source_id = ''us-sec'', url = ''https://www.sec.gov/rules'', status = pending, priority = 0, scheduled_at = 1700000000000, started_at = None, completed_at = None, updated_at = None, error_message = None, retry_count = 2, max_retries = 3\<rparr>] = ([row], None) \<and> status row = pending \<and> retry_count row = 3 \<and>
      error_message row = Some ''HTTP 500: Internal Server Error'' \<and>
      scheduled_at row = 1700000100005 + 240000)
   \<and> (\<exists>row. executeJob \<lparr>outcome = Returned p_failed [''HTTP 500: Internal Server Error''], t_next = 1700000100000, t_running_updated = 1700000100001, t_running_started = 1700000100002, t_final_updated = 1700000100003, t_final_completed = 1700000100004, t_retry = 1700000100005, applied_running = True, applied_final = True\<rparr> \<lparr>id' = ''job-1'', source_id = ''us-sec'', url = ''https://www.sec.gov/rules'', status = pending, priority = 0, scheduled_at = 1700000000000, started_at = None, completed_at = None, updated_at = None, error_message = None, retry_count = 3, max_retries = 3\<rparr> [\<lparr>id' = ''job-1'', source_id = ''us-sec'', url = ''https://www.sec.gov/rules'', status = pending, priority = 0, scheduled_at = 1700000000000, started_at = None, completed_at = None, updated_at = None, error_message = None, retry_count = 3, max_retries = 3\<rparr>] = ([row], None) \<and> status row = failed \<and> retry_count row = 3 \<and>
      error_message row = Some ''HTTP 500: Internal Server Error'')"
proof -
  let ?env = "\<lparr>outcome = Returned p_failed [''HTTP 500: Internal Server Error''], t_next = 1700000100000, t_running_updated = 1700000100001, t_running_started = 1700000100002, t_final_updated = 1700000100003, t_final_completed = 1700000100004, t_retry = 1700000100005, applied_running = True, applied_final = True\<rparr>"
  let ?job2 = "\<lparr>id' = ''job-1'', source_id = ''us-sec'', url = ''https://www.sec.gov/rules'', status = pending, priority = 0, scheduled_at = 1700000000000, started_at = None, completed_at = None, updated_at = None, error_message = None, retry_count = 2, max_retries = 3\<rparr>"
  let ?job3 = "\<lparr>id' = ''job-1'', source_id = ''us-sec'', url = ''https://www.sec.gov/rules'', status = pending, priority = 0, scheduled_at = 1700000000000, started_at = None, completed_at = None, updated_at = None, error_message = None, retry_count = 3, max_retries = 3\<rparr>"
  have f: "failure_message (outcome ?env) = Some ''HTTP 500: Internal Server Error''"
    and a: "applied_final ?env"
    by simp_all
  from executeJob_retry_policy [OF f a, of ?job2 "[?job2]"]
  obtain t2 where t2: "executeJob ?env ?job2 [?job2] = (t2, None)" "map id' t2 = [''job-1'']"
      "\<forall>row \<in> set t2. id' row = ''job-1'' \<longrightarrow> status row = pending \<and> retry_count row = 3 \<and>
          error_message row = Some ''HTTP 500: Internal Server Error'' \<and>
          scheduled_at row = 1700000100005 + 240000"
    by (auto simp: valid_time_def)
  from t2(2) obtain r2 where r2: "t2 = [r2]" "id' r2 = ''job-1''" by auto
  from executeJob_retry_policy [OF f a, of ?job3 "[?job3]"]
  obtain t3 where t3: "executeJob ?env ?job3 [?job3] = (t3, None)" "map id' t3 = [''job-1'']"
      "map retry_count t3 = [3]"
      "\<forall>row \<in> set t3. id' row = ''job-1'' \<longrightarrow> status row = failed \<and>
          error_message row = Some ''HTTP 500: Internal Server Error''"
    by auto
  from t3(2) obtain r3 where r3: "t3 = [r3]" "id' r3 = ''job-1''" by auto
  from t2 r2 t3 r3 show ?thesis by simp
qed


subsection \<open>The retry counter over scheduler runs\<close>

lemma first_in_order_mem: "first_in_order xs = Some j \<Longrightarrow> j \<in> set xs"
  by (induction xs arbitrary: j) (auto split: option.splits if_splits)

lemma getNextJob_Some:
  "getNextJob now tbl = Some j \<Longrightarrow> j \<in> set tbl \<and> status j = pending \<and> scheduled_at j \<le> now"
  by (auto simp: getNextJob_def dest: first_in_order_mem)

lemma getNextJob_single:
  "getNextJob now [r] = (if status r = pending \<and> scheduled_at r \<le> now then Some r else None)"
  by (simp add: getNextJob_def)

lemma map_id_executeJob: "map id' (fst (executeJob env job tbl)) = map id' tbl"
  by (simp add: executeJob_def Let_def map_id_updateJobStatus map_id_db_update split: option.split)

lemma db_update_pred:
  assumes "\<forall>r \<in> set tbl. P r" and "\<And>r. r \<in> set tbl \<Longrightarrow> id' r = jid \<Longrightarrow> P (f r)"
  shows "\<forall>r \<in> set (db_update applied jid f tbl). P r"
  using assms by (auto simp: db_update_def)

lemma db_update_frame:
  "r \<in> set tbl \<Longrightarrow> id' r \<noteq> jid \<Longrightarrow> r \<in> set (db_update applied jid f tbl)"
  by (auto simp: db_update_def)

lemma executeJob_frame:
  "r \<in> set tbl \<Longrightarrow> id' r \<noteq> id' job \<Longrightarrow> r \<in> set (fst (executeJob env job tbl))"
  by (simp add: executeJob_def Let_def updateJobStatus_def db_update_frame split: option.split)

lemma executeJob_counts:
  assumes "\<forall>r \<in> set tbl. counts_ok job r"
  shows "\<forall>r \<in> set (fst (executeJob env job tbl)). counts_ok job r"
proof -
  let ?tbl1 = "updateJobStatus (applied_running env) (t_running_updated env) (t_running_started env)
                   (id' job) running None tbl"
  have 1: "\<forall>r \<in> set ?tbl1. counts_ok job r"
    unfolding updateJobStatus_def
    by (rule db_update_pred [OF assms]) (use assms in \<open>auto simp: counts_ok_def Let_def\<close>)
  show ?thesis
  proof (cases "failure_message (outcome env)")
    case None
    then have "fst (executeJob env job tbl) =
        updateJobStatus (applied_final env) (t_final_updated env) (t_final_completed env)
                (id' job) completed None ?tbl1"
      by (simp add: executeJob_def Let_def)
    moreover have "\<forall>r \<in> set (updateJobStatus (applied_final env) (t_final_updated env) (t_final_completed env)
                (id' job) completed None ?tbl1). counts_ok job r"
      unfolding updateJobStatus_def [of "applied_final env"]
      by (rule db_update_pred [OF 1]) (use 1 in \<open>auto simp: counts_ok_def Let_def\<close>)
    ultimately show ?thesis by simp
  next
    case (Some msg)
    show ?thesis
    proof (cases "retry_count job < max_retries job")
      case True
      let ?f = "\<lambda>r. r\<lparr>status := pending, retry_count := retry_count job + 1,
                   error_message := Some msg,
                   scheduled_at := t_retry env + 60000 * 2 ^ retry_count job\<rparr>"
      have "\<forall>r \<in> set (db_update (applied_final env) (id' job) ?f ?tbl1). counts_ok job r"
        by (rule db_update_pred [OF 1]) (use 1 True in \<open>auto simp: counts_ok_def\<close>)
      with Some True 1 show ?thesis
        by (simp add: executeJob_def Let_def)
    next
      case False
      have "\<forall>r \<in> set (updateJobStatus (applied_final env) (t_final_updated env) (t_final_completed env)
                (id' job) failed (Some msg) ?tbl1). counts_ok job r"
        unfolding updateJobStatus_def [of "applied_final env"]
        by (rule db_update_pred [OF 1]) (use 1 in \<open>auto simp: counts_ok_def Let_def\<close>)
      with Some False show ?thesis
        by (simp add: executeJob_def Let_def)
    qed
  qed
qed

lemma distinct_ids_same_row:
  "distinct (map id' tbl) \<Longrightarrow> r \<in> set tbl \<Longrightarrow> job \<in> set tbl \<Longrightarrow> id' r = id' job \<Longrightarrow> r = job"
  by (meson distinct_map inj_on_def)

lemma executeJob_retry_bound:
  assumes "distinct (map id' tbl)" "job \<in> set tbl" "\<forall>r \<in> set tbl. retry_count r \<le> max_retries r"
  shows "\<forall>r \<in> set (fst (executeJob env job tbl)). retry_count r \<le> max_retries r"
proof -
  have "\<forall>r \<in> set tbl. counts_ok job r"
    using assms distinct_ids_same_row [OF assms(1) _ assms(2)] by (auto simp: counts_ok_def)
  from executeJob_counts [OF this] show ?thesis by (simp add: counts_ok_def)
qed

lemma run_queue_invariant:
  assumes "distinct (map id' tbl)" "\<forall>r \<in> set tbl. retry_count r \<le> max_retries r"
  shows "distinct (map id' (fst (snd (run_queue envs tbl p)))) \<and>
         (\<forall>r \<in> set (fst (snd (run_queue envs tbl p))). retry_count r \<le> max_retries r)"
  using assms
proof (induction envs arbitrary: tbl p)
  case Nil
  then show ?case by simp
next
  case (Cons env envs)
  show ?case
  proof (cases "getNextJob (t_next env) tbl")
    case None
    with Cons.prems show ?thesis by simp
  next
    case (Some job)
    then have job: "job \<in> set tbl" by (simp add: getNextJob_Some)
    obtain tbl' err where ex: "executeJob env job tbl = (tbl', err)" by (cases "executeJob env job tbl")
    have d: "distinct (map id' tbl')"
      using map_id_executeJob [of env job tbl] ex Cons.prems(1) by simp
    have b: "\<forall>r \<in> set tbl'. retry_count r \<le> max_retries r"
      using executeJob_retry_bound [OF Cons.prems(1) job Cons.prems(2), of env] ex by simp
    show ?thesis
    proof (cases err)
      case None
      with Some ex Cons.IH [OF d b] show ?thesis by simp
    next
      case (Some e)
      with \<open>getNextJob (t_next env) tbl = Some job\<close> ex d b show ?thesis by simp
    qed
  qed
qed

lemma run_queue_frame:
  assumes "distinct (map id' tbl)" "r \<in> set tbl" "status r \<noteq> pending"
  shows "r \<in> set (fst (snd (run_queue envs tbl p)))"
  using assms
proof (induction envs arbitrary: tbl p)
  case Nil
  then show ?case by simp
next
  case (Cons env envs)
  show ?case
  proof (cases "getNextJob (t_next env) tbl")
    case None
    with Cons.prems show ?thesis by simp
  next
    case (Some job)
    then have job: "job \<in> set tbl" "status job = pending" by (simp_all add: getNextJob_Some)
    with Cons.prems have "id' r \<noteq> id' job"
      using distinct_ids_same_row [OF Cons.prems(1) Cons.prems(2) job(1)] by auto
    obtain tbl' err where ex: "executeJob env job tbl = (tbl', err)" by (cases "executeJob env job tbl")
    have d: "distinct (map id' tbl')"
      using map_id_executeJob [of env job tbl] ex Cons.prems(1) by simp
    have m: "r \<in> set tbl'"
      using executeJob_frame [OF Cons.prems(2) \<open>id' r \<noteq> id' job\<close>, of env] ex by simp
    show ?thesis
    proof (cases err)
      case None
      with Some ex Cons.IH [OF d m Cons.prems(3)] show ?thesis by simp
    next
      case (Some e)
      with \<open>getNextJob (t_next env) tbl = Some job\<close> ex m show ?thesis by simp
    qed
  qed
qed

lemma executeJob_single_retry:
  assumes "failure_message (outcome env) \<noteq> None" "applied_final env"
    "retry_count r < max_retries r" "valid_time (t_retry env + 60000 * 2 ^ retry_count r)"
  shows "\<exists>row. executeJob env r [r] = ([row], None) \<and> status row = pending \<and>
           retry_count row = retry_count r + 1 \<and> max_retries row = max_retries r \<and>
           scheduled_at row = t_retry env + 60000 * 2 ^ retry_count r"
  using assms
  by (cases "applied_running env")
     (auto simp: executeJob_def updateJobStatus_def db_update_def Let_def)

lemma executeJob_single_exhausted:
  assumes "failure_message (outcome env) \<noteq> None" "applied_final env"
    "\<not> retry_count r < max_retries r"
  shows "\<exists>row. executeJob env r [r] = ([row], None) \<and> status row = failed \<and>
           retry_count row = retry_count r \<and> max_retries row = max_retries r"
  using assms
  by (cases "applied_running env")
     (auto simp: executeJob_def updateJobStatus_def db_update_def Let_def)

lemma run_queue_not_pending:
  "status r \<noteq> pending \<Longrightarrow> run_queue envs [r] p = (p, [r], None)"
  by (cases envs) (simp_all add: getNextJob_single)

lemma run_queue_failures:
  assumes fails: "\<forall>i \<le> M. failure_message (outcome (envs i)) \<noteq> None"
    and applied: "\<forall>i \<le> M. applied_final (envs i)"
    and due: "\<forall>i < M. t_retry (envs i) + 60000 * 2 ^ i \<le> t_next (envs (Suc i))"
    and valid: "\<forall>i < M. valid_time (t_retry (envs i) + 60000 * 2 ^ i)"
  shows "status r = pending \<Longrightarrow> retry_count r = i \<Longrightarrow> max_retries r = M \<Longrightarrow>
         scheduled_at r \<le> t_next (envs i) \<Longrightarrow> i + n \<le> M \<Longrightarrow>
         \<exists>row. status row = pending \<and> retry_count row = i + n \<and> max_retries row = M \<and>
               scheduled_at row \<le> t_next (envs (i + n)) \<and>
               (\<forall>rest. run_queue (map envs [i ..< i + n] @ rest) [r] p = run_queue rest [row] (p + n))"
proof (induction n arbitrary: r i p)
  case 0
  then show ?case by auto
next
  case (Suc n)
  have lt: "retry_count r < max_retries r" and i: "i < M" using Suc.prems by simp_all
  from i have f: "failure_message (outcome (envs i)) \<noteq> None" and a: "applied_final (envs i)"
    using fails applied by simp_all
  from executeJob_single_retry [OF f a lt] valid i Suc.prems(2)
  obtain r' where r': "executeJob (envs i) r [r] = ([r'], None)" "status r' = pending"
      "retry_count r' = Suc i" "max_retries r' = M"
      "scheduled_at r' = t_retry (envs i) + 60000 * 2 ^ i"
    using Suc.prems(3) by auto
  have due': "scheduled_at r' \<le> t_next (envs (Suc i))"
    using r'(5) due i by simp
  from Suc.IH [OF r'(2) r'(3) r'(4) due', of "p + 1"] Suc.prems(5)
  obtain row where row: "status row = pending" "retry_count row = Suc i + n" "max_retries row = M"
      "scheduled_at row \<le> t_next (envs (Suc i + n))"
      "\<forall>rest. run_queue (map envs [Suc i ..< Suc i + n] @ rest) [r'] (p + 1) = run_queue rest [row] (p + 1 + n)"
    by auto
  have upt: "[i ..< i + Suc n] = i # [Suc i ..< Suc i + n]"
    by (simp add: upt_rec)
  have "\<forall>rest. run_queue (map envs [i ..< i + Suc n] @ rest) [r] p = run_queue rest [row] (p + Suc n)"
    using Suc.prems(1,4) r'(1) row(5) unfolding upt
    by (simp add: getNextJob_single)
  with row show ?case by auto
qed


text \<open>
  Claim C4 says that after exactly \<open>M\<close> consecutive failures the job is \<open>failed\<close>. The
  retry test is \<^verbatim>\<open>retry_count < max_retries\<close> on the count before the increment, so the
  \<open>M\<close>-th failure still reschedules: the job that \<open>createJob\<close> inserts (\<open>M = 3\<close>) is
  \<open>pending\<close> with retry count 3 after three failures.
\<close>

theorem three_failures_leave_job_pending:
  "createJob None ''job-1'' 1700000000000 ''us-sec'' ''https://www.sec.gov/rules'' 0 None []
     = Inr (''job-1'', [\<lparr>id' = ''job-1'', source_id = ''us-sec'', url = ''https://www.sec.gov/rules'', status = pending, priority = 0, scheduled_at = 1700000000000, started_at = None, completed_at = None, updated_at = None, error_message = None, retry_count = 0, max_retries = 3\<rparr>])
   \<and> fst (processQueue 3 (\<lambda>i. \<lparr>outcome = Threw (Some ''fetch failed''), t_next = 1700000000000 + 1000000 * int i, t_running_updated = 1700000000001 + 1000000 * int i, t_running_started = 1700000000002 + 1000000 * int i, t_final_updated = 1700000000003 + 1000000 * int i, t_final_completed = 1700000000004 + 1000000 * int i, t_retry = 1700000000005 + 1000000 * int i, applied_running = True, applied_final = True\<rparr>) [\<lparr>id' = ''job-1'', source_id = ''us-sec'', url = ''https://www.sec.gov/rules'', status = pending, priority = 0, scheduled_at = 1700000000000, started_at = None, completed_at = None, updated_at = None, error_message = None, retry_count = 0, max_retries = 3\<rparr>]) = 3
   \<and> map status (fst (snd (processQueue 3 (\<lambda>i. \<lparr>outcome = Threw (Some ''fetch failed''), t_next = 1700000000000 + 1000000 * int i, t_running_updated = 1700000000001 + 1000000 * int i, t_running_started = 1700000000002 + 1000000 * int i, t_final_updated = 1700000000003 + 1000000 * int i, t_final_completed = 1700000000004 + 1000000 * int i, t_retry = 1700000000005 + 1000000 * int i, applied_running = True, applied_final = True\<rparr>) [\<lparr>id' = ''job-1'', source_id = ''us-sec'', url = ''https://www.sec.gov/rules'', status = pending, priority = 0, scheduled_at = 1700000000000, started_at = None, completed_at = None, updated_at = None, error_message = None, retry_count = 0, max_retries = 3\<rparr>]))) = [pending]
   \<and> map retry_count (fst (snd (processQueue 3 (\<lambda>i. \<lparr>outcome = Threw (Some ''fetch failed''), t_next = 1700000000000 + 1000000 * int i, t_running_updated = 1700000000001 + 1000000 * int i, t_running_started = 1700000000002 + 1000000 * int i, t_final_updated = 1700000000003 + 1000000 * int i, t_final_completed = 1700000000004 + 1000000 * int i, t_retry = 1700000000005 + 1000000 * int i, applied_running = True, applied_final = True\<rparr>) [\<lparr>id' = ''job-1'', source_id = ''us-sec'', url = ''https://www.sec.gov/rules'', status = pending, priority = 0, scheduled_at = 1700000000000, started_at = None, completed_at = None, updated_at = None, error_message = None, retry_count = 0, max_retries = 3\<rparr>]))) = [3]"
  by code_simp



text \<open>
  Claim C4, as amended. A pending job with retry count 0 and \<open>maxRetries = M\<close>, alone in the
  queue, whose executions all fail, each one run when the job is due and recorded by the
  store: after \<open>M\<close> failures it is \<open>pending\<close> with retry count \<open>M\<close>; the failure after
  that makes it \<open>failed\<close> with retry count \<open>M\<close>, and however many more iterations the queue
  is given, no further job is processed and the row stays as it is. For every table
  with distinct ids: if every retry count is within its maximum before \<open>processQueue\<close>, it
  is so after it, whatever the executions do; and a \<open>failed\<close> row is in the table after
  \<open>processQueue\<close> exactly as it was before.
\<close>

theorem scheduler_retry_count:
  "(status job = pending \<and> retry_count job = 0 \<and> max_retries job = M \<and>
    (\<forall>i \<le> M. failure_message (outcome (envs i)) \<noteq> None) \<and>
    (\<forall>i \<le> M. applied_final (envs i)) \<and>
    scheduled_at job \<le> t_next (envs 0) \<and>
    (\<forall>i < M. t_retry (envs i) + 60000 * 2 ^ i \<le> t_next (envs (Suc i))) \<and>
    (\<forall>i < M. valid_time (t_retry (envs i) + 60000 * 2 ^ i))
    \<longrightarrow> (\<exists>row. processQueue M envs [job] = (M, [row], None) \<and>
               status row = pending \<and> retry_count row = M)
      \<and> (\<exists>row. status row = failed \<and> retry_count row = M \<and>
               (\<forall>k. processQueue (Suc M + k) envs [job] = (Suc M, [row], None))))
   \<and> (distinct (map id' tbl) \<and> (\<forall>r \<in> set tbl. retry_count r \<le> max_retries r)
       \<longrightarrow> (\<forall>r \<in> set (fst (snd (processQueue n envs' tbl))). retry_count r \<le> max_retries r))
   \<and> (distinct (map id' tbl) \<and> r \<in> set tbl \<and> status r = failed
       \<longrightarrow> r \<in> set (fst (snd (processQueue n envs' tbl))))"
proof (intro conjI impI)
  assume h: "status job = pending \<and> retry_count job = 0 \<and> max_retries job = M \<and>
    (\<forall>i \<le> M. failure_message (outcome (envs i)) \<noteq> None) \<and>
    (\<forall>i \<le> M. applied_final (envs i)) \<and>
    scheduled_at job \<le> t_next (envs 0) \<and>
    (\<forall>i < M. t_retry (envs i) + 60000 * 2 ^ i \<le> t_next (envs (Suc i))) \<and>
    (\<forall>i < M. valid_time (t_retry (envs i) + 60000 * 2 ^ i))"
  then have fails: "\<forall>i \<le> M. failure_message (outcome (envs i)) \<noteq> None"
    and applied: "\<forall>i \<le> M. applied_final (envs i)"
    and due: "\<forall>i < M. t_retry (envs i) + 60000 * 2 ^ i \<le> t_next (envs (Suc i))"
    and valid: "\<forall>i < M. valid_time (t_retry (envs i) + 60000 * 2 ^ i)"
    by simp_all
  from h run_queue_failures [OF fails applied due valid, of job 0 M 0]
  obtain row where row: "status row = pending" "retry_count row = M" "max_retries row = M"
      "scheduled_at row \<le> t_next (envs M)"
      "\<forall>rest. run_queue (map envs [0 ..< M] @ rest) [job] 0 = run_queue rest [row] M"
    by auto
  from row(5) [rule_format, of "[]"] row(1,2)
  show "\<exists>row. processQueue M envs [job] = (M, [row], None) \<and> status row = pending \<and> retry_count row = M"
    by (auto simp: processQueue_def)
  have f: "failure_message (outcome (envs M)) \<noteq> None" and a: "applied_final (envs M)"
    using fails applied by simp_all
  from executeJob_single_exhausted [OF f a, of row] row(2,3)
  obtain row' where row': "executeJob (envs M) row [row] = ([row'], None)" "status row' = failed"
      "retry_count row' = M"
    by auto
  have "processQueue (Suc M + k) envs [job] = (Suc M, [row'], None)" for k
  proof -
    have "[0 ..< M + Suc k] = [0 ..< M] @ [M ..< M + Suc k]"
      by (rule upt_add_eq_append) simp
    moreover have "[M ..< M + Suc k] = M # [Suc M ..< M + Suc k]"
      by (rule upt_conv_Cons) simp
    ultimately have "[0 ..< Suc M + k] = [0 ..< M] @ M # [Suc M ..< Suc M + k]"
      by simp
    then have "processQueue (Suc M + k) envs [job]
                 = run_queue (envs M # map envs [Suc M ..< Suc M + k]) [row] M"
      using row(5) by (simp add: processQueue_def)
    also have "\<dots> = run_queue (map envs [Suc M ..< Suc M + k]) [row'] (Suc M)"
      using row(1,4) row'(1) by (simp add: getNextJob_single)
    also have "\<dots> = (Suc M, [row'], None)"
      using row'(2) by (simp add: run_queue_not_pending)
    finally show ?thesis .
  qed
  with row'(2,3)
  show "\<exists>row. status row = failed \<and> retry_count row = M \<and>
               (\<forall>k. processQueue (Suc M + k) envs [job] = (Suc M, [row], None))"
    by blast
next
  assume "distinct (map id' tbl) \<and> (\<forall>r \<in> set tbl. retry_count r \<le> max_retries r)"
  then show "\<forall>r \<in> set (fst (snd (processQueue n envs' tbl))). retry_count r \<le> max_retries r"
    using run_queue_invariant [of tbl "map envs' [0 ..< n]" 0] by (simp add: processQueue_def)
next
  assume "distinct (map id' tbl) \<and> r \<in> set tbl \<and> status r = failed"
  then show "r \<in> set (fst (snd (processQueue n envs' tbl)))"
    using run_queue_frame [of tbl r "map envs' [0 ..< n]" 0] by (simp add: processQueue_def)
qed


text \<open>
  With the row that \<open>createJob\<close> inserts (\<open>M = 3\<close>), failures one million milliseconds
  apart, and a table that also holds a job that failed earlier.
\<close>

theorem scheduler_retry_count_witness:
  "(\<exists>row. processQueue 3 (\<lambda>i. \<lparr>outcome = Threw (Some ''fetch failed''), t_next = 1700000000000 + 1000000 * int i, t_running_updated = 1700000000001 + 1000000 * int i, t_running_started = 1700000000002 + 1000000 * int i, t_final_updated = 1700000000003 + 1000000 * int i, t_final_completed = 1700000000004 + 1000000 * int i, t_retry = 1700000000005 + 1000000 * int i, applied_running = True, applied_final = True\<rparr>) [\<lparr>id' = ''job-1'', source_id = ''us-sec'', url = ''https://www.sec.gov/rules'', status = pending, priority = 0, scheduled_at = 1700000000000, started_at = None, completed_at = None, updated_at = None, error_message = None, retry_count = 0, max_retries = 3\<rparr>] = (3, [row], None) \<and> status row = pending \<and> retry_count row = 3)
   \<and> (\<exists>row. status row = failed \<and> retry_count row = 3 \<and>
          processQueue 4 (\<lambda>i. \<lparr>outcome = Threw (Some ''fetch failed''), t_next = 1700000000000 + 1000000 * int i, t_running_updated = 1700000000001 + 1000000 * int i, t_running_started = 1700000000002 + 1000000 * int i, t_final_updated = 1700000000003 + 1000000 * int i, t_final_completed = 1700000000004 + 1000000 * int i, t_retry = 1700000000005 + 1000000 * int i, applied_running = True, applied_final = True\<rparr>) [\<lparr>id' = ''job-1'', source_id = ''us-sec'', url = ''https://www.sec.gov/rules'', status = pending, priority = 0, scheduled_at = 1700000000000, started_at = None, completed_at = None, updated_at = None, error_message = None, retry_count = 0, max_retries = 3\<rparr>] = (4, [row], None) \<and>
          processQueue 9 (\<lambda>i. \<lparr>outcome = Threw (Some ''fetch failed''), t_next = 1700000000000 + 1000000 * int i, t_running_updated = 1700000000001 + 1000000 * int i, t_running_started = 1700000000002 + 1000000 * int i, t_final_updated = 1700000000003 + 1000000 * int i, t_final_completed = 1700000000004 + 1000000 * int i, t_retry = 1700000000005 + 1000000 * int i, applied_running = True, applied_final = True\<rparr>) [\<lparr>id' = ''job-1'', source_id = ''us-sec'', url = ''https://www.sec.gov/rules'', status = pending, priority = 0, scheduled_at = 1700000000000, started_at = None, completed_at = None, updated_at = None, error_message = None, retry_count = 0, max_retries = 3\<rparr>] = (4, [row], None))
   \<and> list_all (\<lambda>r. retry_count r \<le> max_retries r) (fst (snd (processQueue 2 (\<lambda>i. \<lparr>outcome = Threw (Some ''fetch failed''), t_next = 1700000000000 + 1000000 * int i, t_running_updated = 1700000000001 + 1000000 * int i, t_running_started = 1700000000002 + 1000000 * int i, t_final_updated = 1700000000003 + 1000000 * int i, t_final_completed = 1700000000004 + 1000000 * int i, t_retry = 1700000000005 + 1000000 * int i, applied_running = True, applied_final = True\<rparr>) [\<lparr>id' = ''job-0'', source_id = ''us-sec'', url = ''https://www.sec.gov/news'', status = failed, priority = 0, scheduled_at = 1690000000000, started_at = Some 1690000500000, completed_at = Some 1690000500900, updated_at = Some 1690000500900, error_message = Some ''HTTP 404: Not Found'', retry_count = 3, max_retries = 3\<rparr>, \<lparr>id' = ''job-1'', source_id = ''us-sec'', url = ''https://www.sec.gov/rules'', status = pending, priority = 0, scheduled_at = 1700000000000, started_at = None, completed_at = None, updated_at = None, error_message = None, retry_count = 0, max_retries = 3\<rparr>])))
   \<and> \<lparr>id' = ''job-0'', source_id = ''us-sec'', url = ''https://www.sec.gov/news'', status = failed, priority = 0, scheduled_at = 1690000000000, started_at = Some 1690000500000, completed_at = Some 1690000500900, updated_at = Some 1690000500900, error_message = Some ''HTTP 404: Not Found'', retry_count = 3, max_retries = 3\<rparr> \<in> set (fst (snd (processQueue 2 (\<lambda>i. \<lparr>outcome = Threw (Some ''fetch failed''), t_next = 1700000000000 + 1000000 * int i, t_running_updated = 1700000000001 + 1000000 * int i, t_running_started = 1700000000002 + 1000000 * int i, t_final_updated = 1700000000003 + 1000000 * int i, t_final_completed = 1700000000004 + 1000000 * int i, t_retry = 1700000000005 + 1000000 * int i, applied_running = True, applied_final = True\<rparr>) [\<lparr>id' = ''job-0'', source_id = ''us-sec'', url = ''https://www.sec.gov/news'', status = failed, priority = 0, scheduled_at = 1690000000000, started_at = Some 1690000500000, completed_at = Some 1690000500900, updated_at = Some 1690000500900, error_message = Some ''HTTP 404: Not Found'', retry_count = 3, max_retries = 3\<rparr>, \<lparr>id' = ''job-1'', source_id = ''us-sec'', url = ''https://www.sec.gov/rules'', status = pending, priority = 0, scheduled_at = 1700000000000, started_at = None, completed_at = None, updated_at = None, error_message = None, retry_count = 0, max_retries = 3\<rparr>])))"
proof -
  let ?envs = "(\<lambda>i. \<lparr>outcome = Threw (Some ''fetch failed''), t_next = 1700000000000 + 1000000 * int i, t_running_updated = 1700000000001 + 1000000 * int i, t_running_started = 1700000000002 + 1000000 * int i, t_final_updated = 1700000000003 + 1000000 * int i, t_final_completed = 1700000000004 + 1000000 * int i, t_retry = 1700000000005 + 1000000 * int i, applied_running = True, applied_final = True\<rparr>)"
  let ?j0 = "\<lparr>id' = ''job-1'', source_id = ''us-sec'', url = ''https://www.sec.gov/rules'', status = pending, priority = 0, scheduled_at = 1700000000000, started_at = None, completed_at = None, updated_at = None, error_message = None, retry_count = 0, max_retries = 3\<rparr>"
  let ?jf = "\<lparr>id' = ''job-0'', source_id = ''us-sec'', url = ''https://www.sec.gov/news'', status = failed, priority = 0, scheduled_at = 1690000000000, started_at = Some 1690000500000, completed_at = Some 1690000500900, updated_at = Some 1690000500900, error_message = Some ''HTTP 404: Not Found'', retry_count = 3, max_retries = 3\<rparr>"
  have h: "status ?j0 = pending \<and> retry_count ?j0 = 0 \<and> max_retries ?j0 = 3 \<and>
    (\<forall>i \<le> 3. failure_message (outcome (?envs i)) \<noteq> None) \<and>
    (\<forall>i \<le> 3. applied_final (?envs i)) \<and>
    scheduled_at ?j0 \<le> t_next (?envs 0) \<and>
    (\<forall>i < 3. t_retry (?envs i) + 60000 * 2 ^ i \<le> t_next (?envs (Suc i))) \<and>
    (\<forall>i < 3. valid_time (t_retry (?envs i) + 60000 * 2 ^ i))"
    by (auto simp: valid_time_def less_Suc_eq numeral_3_eq_3)
  have t: "distinct (map id' [?jf, ?j0]) \<and> (\<forall>r \<in> set [?jf, ?j0]. retry_count r \<le> max_retries r)"
    and m: "distinct (map id' [?jf, ?j0]) \<and> ?jf \<in> set [?jf, ?j0] \<and> status ?jf = failed"
    by simp_all
  note T = scheduler_retry_count [where job = ?j0 and M = 3 and envs = ?envs and tbl = "[?jf, ?j0]"
      and r = ?jf and n = 2 and envs' = ?envs]
  from T h obtain row where row: "processQueue 3 ?envs [?j0] = (3, [row], None)"
      "status row = pending" "retry_count row = 3"
    by blast
  from T h obtain row' where row': "status row' = failed" "retry_count row' = 3"
      "\<forall>k. processQueue (Suc 3 + k) ?envs [?j0] = (Suc 3, [row'], None)"
    by blast
  from row'(3) [rule_format, of 0] row'(3) [rule_format, of 5]
  have "processQueue 4 ?envs [?j0] = (4, [row'], None)" "processQueue 9 ?envs [?j0] = (4, [row'], None)"
    by simp_all
  moreover from T t have "\<forall>r \<in> set (fst (snd (processQueue 2 ?envs [?jf, ?j0]))). retry_count r \<le> max_retries r"
    by blast
  moreover from T m have "?jf \<in> set (fst (snd (processQueue 2 ?envs [?jf, ?j0])))"
    by blast
  ultimately show ?thesis
    using row row' by (auto simp: list_all_iff)
qed


section \<open>Properties of retrieval\<close>

subsection \<open>The merged map\<close>

lemma slice_from_0: "slice xs 0 l = take (slice_index (length xs) l) xs"
  by (simp add: slice_def slice_index_def Let_def)

lemma slice_index_nonneg: "0 \<le> l \<Longrightarrow> slice_index n l \<le> nat l"
  by (simp add: slice_index_def)

lemma set_slice_from_0: "set (slice xs 0 l) \<subseteq> set xs"
  by (simp add: slice_from_0 set_take_subset)

lemma map_fst_map_set:
  "map fst (map_set k v m) = (if map_has m k then map fst m else map fst m @ [k])"
  by (induction m) (auto simp: map_set_def map_has_def split: prod.splits)

lemma map_has_map_set: "map_has (map_set k v m) k' = (k' = k \<or> map_has m k')"
proof -
  have "map_has (map_set k v m) k' = (k' \<in> set (map fst (map_set k v m)))"
    by (simp add: map_has_def)
  also have "\<dots> = (k' = k \<or> k' \<in> set (map fst m))"
    unfolding map_fst_map_set by (auto simp: map_has_def)
  finally show ?thesis by (simp add: map_has_def)
qed

lemma distinct_map_set: "distinct (map fst m) \<Longrightarrow> distinct (map fst (map_set k v m))"
  by (auto simp: map_fst_map_set map_has_def)

lemma set_map_set: "set (map_set k v m) \<subseteq> insert (k, v) (set m)"
  by (auto simp: map_set_def split: if_splits)

lemma length_map_set: "length (map_set k v m) \<le> Suc (length m)"
  by (simp add: map_set_def)

text \<open>Entries of the map after the loop over the semantic results.\<close>

lemma add_semantic_entries:
  "(k, v) \<in> set (add_semantic xs m) \<Longrightarrow>
     (k, v) \<in> set m \<or> (v \<in> set xs \<and> regulationId v = Some k \<and> k \<noteq> [])"
proof (induction xs arbitrary: m)
  case Nil
  then show ?case by simp
next
  case (Cons x xs)
  from Cons.IH [OF Cons.prems [simplified]] show ?case
    using set_map_set [of "the (regulationId x)" x m]
    by (auto simp: truthy_def split: if_splits option.splits)
qed

lemma add_semantic_distinct: "distinct (map fst m) \<Longrightarrow> distinct (map fst (add_semantic xs m))"
  by (induction xs arbitrary: m) (simp_all add: distinct_map_set)

lemma add_semantic_length: "length (add_semantic xs m) \<le> length m + length xs"
proof (induction xs arbitrary: m)
  case Nil
  then show ?case by simp
next
  case (Cons x xs)
  have "length (if truthy (regulationId x) then map_set (the (regulationId x)) x m else m) \<le> Suc (length m)"
    using length_map_set [of "the (regulationId x)" x m] by simp
  with Cons.IH [of "if truthy (regulationId x) then map_set (the (regulationId x)) x m else m"]
  show ?case by simp
qed

lemma add_semantic_has:
  "map_has (add_semantic xs m) k \<longleftrightarrow>
     map_has m k \<or> (k \<noteq> [] \<and> (\<exists>s \<in> set xs. regulationId s = Some k))"
proof (induction xs arbitrary: m)
  case Nil
  then show ?case by simp
next
  case (Cons x xs)
  show ?case
    by (auto simp: Cons.IH map_has_map_set truthy_def split: option.splits)
qed

lemma add_keyword_append:
  "\<exists>extra. add_keyword rs m = m @ extra \<and>
     (\<forall>(k, v) \<in> set extra. \<not> map_has m k \<and> (\<exists>reg \<in> set rs. k = reg_id reg \<and> v = keyword_result reg))"
proof (induction rs arbitrary: m)
  case Nil
  then show ?case by simp
next
  case (Cons r rs)
  show ?case
  proof (cases "map_has m (reg_id r)")
    case True
    with Cons.IH [of m] show ?thesis by fastforce
  next
    case False
    then have step: "map_set (reg_id r) (keyword_result r) m = m @ [(reg_id r, keyword_result r)]"
      by (simp add: map_set_def)
    from Cons.IH [of "m @ [(reg_id r, keyword_result r)]"]
    obtain extra where e: "add_keyword rs (m @ [(reg_id r, keyword_result r)]) = (m @ [(reg_id r, keyword_result r)]) @ extra"
      "\<forall>(k, v) \<in> set extra. \<not> map_has (m @ [(reg_id r, keyword_result r)]) k \<and>
          (\<exists>reg \<in> set rs. k = reg_id reg \<and> v = keyword_result reg)"
      by blast
    have "add_keyword (r # rs) m = m @ ((reg_id r, keyword_result r) # extra)"
      using False step e(1) by simp
    moreover have "\<forall>(k, v) \<in> set ((reg_id r, keyword_result r) # extra).
        \<not> map_has m k \<and> (\<exists>reg \<in> set (r # rs). k = reg_id reg \<and> v = keyword_result reg)"
      using False e(2) by (auto simp: map_has_def)
    ultimately show ?thesis by blast
  qed
qed

lemma add_keyword_distinct: "distinct (map fst m) \<Longrightarrow> distinct (map fst (add_keyword rs m))"
  by (induction rs arbitrary: m) (simp_all add: distinct_map_set)

lemma add_keyword_has:
  "map_has (add_keyword rs m) k \<longleftrightarrow> map_has m k \<or> k \<in> reg_id ` set rs"
  by (induction rs arbitrary: m) (auto simp: map_has_map_set)

lemma add_keyword_length: "length (add_keyword rs m) \<le> length m + length rs"
proof (induction rs arbitrary: m)
  case Nil
  then show ?case by simp
next
  case (Cons r rs)
  have "length (if \<not> map_has m (reg_id r) then map_set (reg_id r) (keyword_result r) m else m) \<le> Suc (length m)"
    using length_map_set [of "reg_id r" "keyword_result r" m] by simp
  with Cons.IH [of "if \<not> map_has m (reg_id r) then map_set (reg_id r) (keyword_result r) m else m"]
  show ?case by simp
qed

lemma count_by_key:
  "distinct (map fst m) \<Longrightarrow> keyed m \<Longrightarrow>
     length (filter (\<lambda>v. regulationId v = Some rid) (map snd m)) = (if map_has m rid then 1 else 0)"
proof (induction m)
  case Nil
  then show ?case by (simp add: map_has_def)
next
  case (Cons e m)
  obtain k v where e: "e = (k, v)" by (cases e)
  from Cons.prems have d: "distinct (map fst m)" and km: "keyed m" and kv: "regulationId v = Some k"
    and fresh: "k \<notin> fst ` set m"
    by (auto simp: keyed_def e)
  have ih: "length (filter (\<lambda>v. regulationId v = Some rid) (map snd m)) = (if map_has m rid then 1 else 0)"
    by (rule Cons.IH [OF d km])
  have has: "map_has (e # m) rid = (rid = k \<or> map_has m rid)"
    by (auto simp: e map_has_def)
  show ?case
  proof (cases "rid = k")
    case True
    with fresh have "\<not> map_has m rid" by (simp add: map_has_def)
    with ih True kv show ?thesis unfolding has by (simp add: e del: filter_map)
  next
    case False
    with ih kv show ?thesis unfolding has by (simp add: e del: filter_map)
  qed
qed

lemma length_filter_take: "length (filter P (take n xs)) \<le> length (filter P xs)"
proof -
  have "filter P xs = filter P (take n xs) @ filter P (drop n xs)"
    by (metis append_take_drop_id filter_append)
  then show ?thesis by simp
qed

lemma length_filter_sort_key: "length (filter P (sort_key f xs)) = length (filter P xs)"
  by (simp add: filter_sort)

lemma sorted_prefix_holds_small:
  fixes f :: "'a \<Rightarrow> real"
  shows "sorted (map f ws) \<Longrightarrow> length (filter (\<lambda>r. f r < c) ws) \<le> n \<Longrightarrow>
         r \<in> set ws \<Longrightarrow> f r < c \<Longrightarrow> r \<in> set (take n ws)"
proof (induction ws arbitrary: n)
  case Nil
  then show ?case by simp
next
  case (Cons x xs)
  show ?case
  proof (cases "f x < c")
    case True
    with Cons.prems(2) obtain n' where n: "n = Suc n'" "length (filter (\<lambda>r. f r < c) xs) \<le> n'"
      by (cases n) auto
    show ?thesis
    proof (cases "r = x")
      case True
      then show ?thesis by (simp add: n)
    next
      case False
      with Cons.prems(3) have "r \<in> set xs" by simp
      from Cons.IH [OF _ n(2) this Cons.prems(4)] Cons.prems(1)
      show ?thesis by (simp add: n)
    qed
  next
    case False
    with Cons.prems(1,3,4) have False by fastforce
    then show ?thesis ..
  qed
qed

lemma keyed_add_semantic: "keyed m \<Longrightarrow> keyed (add_semantic xs m)"
  unfolding keyed_def using add_semantic_entries by fastforce

lemma keyword_result_fields:
  "regulationId (keyword_result reg) = Some (reg_id reg)" "similarity (keyword_result reg) = 1 / 2"
  by (simp_all add: keyword_result_def)

lemma length_search:
  "search matched regsData filters limit = Inr sem \<Longrightarrow> 0 \<le> limit \<Longrightarrow> length sem \<le> nat limit"
  by (auto simp: search_def Let_def slice_from_0 slice_index_def split: sum.splits)

lemma merged_facts:
  fixes sem :: "SearchResult list" and kw :: "Regulation list"
  defines "m1 \<equiv> add_semantic sem []" and "m2 \<equiv> add_keyword kw (add_semantic sem [])"
  shows "distinct (map fst m2)"
    and "keyed m2"
    and "length m1 \<le> length sem"
    and "length m2 \<le> length sem + length kw"
    and "map_has m2 k \<longleftrightarrow> (k \<noteq> [] \<and> (\<exists>s \<in> set sem. regulationId s = Some k)) \<or> k \<in> reg_id ` set kw"
    and "(k, v) \<in> set m2 \<Longrightarrow> k \<noteq> [] \<and> (\<exists>s \<in> set sem. regulationId s = Some k) \<Longrightarrow> v \<in> set sem"
    and "(k, v) \<in> set m2 \<Longrightarrow> \<not> (k \<noteq> [] \<and> (\<exists>s \<in> set sem. regulationId s = Some k)) \<Longrightarrow>
           similarity v = 1 / 2 \<and> (\<exists>reg \<in> set kw. v = keyword_result reg)"
    and "length (filter (\<lambda>r. 1 / 2 < similarity r) (map snd m2)) \<le> length sem"
proof -
  have d1: "distinct (map fst m1)" unfolding m1_def by (rule add_semantic_distinct) simp
  have k1: "keyed m1" unfolding m1_def by (rule keyed_add_semantic) (simp add: keyed_def)
  have e1: "(k, v) \<in> set m1 \<Longrightarrow> v \<in> set sem \<and> regulationId v = Some k \<and> k \<noteq> []" for k v
    using add_semantic_entries [of k v sem "[]"] by (simp add: m1_def)
  have h1: "map_has m1 k \<longleftrightarrow> k \<noteq> [] \<and> (\<exists>s \<in> set sem. regulationId s = Some k)" for k
    using add_semantic_has [of sem "[]" k] by (simp add: m1_def) (simp add: map_has_def)
  show l1: "length m1 \<le> length sem"
    using add_semantic_length [of sem "[]"] by (simp add: m1_def)
  from add_keyword_append [of kw m1]
  obtain extra where extra: "m2 = m1 @ extra"
    "\<forall>(k, v) \<in> set extra. \<not> map_has m1 k \<and> (\<exists>reg \<in> set kw. k = reg_id reg \<and> v = keyword_result reg)"
    unfolding m1_def m2_def by blast
  show "distinct (map fst m2)"
    using add_keyword_distinct [OF d1, of kw] by (simp add: m1_def m2_def)
  show "keyed m2"
    using k1 extra by (auto simp: keyed_def keyword_result_fields)
  show "length m2 \<le> length sem + length kw"
    using add_keyword_length [of kw m1] l1 by (simp add: m1_def m2_def)
  show "map_has m2 k \<longleftrightarrow> (k \<noteq> [] \<and> (\<exists>s \<in> set sem. regulationId s = Some k)) \<or> k \<in> reg_id ` set kw"
    using add_keyword_has [of kw m1 k] h1 [of k] by (simp add: m1_def m2_def)
  show "v \<in> set sem" if "(k, v) \<in> set m2" "k \<noteq> [] \<and> (\<exists>s \<in> set sem. regulationId s = Some k)"
  proof -
    from that(2) have "map_has m1 k" by (simp add: h1)
    with that(1) extra have "(k, v) \<in> set m1" by auto
    with e1 show ?thesis by blast
  qed
  show "similarity v = 1 / 2 \<and> (\<exists>reg \<in> set kw. v = keyword_result reg)"
    if "(k, v) \<in> set m2" "\<not> (k \<noteq> [] \<and> (\<exists>s \<in> set sem. regulationId s = Some k))"
  proof -
    from that(2) e1 [of k v] have "(k, v) \<notin> set m1" by blast
    with that(1) extra have "(k, v) \<in> set extra" by auto
    with extra(2) show ?thesis by (auto simp: keyword_result_fields)
  qed
  have "filter (\<lambda>r. 1 / 2 < similarity r) (map snd extra) = []"
    using extra(2) by (auto simp: filter_empty_conv keyword_result_fields)
  then have "length (filter (\<lambda>r. 1 / 2 < similarity r) (map snd m2)) =
             length (filter (\<lambda>r. 1 / 2 < similarity r) (map snd m1))"
    by (simp add: extra(1) del: filter_map)
  also have "\<dots> \<le> length (map snd m1)" by (rule length_filter_le)
  finally show "length (filter (\<lambda>r. 1 / 2 < similarity r) (map snd m2)) \<le> length sem"
    using l1 by simp
qed


lemma hybridSearch_unfold:
  assumes "search matched regsData filters limit = Inr sem"
  shows "hybridSearch matched regsData keywordResults filters limit =
     Inr (slice (sort_key (\<lambda>r. - similarity r)
            (map snd (add_keyword (case keywordResults of None \<Rightarrow> [] | Some rs \<Rightarrow> rs)
                        (add_semantic sem [])))) 0 limit)"
  using assms by (simp add: hybridSearch_def Let_def split: option.split)

lemma insort_key_before_tail:
  fixes f :: "'a \<Rightarrow> real"
  shows "\<forall>y \<in> set ys. f x < f y \<Longrightarrow> insort_key f x (zs @ ys) = insort_key f x zs @ ys"
proof (induction zs)
  case Nil
  then show ?case by (cases ys) auto
next
  case (Cons z zs)
  then show ?case by simp
qed

lemma sort_key_constant_tail:
  fixes f :: "'a \<Rightarrow> real"
  assumes "\<forall>y \<in> set ys. f y = c"
  shows "\<forall>x \<in> set xs. f x < c \<Longrightarrow> sort_key f (xs @ ys) = sort_key f xs @ ys"
proof (induction xs)
  case Nil
  have "sorted (map f ys)"
    using assms by (induction ys) auto
  then show ?case by (simp add: sort_key_id_if_sorted)
next
  case (Cons x xs)
  then have "sort_key f (xs @ ys) = sort_key f xs @ ys" by simp
  moreover have "\<forall>y \<in> set ys. f x < f y" using Cons.prems assms by simp
  ultimately show ?case by (simp add: insort_key_before_tail)
qed

subsection \<open>Merging the two result lists\<close>

text \<open>
  Claim C8 says that a record returned only by the title search appears in the output with
  similarity 0.5. The merged values are cut to \<open>limit\<close> after the sort, and the entries of
  the semantic search come first: with \<open>limit = 1\<close>, one semantic result for \<open>reg-1\<close>
  (similarity 0.9) and the title search returning \<open>reg-2\<close> only, the output is the semantic
  result alone, and \<open>reg-2\<close> is not in it.
\<close>

theorem hybridSearch_truncates_keyword_result:
  "search (Inr [\<lparr>doc_id = ''doc-1'', doc_content = ''text of chunk 1'', doc_similarity = 9 / 10, doc_metadata = Some \<lparr>meta_regulation_id = Some ''reg-1'', meta_title = Some ''Chunk 1'', meta_url = None\<rparr>\<rparr>]) (Some [\<lparr>reg_id = ''reg-1'', reg_title = ''Rule 1'', reg_summary = Some ''Summary 1'', reg_jurisdiction = Some ''US'', reg_category = Some ''financial'', reg_priority = Some ''high'', source_url = ''https://www.sec.gov/rules/1'', effective_date = Some ''2024-01-01''\<rparr>]) \<lparr>SearchFilter.jurisdiction = None, SearchFilter.category = None, SearchFilter.priority = None, dateRange = None\<rparr> 1 = Inr [to_result [\<lparr>reg_id = ''reg-1'', reg_title = ''Rule 1'', reg_summary = Some ''Summary 1'', reg_jurisdiction = Some ''US'', reg_category = Some ''financial'', reg_priority = Some ''high'', source_url = ''https://www.sec.gov/rules/1'', effective_date = Some ''2024-01-01''\<rparr>] \<lparr>doc_id = ''doc-1'', doc_content = ''text of chunk 1'', doc_similarity = 9 / 10, doc_metadata = Some \<lparr>meta_regulation_id = Some ''reg-1'', meta_title = Some ''Chunk 1'', meta_url = None\<rparr>\<rparr>]
   \<and> hybridSearch (Inr [\<lparr>doc_id = ''doc-1'', doc_content = ''text of chunk 1'', doc_similarity = 9 / 10, doc_metadata = Some \<lparr>meta_regulation_id = Some ''reg-1'', meta_title = Some ''Chunk 1'', meta_url = None\<rparr>\<rparr>]) (Some [\<lparr>reg_id = ''reg-1'', reg_title = ''Rule 1'', reg_summary = Some ''Summary 1'', reg_jurisdiction = Some ''US'', reg_category = Some ''financial'', reg_priority = Some ''high'', source_url = ''https://www.sec.gov/rules/1'', effective_date = Some ''2024-01-01''\<rparr>]) (Some [\<lparr>reg_id = ''reg-2'', reg_title = ''Rule 2'', reg_summary = Some ''Summary 2'', reg_jurisdiction = Some ''US'', reg_category = Some ''financial'', reg_priority = Some ''high'', source_url = ''https://www.sec.gov/rules/2'', effective_date = Some ''2024-01-01''\<rparr>]) \<lparr>SearchFilter.jurisdiction = None, SearchFilter.category = None, SearchFilter.priority = None, dateRange = None\<rparr> 1 = Inr [to_result [\<lparr>reg_id = ''reg-1'', reg_title = ''Rule 1'', reg_summary = Some ''Summary 1'', reg_jurisdiction = Some ''US'', reg_category = Some ''financial'', reg_priority = Some ''high'', source_url = ''https://www.sec.gov/rules/1'', effective_date = Some ''2024-01-01''\<rparr>] \<lparr>doc_id = ''doc-1'', doc_content = ''text of chunk 1'', doc_similarity = 9 / 10, doc_metadata = Some \<lparr>meta_regulation_id = Some ''reg-1'', meta_title = Some ''Chunk 1'', meta_url = None\<rparr>\<rparr>]
   \<and> regulationId (to_result [\<lparr>reg_id = ''reg-1'', reg_title = ''Rule 1'', reg_summary = Some ''Summary 1'', reg_jurisdiction = Some ''US'', reg_category = Some ''financial'', reg_priority = Some ''high'', source_url = ''https://www.sec.gov/rules/1'', effective_date = Some ''2024-01-01''\<rparr>] \<lparr>doc_id = ''doc-1'', doc_content = ''text of chunk 1'', doc_similarity = 9 / 10, doc_metadata = Some \<lparr>meta_regulation_id = Some ''reg-1'', meta_title = Some ''Chunk 1'', meta_url = None\<rparr>\<rparr>) = Some ''reg-1''
   \<and> similarity (to_result [\<lparr>reg_id = ''reg-1'', reg_title = ''Rule 1'', reg_summary = Some ''Summary 1'', reg_jurisdiction = Some ''US'', reg_category = Some ''financial'', reg_priority = Some ''high'', source_url = ''https://www.sec.gov/rules/1'', effective_date = Some ''2024-01-01''\<rparr>] \<lparr>doc_id = ''doc-1'', doc_content = ''text of chunk 1'', doc_similarity = 9 / 10, doc_metadata = Some \<lparr>meta_regulation_id = Some ''reg-1'', meta_title = Some ''Chunk 1'', meta_url = None\<rparr>\<rparr>) = 9 / 10
   \<and> reg_id \<lparr>reg_id = ''reg-2'', reg_title = ''Rule 2'', reg_summary = Some ''Summary 2'', reg_jurisdiction = Some ''US'', reg_category = Some ''financial'', reg_priority = Some ''high'', source_url = ''https://www.sec.gov/rules/2'', effective_date = Some ''2024-01-01''\<rparr> = ''reg-2''
   \<and> filter (\<lambda>r. regulationId r = Some ''reg-2'') [to_result [\<lparr>reg_id = ''reg-1'', reg_title = ''Rule 1'', reg_summary = Some ''Summary 1'', reg_jurisdiction = Some ''US'', reg_category = Some ''financial'', reg_priority = Some ''high'', source_url = ''https://www.sec.gov/rules/1'', effective_date = Some ''2024-01-01''\<rparr>] \<lparr>doc_id = ''doc-1'', doc_content = ''text of chunk 1'', doc_similarity = 9 / 10, doc_metadata = Some \<lparr>meta_regulation_id = Some ''reg-1'', meta_title = Some ''Chunk 1'', meta_url = None\<rparr>\<rparr>] = []"
  by code_simp

text \<open>
  Claim C8, as amended. Whenever the semantic search returns, \<open>hybridSearch\<close> returns a list
  that is sorted by similarity, descending, and has at most \<open>limit\<close> elements (for
  \<open>limit \<ge> 0\<close>), with at most one element per record id. A record with a non-empty id that a
  semantic result carries: every output element with that id is a semantic result, and there
  is exactly one when the semantic scores are above 0.5 (the vector search is asked for
  matches above 0.6). A record that no semantic result carries: an output element with that
  id is the entry built from a row of the title search, with similarity 0.5; there is exactly
  one when the title search returned the record and both lists together fit in \<open>limit\<close>. In
  general the output is the semantic entries by descending score, then the entries of the
  title search alone in the order returned, cut to \<open>limit\<close>.
\<close>

theorem hybridSearch_merge:
  assumes sem: "search matched regsData filters limit = Inr sem"
  shows "\<exists>out. hybridSearch matched regsData keywordResults filters limit = Inr out
     \<and> sorted (map (\<lambda>r. - similarity r) out)
     \<and> (0 \<le> limit \<longrightarrow> length out \<le> nat limit)
     \<and> length (filter (\<lambda>r. regulationId r = Some rid) out) \<le> 1
     \<and> (rid \<noteq> [] \<and> (\<exists>s \<in> set sem. regulationId s = Some rid) \<longrightarrow>
          (\<forall>r \<in> set out. regulationId r = Some rid \<longrightarrow> r \<in> set sem)
          \<and> (0 \<le> limit \<and> (\<forall>s \<in> set sem. 1 / 2 < similarity s) \<longrightarrow>
                length (filter (\<lambda>r. regulationId r = Some rid) out) = 1))
     \<and> (\<not> (rid \<noteq> [] \<and> (\<exists>s \<in> set sem. regulationId s = Some rid)) \<longrightarrow>
          (\<forall>r \<in> set out. regulationId r = Some rid \<longrightarrow>
              similarity r = 1 / 2 \<and>
              (\<exists>reg \<in> set (case keywordResults of None \<Rightarrow> [] | Some rs \<Rightarrow> rs). r = keyword_result reg))
          \<and> (rid \<in> reg_id ` set (case keywordResults of None \<Rightarrow> [] | Some rs \<Rightarrow> rs) \<and>
               int (length sem + length (case keywordResults of None \<Rightarrow> [] | Some rs \<Rightarrow> rs)) \<le> limit \<longrightarrow>
                length (filter (\<lambda>r. regulationId r = Some rid) out) = 1))
     \<and> (0 \<le> limit \<and> (\<forall>s \<in> set sem. 1 / 2 < similarity s) \<longrightarrow>
          out = take (nat limit)
                  (sort_key (\<lambda>r. - similarity r) (map snd (add_semantic sem []))
                   @ map snd (drop (length (add_semantic sem []))
                                (add_keyword (case keywordResults of None \<Rightarrow> [] | Some rs \<Rightarrow> rs)
                                   (add_semantic sem [])))))"
proof -
  define kw where "kw = (case keywordResults of None \<Rightarrow> [] | Some rs \<Rightarrow> rs)"
  define m2 where "m2 = add_keyword kw (add_semantic sem [])"
  define f where "f = (\<lambda>r :: SearchResult. - similarity r)"
  define ws where "ws = sort_key f (map snd m2)"
  define n where "n = slice_index (length ws) limit"
  define out where "out = take n ws"
  define P where "P = (\<lambda>r :: SearchResult. regulationId r = Some rid)"
  define both where "both \<longleftrightarrow> rid \<noteq> [] \<and> (\<exists>s \<in> set sem. regulationId s = Some rid)"
  have f1: "distinct (map fst m2)" unfolding m2_def by (rule merged_facts(1))
  have f2: "keyed m2" unfolding m2_def by (rule merged_facts(2))
  have f4: "length m2 \<le> length sem + length kw" unfolding m2_def by (rule merged_facts(4))
  have f5: "map_has m2 k \<longleftrightarrow> (k \<noteq> [] \<and> (\<exists>s \<in> set sem. regulationId s = Some k)) \<or> k \<in> reg_id ` set kw" for k
    unfolding m2_def by (rule merged_facts(5))
  have f6: "v \<in> set sem"
    if "(k, v) \<in> set m2" "k \<noteq> [] \<and> (\<exists>s \<in> set sem. regulationId s = Some k)" for k v
    using that unfolding m2_def by (rule merged_facts(6))
  have f7: "similarity v = 1 / 2 \<and> (\<exists>reg \<in> set kw. v = keyword_result reg)"
    if "(k, v) \<in> set m2" "\<not> (k \<noteq> [] \<and> (\<exists>s \<in> set sem. regulationId s = Some k))" for k v
    using that unfolding m2_def by (rule merged_facts(7))
  have f8: "length (filter (\<lambda>r. 1 / 2 < similarity r) (map snd m2)) \<le> length sem"
    unfolding m2_def by (rule merged_facts(8))
  have run: "hybridSearch matched regsData keywordResults filters limit = Inr out"
    unfolding hybridSearch_unfold [OF sem] out_def n_def ws_def f_def m2_def kw_def
    by (simp add: slice_from_0)
  have sorted_ws: "sorted (map f ws)" by (simp add: ws_def)
  have sorted_out: "sorted (map f out)"
  proof -
    have "map f out = take n (map f ws)" by (simp add: out_def take_map)
    with sorted_ws show ?thesis by (simp only: sorted_wrt_take)
  qed
  have len: "0 \<le> limit \<longrightarrow> length out \<le> nat limit"
    using slice_index_nonneg [of limit "length ws"] by (auto simp: out_def n_def)
  have count_ws: "length (filter P ws) = (if map_has m2 rid then 1 else 0)"
    unfolding ws_def length_filter_sort_key P_def
    by (rule count_by_key [OF f1 f2])
  have count_le: "length (filter P out) \<le> length (filter P ws)"
    unfolding out_def by (rule length_filter_take)
  have at_most: "length (filter P out) \<le> 1"
    using count_le count_ws by (simp split: if_splits)
  have entry: "\<exists>k. (k, r) \<in> set m2 \<and> k = rid" if "r \<in> set out" "P r" for r
  proof -
    from that(1) have "r \<in> set ws" unfolding out_def by (rule in_set_takeD)
    then have "r \<in> snd ` set m2" by (simp add: ws_def)
    then obtain k where k: "(k, r) \<in> set m2" by auto
    with f2 have "regulationId r = Some k" by (auto simp: keyed_def)
    with that(2) k show ?thesis by (simp add: P_def)
  qed
  have sem_part: "\<forall>r \<in> set out. P r \<longrightarrow> r \<in> set sem" if both
    using entry f6 [of rid] that unfolding both_def by blast
  have kw_part: "\<forall>r \<in> set out. P r \<longrightarrow> similarity r = 1 / 2 \<and> (\<exists>reg \<in> set kw. r = keyword_result reg)"
    if "\<not> both"
    using entry f7 [of rid] that unfolding both_def by blast
  have sem_once: "length (filter P out) = 1"
    if both "0 \<le> limit" "\<forall>s \<in> set sem. 1 / 2 < similarity s"
  proof -
    from that(1) have "map_has m2 rid" unfolding both_def by (simp add: f5)
    then obtain v where v: "(rid, v) \<in> set m2" by (auto simp: map_has_def)
    with f6 [of rid v] that(1) have "v \<in> set sem" unfolding both_def by blast
    with that(3) have fv: "f v < - (1 / 2)" by (simp add: f_def)
    from v f2 have Pv: "P v" by (auto simp: keyed_def P_def)
    from v have v_ws: "v \<in> set ws" by (force simp: ws_def)
    have "filter (\<lambda>r. f r < - (1 / 2)) ws = filter (\<lambda>r. 1 / 2 < similarity r) ws"
      by (rule filter_cong) (auto simp: f_def)
    then have "length (filter (\<lambda>r. f r < - (1 / 2)) ws) = length (filter (\<lambda>r. 1 / 2 < similarity r) (map snd m2))"
      by (simp add: ws_def length_filter_sort_key del: filter_map)
    also have "\<dots> \<le> length sem" by (rule f8)
    also have "\<dots> \<le> nat limit" by (rule length_search [OF sem that(2)])
    finally have small: "length (filter (\<lambda>r. f r < - (1 / 2)) ws) \<le> nat limit" .
    have "v \<in> set (take (nat limit) ws)"
      by (rule sorted_prefix_holds_small [OF sorted_ws small v_ws fv])
    moreover have "take (nat limit) ws = out"
      using that(2) by (simp add: out_def n_def slice_index_def min_def)
    ultimately have "v \<in> set (filter P out)" using Pv by simp
    then have "filter P out \<noteq> []" by (auto simp: filter_empty_conv)
    with at_most show ?thesis by (cases "filter P out") simp_all
  qed
  have kw_once: "length (filter P out) = 1"
    if "rid \<in> reg_id ` set kw" "int (length sem + length kw) \<le> limit"
  proof -
    have "length ws \<le> length sem + length kw" using f4 by (simp add: ws_def)
    with that(2) have "out = ws" by (simp add: out_def n_def slice_index_def)
    moreover from that(1) have "map_has m2 rid" by (simp add: f5)
    ultimately show ?thesis using count_ws by simp
  qed
  have order: "out = take (nat limit) (sort_key f (map snd (add_semantic sem []))
                   @ map snd (drop (length (add_semantic sem [])) m2))"
    if "0 \<le> limit" "\<forall>s \<in> set sem. 1 / 2 < similarity s"
  proof -
    define m1 where "m1 = add_semantic sem []"
    from add_keyword_append [of kw m1]
    obtain extra where extra: "m2 = m1 @ extra"
      "\<forall>(k, v) \<in> set extra. \<not> map_has m1 k \<and> (\<exists>reg \<in> set kw. k = reg_id reg \<and> v = keyword_result reg)"
      unfolding m1_def m2_def by blast
    have tail: "\<forall>y \<in> set (map snd extra). f y = - (1 / 2)"
      using extra(2) by (auto simp: f_def keyword_result_fields)
    have head: "\<forall>x \<in> set (map snd m1). f x < - (1 / 2)"
    proof
      fix x assume "x \<in> set (map snd m1)"
      then obtain k where "(k, x) \<in> set m1" by auto
      with add_semantic_entries [of k x sem "[]"] have "x \<in> set sem" by (simp add: m1_def)
      with that(2) show "f x < - (1 / 2)" by (simp add: f_def)
    qed
    have "ws = sort_key f (map snd m1) @ map snd extra"
      unfolding ws_def extra(1) map_append by (rule sort_key_constant_tail [OF tail head])
    moreover have "drop (length m1) m2 = extra" by (simp add: extra(1))
    moreover have "out = take (nat limit) ws"
      using that(1) by (simp add: out_def n_def slice_index_def min_def)
    ultimately show ?thesis by (simp add: m1_def)
  qed
  from run sorted_out len at_most sem_part sem_once kw_part kw_once order
  show ?thesis
    unfolding P_def both_def f_def kw_def m2_def by blast
qed

text \<open>
  Claim C8, as amended, at an instance: semantic results for \<open>reg-1\<close> (0.9) and \<open>reg-2\<close> (0.7),
  title search returning \<open>reg-2\<close> and \<open>reg-3\<close>, \<open>limit = 5\<close>. \<open>reg-2\<close> is in the output once, as
  the semantic result; \<open>reg-3\<close> once, with similarity 0.5.
\<close>

theorem hybridSearch_merge_witness:
  "search (Inr [\<lparr>doc_id = ''doc-1'', doc_content = ''text of chunk 1'', doc_similarity = 9 / 10, doc_metadata = Some \<lparr>meta_regulation_id = Some ''reg-1'', meta_title = Some ''Chunk 1'', meta_url = None\<rparr>\<rparr>, \<lparr>doc_id = ''doc-2'', doc_content = ''text of chunk 2'', doc_similarity = 7 / 10, doc_metadata = Some \<lparr>meta_regulation_id = Some ''reg-2'', meta_title = Some ''Chunk 2'', meta_url = None\<rparr>\<rparr>]) (Some [\<lparr>reg_id = ''reg-1'', reg_title = ''Rule 1'', reg_summary = Some ''Summary 1'', reg_jurisdiction = Some ''US'', reg_category = Some ''financial'', reg_priority = Some ''high'', source_url = ''https://www.sec.gov/rules/1'', effective_date = Some ''2024-01-01''\<rparr>, \<lparr>reg_id = ''reg-2'', reg_title = ''Rule 2'', reg_summary = Some ''Summary 2'', reg_jurisdiction = Some ''US'', reg_category = Some ''financial'', reg_priority = Some ''high'', source_url = ''https://www.sec.gov/rules/2'', effective_date = Some ''2024-01-01''\<rparr>]) \<lparr>SearchFilter.jurisdiction = None, SearchFilter.category = None, SearchFilter.priority = None, dateRange = None\<rparr> 5 = Inr [to_result [\<lparr>reg_id = ''reg-1'', reg_title = ''Rule 1'', reg_summary = Some ''Summary 1'', reg_jurisdiction = Some ''US'', reg_category = Some ''financial'', reg_priority = Some ''high'', source_url = ''https://www.sec.gov/rules/1'', effective_date = Some ''2024-01-01''\<rparr>, \<lparr>reg_id = ''reg-2'', reg_title = ''Rule 2'', reg_summary = Some ''Summary 2'', reg_jurisdiction = Some ''US'', reg_category = Some ''financial'', reg_priority = Some ''high'', source_url = ''https://www.sec.gov/rules/2'', effective_date = Some ''2024-01-01''\<rparr>] \<lparr>doc_id = ''doc-1'', doc_content = ''text of chunk 1'', doc_similarity = 9 / 10, doc_metadata = Some \<lparr>meta_regulation_id = Some ''reg-1'', meta_title = Some ''Chunk 1'', meta_url = None\<rparr>\<rparr>, to_result [\<lparr>reg_id = ''reg-1'', reg_title = ''Rule 1'', reg_summary = Some ''Summary 1'', reg_jurisdiction = Some ''US'', reg_category = Some ''financial'', reg_priority = Some ''high'', source_url = ''https://www.sec.gov/rules/1'', effective_date = Some ''2024-01-01''\<rparr>, \<lparr>reg_id = ''reg-2'', reg_title = ''Rule 2'', reg_summary = Some ''Summary 2'', reg_jurisdiction = Some ''US'', reg_category = Some ''financial'', reg_priority = Some ''high'', source_url = ''https://www.sec.gov/rules/2'', effective_date = Some ''2024-01-01''\<rparr>] \<lparr>doc_id = ''doc-2'', doc_content = ''text of chunk 2'', doc_similarity = 7 / 10, doc_metadata = Some \<lparr>meta_regulation_id = Some ''reg-2'', meta_title = Some ''Chunk 2'', meta_url = None\<rparr>\<rparr>]
   \<and> hybridSearch (Inr [\<lparr>doc_id = ''doc-1'', doc_content = ''text of chunk 1'', doc_similarity = 9 / 10, doc_metadata = Some \<lparr>meta_regulation_id = Some ''reg-1'', meta_title = Some ''Chunk 1'', meta_url = None\<rparr>\<rparr>, \<lparr>doc_id = ''doc-2'', doc_content = ''text of chunk 2'', doc_similarity = 7 / 10, doc_metadata = Some \<lparr>meta_regulation_id = Some ''reg-2'', meta_title = Some ''Chunk 2'', meta_url = None\<rparr>\<rparr>]) (Some [\<lparr>reg_id = ''reg-1'', reg_title = ''Rule 1'', reg_summary = Some ''Summary 1'', reg_jurisdiction = Some ''US'', reg_category = Some ''financial'', reg_priority = Some ''high'', source_url = ''https://www.sec.gov/rules/1'', effective_date = Some ''2024-01-01''\<rparr>, \<lparr>reg_id = ''reg-2'', reg_title = ''Rule 2'', reg_summary = Some ''Summary 2'', reg_jurisdiction = Some ''US'', reg_category = Some ''financial'', reg_priority = Some ''high'', source_url = ''https://www.sec.gov/rules/2'', effective_date = Some ''2024-01-01''\<rparr>]) (Some [\<lparr>reg_id = ''reg-2'', reg_title = ''Rule 2'', reg_summary = Some ''Summary 2'', reg_jurisdiction = Some ''US'', reg_category = Some ''financial'', reg_priority = Some ''high'', source_url = ''https://www.sec.gov/rules/2'', effective_date = Some ''2024-01-01''\<rparr>, \<lparr>reg_id = ''reg-3'', reg_title = ''Rule 3'', reg_summary = Some ''Summary 3'', reg_jurisdiction = Some ''US'', reg_category = Some ''financial'', reg_priority = Some ''high'', source_url = ''https://www.sec.gov/rules/3'', effective_date = Some ''2024-01-01''\<rparr>]) \<lparr>SearchFilter.jurisdiction = None, SearchFilter.category = None, SearchFilter.priority = None, dateRange = None\<rparr> 5 = Inr [to_result [\<lparr>reg_id = ''reg-1'', reg_title = ''Rule 1'', reg_summary = Some ''Summary 1'', reg_jurisdiction = Some ''US'', reg_category = Some ''financial'', reg_priority = Some ''high'', source_url = ''https://www.sec.gov/rules/1'', effective_date = Some ''2024-01-01''\<rparr>, \<lparr>reg_id = ''reg-2'', reg_title = ''Rule 2'', reg_summary = Some ''Summary 2'', reg_jurisdiction = Some ''US'', reg_category = Some ''financial'', reg_priority = Some ''high'', source_url = ''https://www.sec.gov/rules/2'', effective_date = Some ''2024-01-01''\<rparr>] \<lparr>doc_id = ''doc-1'', doc_content = ''text of chunk 1'', doc_similarity = 9 / 10, doc_metadata = Some \<lparr>meta_regulation_id = Some ''reg-1'', meta_title = Some ''Chunk 1'', meta_url = None\<rparr>\<rparr>, to_result [\<lparr>reg_id = ''reg-1'', reg_title = ''Rule 1'', reg_summary = Some ''Summary 1'', reg_jurisdiction = Some ''US'', reg_category = Some ''financial'', reg_priority = Some ''high'', source_url = ''https://www.sec.gov/rules/1'', effective_date = Some ''2024-01-01''\<rparr>, \<lparr>reg_id = ''reg-2'', reg_title = ''Rule 2'', reg_summary = Some ''Summary 2'', reg_jurisdiction = Some ''US'', reg_category = Some ''financial'', reg_priority = Some ''high'', source_url = ''https://www.sec.gov/rules/2'', effective_date = Some ''2024-01-01''\<rparr>] \<lparr>doc_id = ''doc-2'', doc_content = ''text of chunk 2'', doc_similarity = 7 / 10, doc_metadata = Some \<lparr>meta_regulation_id = Some ''reg-2'', meta_title = Some ''Chunk 2'', meta_url = None\<rparr>\<rparr>, keyword_result \<lparr>reg_id = ''reg-3'', reg_title = ''Rule 3'', reg_summary = Some ''Summary 3'', reg_jurisdiction = Some ''US'', reg_category = Some ''financial'', reg_priority = Some ''high'', source_url = ''https://www.sec.gov/rules/3'', effective_date = Some ''2024-01-01''\<rparr>]
   \<and> (\<exists>out. hybridSearch (Inr [\<lparr>doc_id = ''doc-1'', doc_content = ''text of chunk 1'', doc_similarity = 9 / 10, doc_metadata = Some \<lparr>meta_regulation_id = Some ''reg-1'', meta_title = Some ''Chunk 1'', meta_url = None\<rparr>\<rparr>, \<lparr>doc_id = ''doc-2'', doc_content = ''text of chunk 2'', doc_similarity = 7 / 10, doc_metadata = Some \<lparr>meta_regulation_id = Some ''reg-2'', meta_title = Some ''Chunk 2'', meta_url = None\<rparr>\<rparr>]) (Some [\<lparr>reg_id = ''reg-1'', reg_title = ''Rule 1'', reg_summary = Some ''Summary 1'', reg_jurisdiction = Some ''US'', reg_category = Some ''financial'', reg_priority = Some ''high'', source_url = ''https://www.sec.gov/rules/1'', effective_date = Some ''2024-01-01''\<rparr>, \<lparr>reg_id = ''reg-2'', reg_title = ''Rule 2'', reg_summary = Some ''Summary 2'', reg_jurisdiction = Some ''US'', reg_category = Some ''financial'', reg_priority = Some ''high'', source_url = ''https://www.sec.gov/rules/2'', effective_date = Some ''2024-01-01''\<rparr>]) (Some [\<lparr>reg_id = ''reg-2'', reg_title = ''Rule 2'', reg_summary = Some ''Summary 2'', reg_jurisdiction = Some ''US'', reg_category = Some ''financial'', reg_priority = Some ''high'', source_url = ''https://www.sec.gov/rules/2'', effective_date = Some ''2024-01-01''\<rparr>, \<lparr>reg_id = ''reg-3'', reg_title = ''Rule 3'', reg_summary = Some ''Summary 3'', reg_jurisdiction = Some ''US'', reg_category = Some ''financial'', reg_priority = Some ''high'', source_url = ''https://www.sec.gov/rules/3'', effective_date = Some ''2024-01-01''\<rparr>]) \<lparr>SearchFilter.jurisdiction = None, SearchFilter.category = None, SearchFilter.priority = None, dateRange = None\<rparr> 5 = Inr out
        \<and> sorted (map (\<lambda>r. - similarity r) out)
        \<and> length out \<le> 5
        \<and> length (filter (\<lambda>r. regulationId r = Some ''reg-2'') out) = 1
        \<and> (\<forall>r \<in> set out. regulationId r = Some ''reg-2'' \<longrightarrow> r \<in> set [to_result [\<lparr>reg_id = ''reg-1'', reg_title = ''Rule 1'', reg_summary = Some ''Summary 1'', reg_jurisdiction = Some ''US'', reg_category = Some ''financial'', reg_priority = Some ''high'', source_url = ''https://www.sec.gov/rules/1'', effective_date = Some ''2024-01-01''\<rparr>, \<lparr>reg_id = ''reg-2'', reg_title = ''Rule 2'', reg_summary = Some ''Summary 2'', reg_jurisdiction = Some ''US'', reg_category = Some ''financial'', reg_priority = Some ''high'', source_url = ''https://www.sec.gov/rules/2'', effective_date = Some ''2024-01-01''\<rparr>] \<lparr>doc_id = ''doc-1'', doc_content = ''text of chunk 1'', doc_similarity = 9 / 10, doc_metadata = Some \<lparr>meta_regulation_id = Some ''reg-1'', meta_title = Some ''Chunk 1'', meta_url = None\<rparr>\<rparr>, to_result [\<lparr>reg_id = ''reg-1'', reg_title = ''Rule 1'', reg_summary = Some ''Summary 1'', reg_jurisdiction = Some ''US'', reg_category = Some ''financial'', reg_priority = Some ''high'', source_url = ''https://www.sec.gov/rules/1'', effective_date = Some ''2024-01-01''\<rparr>, \<lparr>reg_id = ''reg-2'', reg_title = ''Rule 2'', reg_summary = Some ''Summary 2'', reg_jurisdiction = Some ''US'', reg_category = Some ''financial'', reg_priority = Some ''high'', source_url = ''https://www.sec.gov/rules/2'', effective_date = Some ''2024-01-01''\<rparr>] \<lparr>doc_id = ''doc-2'', doc_content = ''text of chunk 2'', doc_similarity = 7 / 10, doc_metadata = Some \<lparr>meta_regulation_id = Some ''reg-2'', meta_title = Some ''Chunk 2'', meta_url = None\<rparr>\<rparr>]))
   \<and> (\<exists>out. hybridSearch (Inr [\<lparr>doc_id = ''doc-1'', doc_content = ''text of chunk 1'', doc_similarity = 9 / 10, doc_metadata = Some \<lparr>meta_regulation_id = Some ''reg-1'', meta_title = Some ''Chunk 1'', meta_url = None\<rparr>\<rparr>, \<lparr>doc_id = ''doc-2'', doc_content = ''text of chunk 2'', doc_similarity = 7 / 10, doc_metadata = Some \<lparr>meta_regulation_id = Some ''reg-2'', meta_title = Some ''Chunk 2'', meta_url = None\<rparr>\<rparr>]) (Some [\<lparr>reg_id = ''reg-1'', reg_title = ''Rule 1'', reg_summary = Some ''Summary 1'', reg_jurisdiction = Some ''US'', reg_category = Some ''financial'', reg_priority = Some ''high'', source_url = ''https://www.sec.gov/rules/1'', effective_date = Some ''2024-01-01''\<rparr>, \<lparr>reg_id = ''reg-2'', reg_title = ''Rule 2'', reg_summary = Some ''Summary 2'', reg_jurisdiction = Some ''US'', reg_category = Some ''financial'', reg_priority = Some ''high'', source_url = ''https://www.sec.gov/rules/2'', effective_date = Some ''2024-01-01''\<rparr>]) (Some [\<lparr>reg_id = ''reg-2'', reg_title = ''Rule 2'', reg_summary = Some ''Summary 2'', reg_jurisdiction = Some ''US'', reg_category = Some ''financial'', reg_priority = Some ''high'', source_url = ''https://www.sec.gov/rules/2'', effective_date = Some ''2024-01-01''\<rparr>, \<lparr>reg_id = ''reg-3'', reg_title = ''Rule 3'', reg_summary = Some ''Summary 3'', reg_jurisdiction = Some ''US'', reg_category = Some ''financial'', reg_priority = Some ''high'', source_url = ''https://www.sec.gov/rules/3'', effective_date = Some ''2024-01-01''\<rparr>]) \<lparr>SearchFilter.jurisdiction = None, SearchFilter.category = None, SearchFilter.priority = None, dateRange = None\<rparr> 5 = Inr out
        \<and> length (filter (\<lambda>r. regulationId r = Some ''reg-3'') out) = 1
        \<and> (\<forall>r \<in> set out. regulationId r = Some ''reg-3'' \<longrightarrow>
              similarity r = 1 / 2 \<and> (\<exists>reg \<in> set (case Some [\<lparr>reg_id = ''reg-2'', reg_title = ''Rule 2'', reg_summary = Some ''Summary 2'', reg_jurisdiction = Some ''US'', reg_category = Some ''financial'', reg_priority = Some ''high'', source_url = ''https://www.sec.gov/rules/2'', effective_date = Some ''2024-01-01''\<rparr>, \<lparr>reg_id = ''reg-3'', reg_title = ''Rule 3'', reg_summary = Some ''Summary 3'', reg_jurisdiction = Some ''US'', reg_category = Some ''financial'', reg_priority = Some ''high'', source_url = ''https://www.sec.gov/rules/3'', effective_date = Some ''2024-01-01''\<rparr>] of None \<Rightarrow> [] | Some rs \<Rightarrow> rs). r = keyword_result reg)))"
proof -
  have s: "search (Inr [\<lparr>doc_id = ''doc-1'', doc_content = ''text of chunk 1'', doc_similarity = 9 / 10, doc_metadata = Some \<lparr>meta_regulation_id = Some ''reg-1'', meta_title = Some ''Chunk 1'', meta_url = None\<rparr>\<rparr>, \<lparr>doc_id = ''doc-2'', doc_content = ''text of chunk 2'', doc_similarity = 7 / 10, doc_metadata = Some \<lparr>meta_regulation_id = Some ''reg-2'', meta_title = Some ''Chunk 2'', meta_url = None\<rparr>\<rparr>]) (Some [\<lparr>reg_id = ''reg-1'', reg_title = ''Rule 1'', reg_summary = Some ''Summary 1'', reg_jurisdiction = Some ''US'', reg_category = Some ''financial'', reg_priority = Some ''high'', source_url = ''https://www.sec.gov/rules/1'', effective_date = Some ''2024-01-01''\<rparr>, \<lparr>reg_id = ''reg-2'', reg_title = ''Rule 2'', reg_summary = Some ''Summary 2'', reg_jurisdiction = Some ''US'', reg_category = Some ''financial'', reg_priority = Some ''high'', source_url = ''https://www.sec.gov/rules/2'', effective_date = Some ''2024-01-01''\<rparr>]) \<lparr>SearchFilter.jurisdiction = None, SearchFilter.category = None, SearchFilter.priority = None, dateRange = None\<rparr> 5 = Inr [to_result [\<lparr>reg_id = ''reg-1'', reg_title = ''Rule 1'', reg_summary = Some ''Summary 1'', reg_jurisdiction = Some ''US'', reg_category = Some ''financial'', reg_priority = Some ''high'', source_url = ''https://www.sec.gov/rules/1'', effective_date = Some ''2024-01-01''\<rparr>, \<lparr>reg_id = ''reg-2'', reg_title = ''Rule 2'', reg_summary = Some ''Summary 2'', reg_jurisdiction = Some ''US'', reg_category = Some ''financial'', reg_priority = Some ''high'', source_url = ''https://www.sec.gov/rules/2'', effective_date = Some ''2024-01-01''\<rparr>] \<lparr>doc_id = ''doc-1'', doc_content = ''text of chunk 1'', doc_similarity = 9 / 10, doc_metadata = Some \<lparr>meta_regulation_id = Some ''reg-1'', meta_title = Some ''Chunk 1'', meta_url = None\<rparr>\<rparr>, to_result [\<lparr>reg_id = ''reg-1'', reg_title = ''Rule 1'', reg_summary = Some ''Summary 1'', reg_jurisdiction = Some ''US'', reg_category = Some ''financial'', reg_priority = Some ''high'', source_url = ''https://www.sec.gov/rules/1'', effective_date = Some ''2024-01-01''\<rparr>, \<lparr>reg_id = ''reg-2'', reg_title = ''Rule 2'', reg_summary = Some ''Summary 2'', reg_jurisdiction = Some ''US'', reg_category = Some ''financial'', reg_priority = Some ''high'', source_url = ''https://www.sec.gov/rules/2'', effective_date = Some ''2024-01-01''\<rparr>] \<lparr>doc_id = ''doc-2'', doc_content = ''text of chunk 2'', doc_similarity = 7 / 10, doc_metadata = Some \<lparr>meta_regulation_id = Some ''reg-2'', meta_title = Some ''Chunk 2'', meta_url = None\<rparr>\<rparr>]"
    by code_simp
  have run: "hybridSearch (Inr [\<lparr>doc_id = ''doc-1'', doc_content = ''text of chunk 1'', doc_similarity = 9 / 10, doc_metadata = Some \<lparr>meta_regulation_id = Some ''reg-1'', meta_title = Some ''Chunk 1'', meta_url = None\<rparr>\<rparr>, \<lparr>doc_id = ''doc-2'', doc_content = ''text of chunk 2'', doc_similarity = 7 / 10, doc_metadata = Some \<lparr>meta_regulation_id = Some ''reg-2'', meta_title = Some ''Chunk 2'', meta_url = None\<rparr>\<rparr>]) (Some [\<lparr>reg_id = ''reg-1'', reg_title = ''Rule 1'', reg_summary = Some ''Summary 1'', reg_jurisdiction = Some ''US'', reg_category = Some ''financial'', reg_priority = Some ''high'', source_url = ''https://www.sec.gov/rules/1'', effective_date = Some ''2024-01-01''\<rparr>, \<lparr>reg_id = ''reg-2'', reg_title = ''Rule 2'', reg_summary = Some ''Summary 2'', reg_jurisdiction = Some ''US'', reg_category = Some ''financial'', reg_priority = Some ''high'', source_url = ''https://www.sec.gov/rules/2'', effective_date = Some ''2024-01-01''\<rparr>]) (Some [\<lparr>reg_id = ''reg-2'', reg_title = ''Rule 2'', reg_summary = Some ''Summary 2'', reg_jurisdiction = Some ''US'', reg_category = Some ''financial'', reg_priority = Some ''high'', source_url = ''https://www.sec.gov/rules/2'', effective_date = Some ''2024-01-01''\<rparr>, \<lparr>reg_id = ''reg-3'', reg_title = ''Rule 3'', reg_summary = Some ''Summary 3'', reg_jurisdiction = Some ''US'', reg_category = Some ''financial'', reg_priority = Some ''high'', source_url = ''https://www.sec.gov/rules/3'', effective_date = Some ''2024-01-01''\<rparr>]) \<lparr>SearchFilter.jurisdiction = None, SearchFilter.category = None, SearchFilter.priority = None, dateRange = None\<rparr> 5 = Inr [to_result [\<lparr>reg_id = ''reg-1'', reg_title = ''Rule 1'', reg_summary = Some ''Summary 1'', reg_jurisdiction = Some ''US'', reg_category = Some ''financial'', reg_priority = Some ''high'', source_url = ''https://www.sec.gov/rules/1'', effective_date = Some ''2024-01-01''\<rparr>, \<lparr>reg_id = ''reg-2'', reg_title = ''Rule 2'', reg_summary = Some ''Summary 2'', reg_jurisdiction = Some ''US'', reg_category = Some ''financial'', reg_priority = Some ''high'', source_url = ''https://www.sec.gov/rules/2'', effective_date = Some ''2024-01-01''\<rparr>] \<lparr>doc_id = ''doc-1'', doc_content = ''text of chunk 1'', doc_similarity = 9 / 10, doc_metadata = Some \<lparr>meta_regulation_id = Some ''reg-1'', meta_title = Some ''Chunk 1'', meta_url = None\<rparr>\<rparr>, to_result [\<lparr>reg_id = ''reg-1'', reg_title = ''Rule 1'', reg_summary = Some ''Summary 1'', reg_jurisdiction = Some ''US'', reg_category = Some ''financial'', reg_priority = Some ''high'', source_url = ''https://www.sec.gov/rules/1'', effective_date = Some ''2024-01-01''\<rparr>, \<lparr>reg_id = ''reg-2'', reg_title = ''Rule 2'', reg_summary = Some ''Summary 2'', reg_jurisdiction = Some ''US'', reg_category = Some ''financial'', reg_priority = Some ''high'', source_url = ''https://www.sec.gov/rules/2'', effective_date = Some ''2024-01-01''\<rparr>] \<lparr>doc_id = ''doc-2'', doc_content = ''text of chunk 2'', doc_similarity = 7 / 10, doc_metadata = Some \<lparr>meta_regulation_id = Some ''reg-2'', meta_title = Some ''Chunk 2'', meta_url = None\<rparr>\<rparr>, keyword_result \<lparr>reg_id = ''reg-3'', reg_title = ''Rule 3'', reg_summary = Some ''Summary 3'', reg_jurisdiction = Some ''US'', reg_category = Some ''financial'', reg_priority = Some ''high'', source_url = ''https://www.sec.gov/rules/3'', effective_date = Some ''2024-01-01''\<rparr>]"
    by code_simp
  have both2: "''reg-2'' \<noteq> [] \<and> (\<exists>s \<in> set [to_result [\<lparr>reg_id = ''reg-1'', reg_title = ''Rule 1'', reg_summary = Some ''Summary 1'', reg_jurisdiction = Some ''US'', reg_category = Some ''financial'', reg_priority = Some ''high'', source_url = ''https://www.sec.gov/rules/1'', effective_date = Some ''2024-01-01''\<rparr>, \<lparr>reg_id = ''reg-2'', reg_title = ''Rule 2'', reg_summary = Some ''Summary 2'', reg_jurisdiction = Some ''US'', reg_category = Some ''financial'', reg_priority = Some ''high'', source_url = ''https://www.sec.gov/rules/2'', effective_date = Some ''2024-01-01''\<rparr>] \<lparr>doc_id = ''doc-1'', doc_content = ''text of chunk 1'', doc_similarity = 9 / 10, doc_metadata = Some \<lparr>meta_regulation_id = Some ''reg-1'', meta_title = Some ''Chunk 1'', meta_url = None\<rparr>\<rparr>, to_result [\<lparr>reg_id = ''reg-1'', reg_title = ''Rule 1'', reg_summary = Some ''Summary 1'', reg_jurisdiction = Some ''US'', reg_category = Some ''financial'', reg_priority = Some ''high'', source_url = ''https://www.sec.gov/rules/1'', effective_date = Some ''2024-01-01''\<rparr>, \<lparr>reg_id = ''reg-2'', reg_title = ''Rule 2'', reg_summary = Some ''Summary 2'', reg_jurisdiction = Some ''US'', reg_category = Some ''financial'', reg_priority = Some ''high'', source_url = ''https://www.sec.gov/rules/2'', effective_date = Some ''2024-01-01''\<rparr>] \<lparr>doc_id = ''doc-2'', doc_content = ''text of chunk 2'', doc_similarity = 7 / 10, doc_metadata = Some \<lparr>meta_regulation_id = Some ''reg-2'', meta_title = Some ''Chunk 2'', meta_url = None\<rparr>\<rparr>]. regulationId s = Some ''reg-2'')"
    by code_simp
  have scores: "(0 :: int) \<le> 5 \<and> (\<forall>s \<in> set [to_result [\<lparr>reg_id = ''reg-1'', reg_title = ''Rule 1'', reg_summary = Some ''Summary 1'', reg_jurisdiction = Some ''US'', reg_category = Some ''financial'', reg_priority = Some ''high'', source_url = ''https://www.sec.gov/rules/1'', effective_date = Some ''2024-01-01''\<rparr>, \<lparr>reg_id = ''reg-2'', reg_title = ''Rule 2'', reg_summary = Some ''Summary 2'', reg_jurisdiction = Some ''US'', reg_category = Some ''financial'', reg_priority = Some ''high'', source_url = ''https://www.sec.gov/rules/2'', effective_date = Some ''2024-01-01''\<rparr>] \<lparr>doc_id = ''doc-1'', doc_content = ''text of chunk 1'', doc_similarity = 9 / 10, doc_metadata = Some \<lparr>meta_regulation_id = Some ''reg-1'', meta_title = Some ''Chunk 1'', meta_url = None\<rparr>\<rparr>, to_result [\<lparr>reg_id = ''reg-1'', reg_title = ''Rule 1'', reg_summary = Some ''Summary 1'', reg_jurisdiction = Some ''US'', reg_category = Some ''financial'', reg_priority = Some ''high'', source_url = ''https://www.sec.gov/rules/1'', effective_date = Some ''2024-01-01''\<rparr>, \<lparr>reg_id = ''reg-2'', reg_title = ''Rule 2'', reg_summary = Some ''Summary 2'', reg_jurisdiction = Some ''US'', reg_category = Some ''financial'', reg_priority = Some ''high'', source_url = ''https://www.sec.gov/rules/2'', effective_date = Some ''2024-01-01''\<rparr>] \<lparr>doc_id = ''doc-2'', doc_content = ''text of chunk 2'', doc_similarity = 7 / 10, doc_metadata = Some \<lparr>meta_regulation_id = Some ''reg-2'', meta_title = Some ''Chunk 2'', meta_url = None\<rparr>\<rparr>]. 1 / 2 < similarity s)"
    by code_simp
  have only3: "\<not> (''reg-3'' \<noteq> [] \<and> (\<exists>s \<in> set [to_result [\<lparr>reg_id = ''reg-1'', reg_title = ''Rule 1'', reg_summary = Some ''Summary 1'', reg_jurisdiction = Some ''US'', reg_category = Some ''financial'', reg_priority = Some ''high'', source_url = ''https://www.sec.gov/rules/1'', effective_date = Some ''2024-01-01''\<rparr>, \<lparr>reg_id = ''reg-2'', reg_title = ''Rule 2'', reg_summary = Some ''Summary 2'', reg_jurisdiction = Some ''US'', reg_category = Some ''financial'', reg_priority = Some ''high'', source_url = ''https://www.sec.gov/rules/2'', effective_date = Some ''2024-01-01''\<rparr>] \<lparr>doc_id = ''doc-1'', doc_content = ''text of chunk 1'', doc_similarity = 9 / 10, doc_metadata = Some \<lparr>meta_regulation_id = Some ''reg-1'', meta_title = Some ''Chunk 1'', meta_url = None\<rparr>\<rparr>, to_result [\<lparr>reg_id = ''reg-1'', reg_title = ''Rule 1'', reg_summary = Some ''Summary 1'', reg_jurisdiction = Some ''US'', reg_category = Some ''financial'', reg_priority = Some ''high'', source_url = ''https://www.sec.gov/rules/1'', effective_date = Some ''2024-01-01''\<rparr>, \<lparr>reg_id = ''reg-2'', reg_title = ''Rule 2'', reg_summary = Some ''Summary 2'', reg_jurisdiction = Some ''US'', reg_category = Some ''financial'', reg_priority = Some ''high'', source_url = ''https://www.sec.gov/rules/2'', effective_date = Some ''2024-01-01''\<rparr>] \<lparr>doc_id = ''doc-2'', doc_content = ''text of chunk 2'', doc_similarity = 7 / 10, doc_metadata = Some \<lparr>meta_regulation_id = Some ''reg-2'', meta_title = Some ''Chunk 2'', meta_url = None\<rparr>\<rparr>]. regulationId s = Some ''reg-3''))"
    by code_simp
  have fits: "''reg-3'' \<in> reg_id ` set (case Some [\<lparr>reg_id = ''reg-2'', reg_title = ''Rule 2'', reg_summary = Some ''Summary 2'', reg_jurisdiction = Some ''US'', reg_category = Some ''financial'', reg_priority = Some ''high'', source_url = ''https://www.sec.gov/rules/2'', effective_date = Some ''2024-01-01''\<rparr>, \<lparr>reg_id = ''reg-3'', reg_title = ''Rule 3'', reg_summary = Some ''Summary 3'', reg_jurisdiction = Some ''US'', reg_category = Some ''financial'', reg_priority = Some ''high'', source_url = ''https://www.sec.gov/rules/3'', effective_date = Some ''2024-01-01''\<rparr>] of None \<Rightarrow> [] | Some rs \<Rightarrow> rs) \<and> int (length [to_result [\<lparr>reg_id = ''reg-1'', reg_title = ''Rule 1'', reg_summary = Some ''Summary 1'', reg_jurisdiction = Some ''US'', reg_category = Some ''financial'', reg_priority = Some ''high'', source_url = ''https://www.sec.gov/rules/1'', effective_date = Some ''2024-01-01''\<rparr>, \<lparr>reg_id = ''reg-2'', reg_title = ''Rule 2'', reg_summary = Some ''Summary 2'', reg_jurisdiction = Some ''US'', reg_category = Some ''financial'', reg_priority = Some ''high'', source_url = ''https://www.sec.gov/rules/2'', effective_date = Some ''2024-01-01''\<rparr>] \<lparr>doc_id = ''doc-1'', doc_content = ''text of chunk 1'', doc_similarity = 9 / 10, doc_metadata = Some \<lparr>meta_regulation_id = Some ''reg-1'', meta_title = Some ''Chunk 1'', meta_url = None\<rparr>\<rparr>, to_result [\<lparr>reg_id = ''reg-1'', reg_title = ''Rule 1'', reg_summary = Some ''Summary 1'', reg_jurisdiction = Some ''US'', reg_category = Some ''financial'', reg_priority = Some ''high'', source_url = ''https://www.sec.gov/rules/1'', effective_date = Some ''2024-01-01''\<rparr>, \<lparr>reg_id = ''reg-2'', reg_title = ''Rule 2'', reg_summary = Some ''Summary 2'', reg_jurisdiction = Some ''US'', reg_category = Some ''financial'', reg_priority = Some ''high'', source_url = ''https://www.sec.gov/rules/2'', effective_date = Some ''2024-01-01''\<rparr>] \<lparr>doc_id = ''doc-2'', doc_content = ''text of chunk 2'', doc_similarity = 7 / 10, doc_metadata = Some \<lparr>meta_regulation_id = Some ''reg-2'', meta_title = Some ''Chunk 2'', meta_url = None\<rparr>\<rparr>] + length (case Some [\<lparr>reg_id = ''reg-2'', reg_title = ''Rule 2'', reg_summary = Some ''Summary 2'', reg_jurisdiction = Some ''US'', reg_category = Some ''financial'', reg_priority = Some ''high'', source_url = ''https://www.sec.gov/rules/2'', effective_date = Some ''2024-01-01''\<rparr>, \<lparr>reg_id = ''reg-3'', reg_title = ''Rule 3'', reg_summary = Some ''Summary 3'', reg_jurisdiction = Some ''US'', reg_category = Some ''financial'', reg_priority = Some ''high'', source_url = ''https://www.sec.gov/rules/3'', effective_date = Some ''2024-01-01''\<rparr>] of None \<Rightarrow> [] | Some rs \<Rightarrow> rs)) \<le> 5"
    by code_simp
  have two: "\<exists>out. hybridSearch (Inr [\<lparr>doc_id = ''doc-1'', doc_content = ''text of chunk 1'', doc_similarity = 9 / 10, doc_metadata = Some \<lparr>meta_regulation_id = Some ''reg-1'', meta_title = Some ''Chunk 1'', meta_url = None\<rparr>\<rparr>, \<lparr>doc_id = ''doc-2'', doc_content = ''text of chunk 2'', doc_similarity = 7 / 10, doc_metadata = Some \<lparr>meta_regulation_id = Some ''reg-2'', meta_title = Some ''Chunk 2'', meta_url = None\<rparr>\<rparr>]) (Some [\<lparr>reg_id = ''reg-1'', reg_title = ''Rule 1'', reg_summary = Some ''Summary 1'', reg_jurisdiction = Some ''US'', reg_category = Some ''financial'', reg_priority = Some ''high'', source_url = ''https://www.sec.gov/rules/1'', effective_date = Some ''2024-01-01''\<rparr>, \<lparr>reg_id = ''reg-2'', reg_title = ''Rule 2'', reg_summary = Some ''Summary 2'', reg_jurisdiction = Some ''US'', reg_category = Some ''financial'', reg_priority = Some ''high'', source_url = ''https://www.sec.gov/rules/2'', effective_date = Some ''2024-01-01''\<rparr>]) (Some [\<lparr>reg_id = ''reg-2'', reg_title = ''Rule 2'', reg_summary = Some ''Summary 2'', reg_jurisdiction = Some ''US'', reg_category = Some ''financial'', reg_priority = Some ''high'', source_url = ''https://www.sec.gov/rules/2'', effective_date = Some ''2024-01-01''\<rparr>, \<lparr>reg_id = ''reg-3'', reg_title = ''Rule 3'', reg_summary = Some ''Summary 3'', reg_jurisdiction = Some ''US'', reg_category = Some ''financial'', reg_priority = Some ''high'', source_url = ''https://www.sec.gov/rules/3'', effective_date = Some ''2024-01-01''\<rparr>]) \<lparr>SearchFilter.jurisdiction = None, SearchFilter.category = None, SearchFilter.priority = None, dateRange = None\<rparr> 5 = Inr out
        \<and> sorted (map (\<lambda>r. - similarity r) out)
        \<and> length out \<le> 5
        \<and> length (filter (\<lambda>r. regulationId r = Some ''reg-2'') out) = 1
        \<and> (\<forall>r \<in> set out. regulationId r = Some ''reg-2'' \<longrightarrow> r \<in> set [to_result [\<lparr>reg_id = ''reg-1'', reg_title = ''Rule 1'', reg_summary = Some ''Summary 1'', reg_jurisdiction = Some ''US'', reg_category = Some ''financial'', reg_priority = Some ''high'', source_url = ''https://www.sec.gov/rules/1'', effective_date = Some ''2024-01-01''\<rparr>, \<lparr>reg_id = ''reg-2'', reg_title = ''Rule 2'', reg_summary = Some ''Summary 2'', reg_jurisdiction = Some ''US'', reg_category = Some ''financial'', reg_priority = Some ''high'', source_url = ''https://www.sec.gov/rules/2'', effective_date = Some ''2024-01-01''\<rparr>] \<lparr>doc_id = ''doc-1'', doc_content = ''text of chunk 1'', doc_similarity = 9 / 10, doc_metadata = Some \<lparr>meta_regulation_id = Some ''reg-1'', meta_title = Some ''Chunk 1'', meta_url = None\<rparr>\<rparr>, to_result [\<lparr>reg_id = ''reg-1'', reg_title = ''Rule 1'', reg_summary = Some ''Summary 1'', reg_jurisdiction = Some ''US'', reg_category = Some ''financial'', reg_priority = Some ''high'', source_url = ''https://www.sec.gov/rules/1'', effective_date = Some ''2024-01-01''\<rparr>, \<lparr>reg_id = ''reg-2'', reg_title = ''Rule 2'', reg_summary = Some ''Summary 2'', reg_jurisdiction = Some ''US'', reg_category = Some ''financial'', reg_priority = Some ''high'', source_url = ''https://www.sec.gov/rules/2'', effective_date = Some ''2024-01-01''\<rparr>] \<lparr>doc_id = ''doc-2'', doc_content = ''text of chunk 2'', doc_similarity = 7 / 10, doc_metadata = Some \<lparr>meta_regulation_id = Some ''reg-2'', meta_title = Some ''Chunk 2'', meta_url = None\<rparr>\<rparr>])"
  proof -
    from hybridSearch_merge [OF s, where keywordResults = "Some [\<lparr>reg_id = ''reg-2'', reg_title = ''Rule 2'', reg_summary = Some ''Summary 2'', reg_jurisdiction = Some ''US'', reg_category = Some ''financial'', reg_priority = Some ''high'', source_url = ''https://www.sec.gov/rules/2'', effective_date = Some ''2024-01-01''\<rparr>, \<lparr>reg_id = ''reg-3'', reg_title = ''Rule 3'', reg_summary = Some ''Summary 3'', reg_jurisdiction = Some ''US'', reg_category = Some ''financial'', reg_priority = Some ''high'', source_url = ''https://www.sec.gov/rules/3'', effective_date = Some ''2024-01-01''\<rparr>]" and rid = "''reg-2''"]
    obtain out where o: "hybridSearch (Inr [\<lparr>doc_id = ''doc-1'', doc_content = ''text of chunk 1'', doc_similarity = 9 / 10, doc_metadata = Some \<lparr>meta_regulation_id = Some ''reg-1'', meta_title = Some ''Chunk 1'', meta_url = None\<rparr>\<rparr>, \<lparr>doc_id = ''doc-2'', doc_content = ''text of chunk 2'', doc_similarity = 7 / 10, doc_metadata = Some \<lparr>meta_regulation_id = Some ''reg-2'', meta_title = Some ''Chunk 2'', meta_url = None\<rparr>\<rparr>]) (Some [\<lparr>reg_id = ''reg-1'', reg_title = ''Rule 1'', reg_summary = Some ''Summary 1'', reg_jurisdiction = Some ''US'', reg_category = Some ''financial'', reg_priority = Some ''high'', source_url = ''https://www.sec.gov/rules/1'', effective_date = Some ''2024-01-01''\<rparr>, \<lparr>reg_id = ''reg-2'', reg_title = ''Rule 2'', reg_summary = Some ''Summary 2'', reg_jurisdiction = Some ''US'', reg_category = Some ''financial'', reg_priority = Some ''high'', source_url = ''https://www.sec.gov/rules/2'', effective_date = Some ''2024-01-01''\<rparr>]) (Some [\<lparr>reg_id = ''reg-2'', reg_title = ''Rule 2'', reg_summary = Some ''Summary 2'', reg_jurisdiction = Some ''US'', reg_category = Some ''financial'', reg_priority = Some ''high'', source_url = ''https://www.sec.gov/rules/2'', effective_date = Some ''2024-01-01''\<rparr>, \<lparr>reg_id = ''reg-3'', reg_title = ''Rule 3'', reg_summary = Some ''Summary 3'', reg_jurisdiction = Some ''US'', reg_category = Some ''financial'', reg_priority = Some ''high'', source_url = ''https://www.sec.gov/rules/3'', effective_date = Some ''2024-01-01''\<rparr>]) \<lparr>SearchFilter.jurisdiction = None, SearchFilter.category = None, SearchFilter.priority = None, dateRange = None\<rparr> 5 = Inr out"
      and srt: "sorted (map (\<lambda>r. - similarity r) out)"
      and len: "0 \<le> (5 :: int) \<longrightarrow> length out \<le> nat 5"
      and both: "''reg-2'' \<noteq> [] \<and> (\<exists>s \<in> set [to_result [\<lparr>reg_id = ''reg-1'', reg_title = ''Rule 1'', reg_summary = Some ''Summary 1'', reg_jurisdiction = Some ''US'', reg_category = Some ''financial'', reg_priority = Some ''high'', source_url = ''https://www.sec.gov/rules/1'', effective_date = Some ''2024-01-01''\<rparr>, \<lparr>reg_id = ''reg-2'', reg_title = ''Rule 2'', reg_summary = Some ''Summary 2'', reg_jurisdiction = Some ''US'', reg_category = Some ''financial'', reg_priority = Some ''high'', source_url = ''https://www.sec.gov/rules/2'', effective_date = Some ''2024-01-01''\<rparr>] \<lparr>doc_id = ''doc-1'', doc_content = ''text of chunk 1'', doc_similarity = 9 / 10, doc_metadata = Some \<lparr>meta_regulation_id = Some ''reg-1'', meta_title = Some ''Chunk 1'', meta_url = None\<rparr>\<rparr>, to_result [\<lparr>reg_id = ''reg-1'', reg_title = ''Rule 1'', reg_summary = Some ''Summary 1'', reg_jurisdiction = Some ''US'', reg_category = Some ''financial'', reg_priority = Some ''high'', source_url = ''https://www.sec.gov/rules/1'', effective_date = Some ''2024-01-01''\<rparr>, \<lparr>reg_id = ''reg-2'', reg_title = ''Rule 2'', reg_summary = Some ''Summary 2'', reg_jurisdiction = Some ''US'', reg_category = Some ''financial'', reg_priority = Some ''high'', source_url = ''https://www.sec.gov/rules/2'', effective_date = Some ''2024-01-01''\<rparr>] \<lparr>doc_id = ''doc-2'', doc_content = ''text of chunk 2'', doc_similarity = 7 / 10, doc_metadata = Some \<lparr>meta_regulation_id = Some ''reg-2'', meta_title = Some ''Chunk 2'', meta_url = None\<rparr>\<rparr>]. regulationId s = Some ''reg-2'') \<longrightarrow>
          (\<forall>r \<in> set out. regulationId r = Some ''reg-2'' \<longrightarrow> r \<in> set [to_result [\<lparr>reg_id = ''reg-1'', reg_title = ''Rule 1'', reg_summary = Some ''Summary 1'', reg_jurisdiction = Some ''US'', reg_category = Some ''financial'', reg_priority = Some ''high'', source_url = ''https://www.sec.gov/rules/1'', effective_date = Some ''2024-01-01''\<rparr>, \<lparr>reg_id = ''reg-2'', reg_title = ''Rule 2'', reg_summary = Some ''Summary 2'', reg_jurisdiction = Some ''US'', reg_category = Some ''financial'', reg_priority = Some ''high'', source_url = ''https://www.sec.gov/rules/2'', effective_date = Some ''2024-01-01''\<rparr>] \<lparr>doc_id = ''doc-1'', doc_content = ''text of chunk 1'', doc_similarity = 9 / 10, doc_metadata = Some \<lparr>meta_regulation_id = Some ''reg-1'', meta_title = Some ''Chunk 1'', meta_url = None\<rparr>\<rparr>, to_result [\<lparr>reg_id = ''reg-1'', reg_title = ''Rule 1'', reg_summary = Some ''Summary 1'', reg_jurisdiction = Some ''US'', reg_category = Some ''financial'', reg_priority = Some ''high'', source_url = ''https://www.sec.gov/rules/1'', effective_date = Some ''2024-01-01''\<rparr>, \<lparr>reg_id = ''reg-2'', reg_title = ''Rule 2'', reg_summary = Some ''Summary 2'', reg_jurisdiction = Some ''US'', reg_category = Some ''financial'', reg_priority = Some ''high'', source_url = ''https://www.sec.gov/rules/2'', effective_date = Some ''2024-01-01''\<rparr>] \<lparr>doc_id = ''doc-2'', doc_content = ''text of chunk 2'', doc_similarity = 7 / 10, doc_metadata = Some \<lparr>meta_regulation_id = Some ''reg-2'', meta_title = Some ''Chunk 2'', meta_url = None\<rparr>\<rparr>])
          \<and> (0 \<le> (5 :: int) \<and> (\<forall>s \<in> set [to_result [\<lparr>reg_id = ''reg-1'', reg_title = ''Rule 1'', reg_summary = Some ''Summary 1'', reg_jurisdiction = Some ''US'', reg_category = Some ''financial'', reg_priority = Some ''high'', source_url = ''https://www.sec.gov/rules/1'', effective_date = Some ''2024-01-01''\<rparr>, \<lparr>reg_id = ''reg-2'', reg_title = ''Rule 2'', reg_summary = Some ''Summary 2'', reg_jurisdiction = Some ''US'', reg_category = Some ''financial'', reg_priority = Some ''high'', source_url = ''https://www.sec.gov/rules/2'', effective_date = Some ''2024-01-01''\<rparr>] \<lparr>doc_id = ''doc-1'', doc_content = ''text of chunk 1'', doc_similarity = 9 / 10, doc_metadata = Some \<lparr>meta_regulation_id = Some ''reg-1'', meta_title = Some ''Chunk 1'', meta_url = None\<rparr>\<rparr>, to_result [\<lparr>reg_id = ''reg-1'', reg_title = ''Rule 1'', reg_summary = Some ''Summary 1'', reg_jurisdiction = Some ''US'', reg_category = Some ''financial'', reg_priority = Some ''high'', source_url = ''https://www.sec.gov/rules/1'', effective_date = Some ''2024-01-01''\<rparr>, \<lparr>reg_id = ''reg-2'', reg_title = ''Rule 2'', reg_summary = Some ''Summary 2'', reg_jurisdiction = Some ''US'', reg_category = Some ''financial'', reg_priority = Some ''high'', source_url = ''https://www.sec.gov/rules/2'', effective_date = Some ''2024-01-01''\<rparr>] \<lparr>doc_id = ''doc-2'', doc_content = ''text of chunk 2'', doc_similarity = 7 / 10, doc_metadata = Some \<lparr>meta_regulation_id = Some ''reg-2'', meta_title = Some ''Chunk 2'', meta_url = None\<rparr>\<rparr>]. 1 / 2 < similarity s) \<longrightarrow>
                length (filter (\<lambda>r. regulationId r = Some ''reg-2'') out) = 1)"
      by (elim exE conjE)
    from len have l: "length out \<le> 5" by simp
    from both both2 have p: "(\<forall>r \<in> set out. regulationId r = Some ''reg-2'' \<longrightarrow> r \<in> set [to_result [\<lparr>reg_id = ''reg-1'', reg_title = ''Rule 1'', reg_summary = Some ''Summary 1'', reg_jurisdiction = Some ''US'', reg_category = Some ''financial'', reg_priority = Some ''high'', source_url = ''https://www.sec.gov/rules/1'', effective_date = Some ''2024-01-01''\<rparr>, \<lparr>reg_id = ''reg-2'', reg_title = ''Rule 2'', reg_summary = Some ''Summary 2'', reg_jurisdiction = Some ''US'', reg_category = Some ''financial'', reg_priority = Some ''high'', source_url = ''https://www.sec.gov/rules/2'', effective_date = Some ''2024-01-01''\<rparr>] \<lparr>doc_id = ''doc-1'', doc_content = ''text of chunk 1'', doc_similarity = 9 / 10, doc_metadata = Some \<lparr>meta_regulation_id = Some ''reg-1'', meta_title = Some ''Chunk 1'', meta_url = None\<rparr>\<rparr>, to_result [\<lparr>reg_id = ''reg-1'', reg_title = ''Rule 1'', reg_summary = Some ''Summary 1'', reg_jurisdiction = Some ''US'', reg_category = Some ''financial'', reg_priority = Some ''high'', source_url = ''https://www.sec.gov/rules/1'', effective_date = Some ''2024-01-01''\<rparr>, \<lparr>reg_id = ''reg-2'', reg_title = ''Rule 2'', reg_summary = Some ''Summary 2'', reg_jurisdiction = Some ''US'', reg_category = Some ''financial'', reg_priority = Some ''high'', source_url = ''https://www.sec.gov/rules/2'', effective_date = Some ''2024-01-01''\<rparr>] \<lparr>doc_id = ''doc-2'', doc_content = ''text of chunk 2'', doc_similarity = 7 / 10, doc_metadata = Some \<lparr>meta_regulation_id = Some ''reg-2'', meta_title = Some ''Chunk 2'', meta_url = None\<rparr>\<rparr>])
          \<and> (0 \<le> (5 :: int) \<and> (\<forall>s \<in> set [to_result [\<lparr>reg_id = ''reg-1'', reg_title = ''Rule 1'', reg_summary = Some ''Summary 1'', reg_jurisdiction = Some ''US'', reg_category = Some ''financial'', reg_priority = Some ''high'', source_url = ''https://www.sec.gov/rules/1'', effective_date = Some ''2024-01-01''\<rparr>, \<lparr>reg_id = ''reg-2'', reg_title = ''Rule 2'', reg_summary = Some ''Summary 2'', reg_jurisdiction = Some ''US'', reg_category = Some ''financial'', reg_priority = Some ''high'', source_url = ''https://www.sec.gov/rules/2'', effective_date = Some ''2024-01-01''\<rparr>] \<lparr>doc_id = ''doc-1'', doc_content = ''text of chunk 1'', doc_similarity = 9 / 10, doc_metadata = Some \<lparr>meta_regulation_id = Some ''reg-1'', meta_title = Some ''Chunk 1'', meta_url = None\<rparr>\<rparr>, to_result [\<lparr>reg_id = ''reg-1'', reg_title = ''Rule 1'', reg_summary = Some ''Summary 1'', reg_jurisdiction = Some ''US'', reg_category = Some ''financial'', reg_priority = Some ''high'', source_url = ''https://www.sec.gov/rules/1'', effective_date = Some ''2024-01-01''\<rparr>, \<lparr>reg_id = ''reg-2'', reg_title = ''Rule 2'', reg_summary = Some ''Summary 2'', reg_jurisdiction = Some ''US'', reg_category = Some ''financial'', reg_priority = Some ''high'', source_url = ''https://www.sec.gov/rules/2'', effective_date = Some ''2024-01-01''\<rparr>] \<lparr>doc_id = ''doc-2'', doc_content = ''text of chunk 2'', doc_similarity = 7 / 10, doc_metadata = Some \<lparr>meta_regulation_id = Some ''reg-2'', meta_title = Some ''Chunk 2'', meta_url = None\<rparr>\<rparr>]. 1 / 2 < similarity s) \<longrightarrow>
                length (filter (\<lambda>r. regulationId r = Some ''reg-2'') out) = 1)"
      by (rule mp)
    from p have p1: "\<forall>r \<in> set out. regulationId r = Some ''reg-2'' \<longrightarrow> r \<in> set [to_result [\<lparr>reg_id = ''reg-1'', reg_title = ''Rule 1'', reg_summary = Some ''Summary 1'', reg_jurisdiction = Some ''US'', reg_category = Some ''financial'', reg_priority = Some ''high'', source_url = ''https://www.sec.gov/rules/1'', effective_date = Some ''2024-01-01''\<rparr>, \<lparr>reg_id = ''reg-2'', reg_title = ''Rule 2'', reg_summary = Some ''Summary 2'', reg_jurisdiction = Some ''US'', reg_category = Some ''financial'', reg_priority = Some ''high'', source_url = ''https://www.sec.gov/rules/2'', effective_date = Some ''2024-01-01''\<rparr>] \<lparr>doc_id = ''doc-1'', doc_content = ''text of chunk 1'', doc_similarity = 9 / 10, doc_metadata = Some \<lparr>meta_regulation_id = Some ''reg-1'', meta_title = Some ''Chunk 1'', meta_url = None\<rparr>\<rparr>, to_result [\<lparr>reg_id = ''reg-1'', reg_title = ''Rule 1'', reg_summary = Some ''Summary 1'', reg_jurisdiction = Some ''US'', reg_category = Some ''financial'', reg_priority = Some ''high'', source_url = ''https://www.sec.gov/rules/1'', effective_date = Some ''2024-01-01''\<rparr>, \<lparr>reg_id = ''reg-2'', reg_title = ''Rule 2'', reg_summary = Some ''Summary 2'', reg_jurisdiction = Some ''US'', reg_category = Some ''financial'', reg_priority = Some ''high'', source_url = ''https://www.sec.gov/rules/2'', effective_date = Some ''2024-01-01''\<rparr>] \<lparr>doc_id = ''doc-2'', doc_content = ''text of chunk 2'', doc_similarity = 7 / 10, doc_metadata = Some \<lparr>meta_regulation_id = Some ''reg-2'', meta_title = Some ''Chunk 2'', meta_url = None\<rparr>\<rparr>]"
      by (rule conjunct1)
    from p have "0 \<le> (5 :: int) \<and> (\<forall>s \<in> set [to_result [\<lparr>reg_id = ''reg-1'', reg_title = ''Rule 1'', reg_summary = Some ''Summary 1'', reg_jurisdiction = Some ''US'', reg_category = Some ''financial'', reg_priority = Some ''high'', source_url = ''https://www.sec.gov/rules/1'', effective_date = Some ''2024-01-01''\<rparr>, \<lparr>reg_id = ''reg-2'', reg_title = ''Rule 2'', reg_summary = Some ''Summary 2'', reg_jurisdiction = Some ''US'', reg_category = Some ''financial'', reg_priority = Some ''high'', source_url = ''https://www.sec.gov/rules/2'', effective_date = Some ''2024-01-01''\<rparr>] \<lparr>doc_id = ''doc-1'', doc_content = ''text of chunk 1'', doc_similarity = 9 / 10, doc_metadata = Some \<lparr>meta_regulation_id = Some ''reg-1'', meta_title = Some ''Chunk 1'', meta_url = None\<rparr>\<rparr>, to_result [\<lparr>reg_id = ''reg-1'', reg_title = ''Rule 1'', reg_summary = Some ''Summary 1'', reg_jurisdiction = Some ''US'', reg_category = Some ''financial'', reg_priority = Some ''high'', source_url = ''https://www.sec.gov/rules/1'', effective_date = Some ''2024-01-01''\<rparr>, \<lparr>reg_id = ''reg-2'', reg_title = ''Rule 2'', reg_summary = Some ''Summary 2'', reg_jurisdiction = Some ''US'', reg_category = Some ''financial'', reg_priority = Some ''high'', source_url = ''https://www.sec.gov/rules/2'', effective_date = Some ''2024-01-01''\<rparr>] \<lparr>doc_id = ''doc-2'', doc_content = ''text of chunk 2'', doc_similarity = 7 / 10, doc_metadata = Some \<lparr>meta_regulation_id = Some ''reg-2'', meta_title = Some ''Chunk 2'', meta_url = None\<rparr>\<rparr>]. 1 / 2 < similarity s) \<longrightarrow>
                length (filter (\<lambda>r. regulationId r = Some ''reg-2'') out) = 1"
      by (rule conjunct2)
    from this scores have p2: "length (filter (\<lambda>r. regulationId r = Some ''reg-2'') out) = 1"
      by (rule mp)
    show ?thesis
      by (intro exI conjI) (rule o srt l p2 p1)+
  qed
  have three: "\<exists>out. hybridSearch (Inr [\<lparr>doc_id = ''doc-1'', doc_content = ''text of chunk 1'', doc_similarity = 9 / 10, doc_metadata = Some \<lparr>meta_regulation_id = Some ''reg-1'', meta_title = Some ''Chunk 1'', meta_url = None\<rparr>\<rparr>, \<lparr>doc_id = ''doc-2'', doc_content = ''text of chunk 2'', doc_similarity = 7 / 10, doc_metadata = Some \<lparr>meta_regulation_id = Some ''reg-2'', meta_title = Some ''Chunk 2'', meta_url = None\<rparr>\<rparr>]) (Some [\<lparr>reg_id = ''reg-1'', reg_title = ''Rule 1'', reg_summary = Some ''Summary 1'', reg_jurisdiction = Some ''US'', reg_category = Some ''financial'', reg_priority = Some ''high'', source_url = ''https://www.sec.gov/rules/1'', effective_date = Some ''2024-01-01''\<rparr>, \<lparr>reg_id = ''reg-2'', reg_title = ''Rule 2'', reg_summary = Some ''Summary 2'', reg_jurisdiction = Some ''US'', reg_category = Some ''financial'', reg_priority = Some ''high'', source_url = ''https://www.sec.gov/rules/2'', effective_date = Some ''2024-01-01''\<rparr>]) (Some [\<lparr>reg_id = ''reg-2'', reg_title = ''Rule 2'', reg_summary = Some ''Summary 2'', reg_jurisdiction = Some ''US'', reg_category = Some ''financial'', reg_priority = Some ''high'', source_url = ''https://www.sec.gov/rules/2'', effective_date = Some ''2024-01-01''\<rparr>, \<lparr>reg_id = ''reg-3'', reg_title = ''Rule 3'', reg_summary = Some ''Summary 3'', reg_jurisdiction = Some ''US'', reg_category = Some ''financial'', reg_priority = Some ''high'', source_url = ''https://www.sec.gov/rules/3'', effective_date = Some ''2024-01-01''\<rparr>]) \<lparr>SearchFilter.jurisdiction = None, SearchFilter.category = None, SearchFilter.priority = None, dateRange = None\<rparr> 5 = Inr out
        \<and> length (filter (\<lambda>r. regulationId r = Some ''reg-3'') out) = 1
        \<and> (\<forall>r \<in> set out. regulationId r = Some ''reg-3'' \<longrightarrow>
              similarity r = 1 / 2 \<and> (\<exists>reg \<in> set (case Some [\<lparr>reg_id = ''reg-2'', reg_title = ''Rule 2'', reg_summary = Some ''Summary 2'', reg_jurisdiction = Some ''US'', reg_category = Some ''financial'', reg_priority = Some ''high'', source_url = ''https://www.sec.gov/rules/2'', effective_date = Some ''2024-01-01''\<rparr>, \<lparr>reg_id = ''reg-3'', reg_title = ''Rule 3'', reg_summary = Some ''Summary 3'', reg_jurisdiction = Some ''US'', reg_category = Some ''financial'', reg_priority = Some ''high'', source_url = ''https://www.sec.gov/rules/3'', effective_date = Some ''2024-01-01''\<rparr>] of None \<Rightarrow> [] | Some rs \<Rightarrow> rs). r = keyword_result reg))"
  proof -
    from hybridSearch_merge [OF s, where keywordResults = "Some [\<lparr>reg_id = ''reg-2'', reg_title = ''Rule 2'', reg_summary = Some ''Summary 2'', reg_jurisdiction = Some ''US'', reg_category = Some ''financial'', reg_priority = Some ''high'', source_url = ''https://www.sec.gov/rules/2'', effective_date = Some ''2024-01-01''\<rparr>, \<lparr>reg_id = ''reg-3'', reg_title = ''Rule 3'', reg_summary = Some ''Summary 3'', reg_jurisdiction = Some ''US'', reg_category = Some ''financial'', reg_priority = Some ''high'', source_url = ''https://www.sec.gov/rules/3'', effective_date = Some ''2024-01-01''\<rparr>]" and rid = "''reg-3''"]
    obtain out where o: "hybridSearch (Inr [\<lparr>doc_id = ''doc-1'', doc_content = ''text of chunk 1'', doc_similarity = 9 / 10, doc_metadata = Some \<lparr>meta_regulation_id = Some ''reg-1'', meta_title = Some ''Chunk 1'', meta_url = None\<rparr>\<rparr>, \<lparr>doc_id = ''doc-2'', doc_content = ''text of chunk 2'', doc_similarity = 7 / 10, doc_metadata = Some \<lparr>meta_regulation_id = Some ''reg-2'', meta_title = Some ''Chunk 2'', meta_url = None\<rparr>\<rparr>]) (Some [\<lparr>reg_id = ''reg-1'', reg_title = ''Rule 1'', reg_summary = Some ''Summary 1'', reg_jurisdiction = Some ''US'', reg_category = Some ''financial'', reg_priority = Some ''high'', source_url = ''https://www.sec.gov/rules/1'', effective_date = Some ''2024-01-01''\<rparr>, \<lparr>reg_id = ''reg-2'', reg_title = ''Rule 2'', reg_summary = Some ''Summary 2'', reg_jurisdiction = Some ''US'', reg_category = Some ''financial'', reg_priority = Some ''high'', source_url = ''https://www.sec.gov/rules/2'', effective_date = Some ''2024-01-01''\<rparr>]) (Some [\<lparr>reg_id = ''reg-2'', reg_title = ''Rule 2'', reg_summary = Some ''Summary 2'', reg_jurisdiction = Some ''US'', reg_category = Some ''financial'', reg_priority = Some ''high'', source_url = ''https://www.sec.gov/rules/2'', effective_date = Some ''2024-01-01''\<rparr>, \<lparr>reg_id = ''reg-3'', reg_title = ''Rule 3'', reg_summary = Some ''Summary 3'', reg_jurisdiction = Some ''US'', reg_category = Some ''financial'', reg_priority = Some ''high'', source_url = ''https://www.sec.gov/rules/3'', effective_date = Some ''2024-01-01''\<rparr>]) \<lparr>SearchFilter.jurisdiction = None, SearchFilter.category = None, SearchFilter.priority = None, dateRange = None\<rparr> 5 = Inr out"
      and only: "\<not> (''reg-3'' \<noteq> [] \<and> (\<exists>s \<in> set [to_result [\<lparr>reg_id = ''reg-1'', reg_title = ''Rule 1'', reg_summary = Some ''Summary 1'', reg_jurisdiction = Some ''US'', reg_category = Some ''financial'', reg_priority = Some ''high'', source_url = ''https://www.sec.gov/rules/1'', effective_date = Some ''2024-01-01''\<rparr>, \<lparr>reg_id = ''reg-2'', reg_title = ''Rule 2'', reg_summary = Some ''Summary 2'', reg_jurisdiction = Some ''US'', reg_category = Some ''financial'', reg_priority = Some ''high'', source_url = ''https://www.sec.gov/rules/2'', effective_date = Some ''2024-01-01''\<rparr>] \<lparr>doc_id = ''doc-1'', doc_content = ''text of chunk 1'', doc_similarity = 9 / 10, doc_metadata = Some \<lparr>meta_regulation_id = Some ''reg-1'', meta_title = Some ''Chunk 1'', meta_url = None\<rparr>\<rparr>, to_result [\<lparr>reg_id = ''reg-1'', reg_title = ''Rule 1'', reg_summary = Some ''Summary 1'', reg_jurisdiction = Some ''US'', reg_category = Some ''financial'', reg_priority = Some ''high'', source_url = ''https://www.sec.gov/rules/1'', effective_date = Some ''2024-01-01''\<rparr>, \<lparr>reg_id = ''reg-2'', reg_title = ''Rule 2'', reg_summary = Some ''Summary 2'', reg_jurisdiction = Some ''US'', reg_category = Some ''financial'', reg_priority = Some ''high'', source_url = ''https://www.sec.gov/rules/2'', effective_date = Some ''2024-01-01''\<rparr>] \<lparr>doc_id = ''doc-2'', doc_content = ''text of chunk 2'', doc_similarity = 7 / 10, doc_metadata = Some \<lparr>meta_regulation_id = Some ''reg-2'', meta_title = Some ''Chunk 2'', meta_url = None\<rparr>\<rparr>]. regulationId s = Some ''reg-3'')) \<longrightarrow>
          (\<forall>r \<in> set out. regulationId r = Some ''reg-3'' \<longrightarrow>
              similarity r = 1 / 2 \<and> (\<exists>reg \<in> set (case Some [\<lparr>reg_id = ''reg-2'', reg_title = ''Rule 2'', reg_summary = Some ''Summary 2'', reg_jurisdiction = Some ''US'', reg_category = Some ''financial'', reg_priority = Some ''high'', source_url = ''https://www.sec.gov/rules/2'', effective_date = Some ''2024-01-01''\<rparr>, \<lparr>reg_id = ''reg-3'', reg_title = ''Rule 3'', reg_summary = Some ''Summary 3'', reg_jurisdiction = Some ''US'', reg_category = Some ''financial'', reg_priority = Some ''high'', source_url = ''https://www.sec.gov/rules/3'', effective_date = Some ''2024-01-01''\<rparr>] of None \<Rightarrow> [] | Some rs \<Rightarrow> rs). r = keyword_result reg))
          \<and> (''reg-3'' \<in> reg_id ` set (case Some [\<lparr>reg_id = ''reg-2'', reg_title = ''Rule 2'', reg_summary = Some ''Summary 2'', reg_jurisdiction = Some ''US'', reg_category = Some ''financial'', reg_priority = Some ''high'', source_url = ''https://www.sec.gov/rules/2'', effective_date = Some ''2024-01-01''\<rparr>, \<lparr>reg_id = ''reg-3'', reg_title = ''Rule 3'', reg_summary = Some ''Summary 3'', reg_jurisdiction = Some ''US'', reg_category = Some ''financial'', reg_priority = Some ''high'', source_url = ''https://www.sec.gov/rules/3'', effective_date = Some ''2024-01-01''\<rparr>] of None \<Rightarrow> [] | Some rs \<Rightarrow> rs) \<and> int (length [to_result [\<lparr>reg_id = ''reg-1'', reg_title = ''Rule 1'', reg_summary = Some ''Summary 1'', reg_jurisdiction = Some ''US'', reg_category = Some ''financial'', reg_priority = Some ''high'', source_url = ''https://www.sec.gov/rules/1'', effective_date = Some ''2024-01-01''\<rparr>, \<lparr>reg_id = ''reg-2'', reg_title = ''Rule 2'', reg_summary = Some ''Summary 2'', reg_jurisdiction = Some ''US'', reg_category = Some ''financial'', reg_priority = Some ''high'', source_url = ''https://www.sec.gov/rules/2'', effective_date = Some ''2024-01-01''\<rparr>] \<lparr>doc_id = ''doc-1'', doc_content = ''text of chunk 1'', doc_similarity = 9 / 10, doc_metadata = Some \<lparr>meta_regulation_id = Some ''reg-1'', meta_title = Some ''Chunk 1'', meta_url = None\<rparr>\<rparr>, to_result [\<lparr>reg_id = ''reg-1'', reg_title = ''Rule 1'', reg_summary = Some ''Summary 1'', reg_jurisdiction = Some ''US'', reg_category = Some ''financial'', reg_priority = Some ''high'', source_url = ''https://www.sec.gov/rules/1'', effective_date = Some ''2024-01-01''\<rparr>, \<lparr>reg_id = ''reg-2'', reg_title = ''Rule 2'', reg_summary = Some ''Summary 2'', reg_jurisdiction = Some ''US'', reg_category = Some ''financial'', reg_priority = Some ''high'', source_url = ''https://www.sec.gov/rules/2'', effective_date = Some ''2024-01-01''\<rparr>] \<lparr>doc_id = ''doc-2'', doc_content = ''text of chunk 2'', doc_similarity = 7 / 10, doc_metadata = Some \<lparr>meta_regulation_id = Some ''reg-2'', meta_title = Some ''Chunk 2'', meta_url = None\<rparr>\<rparr>] + length (case Some [\<lparr>reg_id = ''reg-2'', reg_title = ''Rule 2'', reg_summary = Some ''Summary 2'', reg_jurisdiction = Some ''US'', reg_category = Some ''financial'', reg_priority = Some ''high'', source_url = ''https://www.sec.gov/rules/2'', effective_date = Some ''2024-01-01''\<rparr>, \<lparr>reg_id = ''reg-3'', reg_title = ''Rule 3'', reg_summary = Some ''Summary 3'', reg_jurisdiction = Some ''US'', reg_category = Some ''financial'', reg_priority = Some ''high'', source_url = ''https://www.sec.gov/rules/3'', effective_date = Some ''2024-01-01''\<rparr>] of None \<Rightarrow> [] | Some rs \<Rightarrow> rs)) \<le> 5 \<longrightarrow>
                length (filter (\<lambda>r. regulationId r = Some ''reg-3'') out) = 1)"
      by (elim exE conjE)
    from only only3 have p: "(\<forall>r \<in> set out. regulationId r = Some ''reg-3'' \<longrightarrow>
              similarity r = 1 / 2 \<and> (\<exists>reg \<in> set (case Some [\<lparr>reg_id = ''reg-2'', reg_title = ''Rule 2'', reg_summary = Some ''Summary 2'', reg_jurisdiction = Some ''US'', reg_category = Some ''financial'', reg_priority = Some ''high'', source_url = ''https://www.sec.gov/rules/2'', effective_date = Some ''2024-01-01''\<rparr>, \<lparr>reg_id = ''reg-3'', reg_title = ''Rule 3'', reg_summary = Some ''Summary 3'', reg_jurisdiction = Some ''US'', reg_category = Some ''financial'', reg_priority = Some ''high'', source_url = ''https://www.sec.gov/rules/3'', effective_date = Some ''2024-01-01''\<rparr>] of None \<Rightarrow> [] | Some rs \<Rightarrow> rs). r = keyword_result reg))
          \<and> (''reg-3'' \<in> reg_id ` set (case Some [\<lparr>reg_id = ''reg-2'', reg_title = ''Rule 2'', reg_summary = Some ''Summary 2'', reg_jurisdiction = Some ''US'', reg_category = Some ''financial'', reg_priority = Some ''high'', source_url = ''https://www.sec.gov/rules/2'', effective_date = Some ''2024-01-01''\<rparr>, \<lparr>reg_id = ''reg-3'', reg_title = ''Rule 3'', reg_summary = Some ''Summary 3'', reg_jurisdiction = Some ''US'', reg_category = Some ''financial'', reg_priority = Some ''high'', source_url = ''https://www.sec.gov/rules/3'', effective_date = Some ''2024-01-01''\<rparr>] of None \<Rightarrow> [] | Some rs \<Rightarrow> rs) \<and> int (length [to_result [\<lparr>reg_id = ''reg-1'', reg_title = ''Rule 1'', reg_summary = Some ''Summary 1'', reg_jurisdiction = Some ''US'', reg_category = Some ''financial'', reg_priority = Some ''high'', source_url = ''https://www.sec.gov/rules/1'', effective_date = Some ''2024-01-01''\<rparr>, \<lparr>reg_id = ''reg-2'', reg_title = ''Rule 2'', reg_summary = Some ''Summary 2'', reg_jurisdiction = Some ''US'', reg_category = Some ''financial'', reg_priority = Some ''high'', source_url = ''https://www.sec.gov/rules/2'', effective_date = Some ''2024-01-01''\<rparr>] \<lparr>doc_id = ''doc-1'', doc_content = ''text of chunk 1'', doc_similarity = 9 / 10, doc_metadata = Some \<lparr>meta_regulation_id = Some ''reg-1'', meta_title = Some ''Chunk 1'', meta_url = None\<rparr>\<rparr>, to_result [\<lparr>reg_id = ''reg-1'', reg_title = ''Rule 1'', reg_summary = Some ''Summary 1'', reg_jurisdiction = Some ''US'', reg_category = Some ''financial'', reg_priority = Some ''high'', source_url = ''https://www.sec.gov/rules/1'', effective_date = Some ''2024-01-01''\<rparr>, \<lparr>reg_id = ''reg-2'', reg_title = ''Rule 2'', reg_summary = Some ''Summary 2'', reg_jurisdiction = Some ''US'', reg_category = Some ''financial'', reg_priority = Some ''high'', source_url = ''https://www.sec.gov/rules/2'', effective_date = Some ''2024-01-01''\<rparr>] \<lparr>doc_id = ''doc-2'', doc_content = ''text of chunk 2'', doc_similarity = 7 / 10, doc_metadata = Some \<lparr>meta_regulation_id = Some ''reg-2'', meta_title = Some ''Chunk 2'', meta_url = None\<rparr>\<rparr>] + length (case Some [\<lparr>reg_id = ''reg-2'', reg_title = ''Rule 2'', reg_summary = Some ''Summary 2'', reg_jurisdiction = Some ''US'', reg_category = Some ''financial'', reg_priority = Some ''high'', source_url = ''https://www.sec.gov/rules/2'', effective_date = Some ''2024-01-01''\<rparr>, \<lparr>reg_id = ''reg-3'', reg_title = ''Rule 3'', reg_summary = Some ''Summary 3'', reg_jurisdiction = Some ''US'', reg_category = Some ''financial'', reg_priority = Some ''high'', source_url = ''https://www.sec.gov/rules/3'', effective_date = Some ''2024-01-01''\<rparr>] of None \<Rightarrow> [] | Some rs \<Rightarrow> rs)) \<le> 5 \<longrightarrow>
                length (filter (\<lambda>r. regulationId r = Some ''reg-3'') out) = 1)"
      by (rule mp)
    from p have p1: "\<forall>r \<in> set out. regulationId r = Some ''reg-3'' \<longrightarrow>
              similarity r = 1 / 2 \<and> (\<exists>reg \<in> set (case Some [\<lparr>reg_id = ''reg-2'', reg_title = ''Rule 2'', reg_summary = Some ''Summary 2'', reg_jurisdiction = Some ''US'', reg_category = Some ''financial'', reg_priority = Some ''high'', source_url = ''https://www.sec.gov/rules/2'', effective_date = Some ''2024-01-01''\<rparr>, \<lparr>reg_id = ''reg-3'', reg_title = ''Rule 3'', reg_summary = Some ''Summary 3'', reg_jurisdiction = Some ''US'', reg_category = Some ''financial'', reg_priority = Some ''high'', source_url = ''https://www.sec.gov/rules/3'', effective_date = Some ''2024-01-01''\<rparr>] of None \<Rightarrow> [] | Some rs \<Rightarrow> rs). r = keyword_result reg)"
      by (rule conjunct1)
    from p have "''reg-3'' \<in> reg_id ` set (case Some [\<lparr>reg_id = ''reg-2'', reg_title = ''Rule 2'', reg_summary = Some ''Summary 2'', reg_jurisdiction = Some ''US'', reg_category = Some ''financial'', reg_priority = Some ''high'', source_url = ''https://www.sec.gov/rules/2'', effective_date = Some ''2024-01-01''\<rparr>, \<lparr>reg_id = ''reg-3'', reg_title = ''Rule 3'', reg_summary = Some ''Summary 3'', reg_jurisdiction = Some ''US'', reg_category = Some ''financial'', reg_priority = Some ''high'', source_url = ''https://www.sec.gov/rules/3'', effective_date = Some ''2024-01-01''\<rparr>] of None \<Rightarrow> [] | Some rs \<Rightarrow> rs) \<and> int (length [to_result [\<lparr>reg_id = ''reg-1'', reg_title = ''Rule 1'', reg_summary = Some ''Summary 1'', reg_jurisdiction = Some ''US'', reg_category = Some ''financial'', reg_priority = Some ''high'', source_url = ''https://www.sec.gov/rules/1'', effective_date = Some ''2024-01-01''\<rparr>, \<lparr>reg_id = ''reg-2'', reg_title = ''Rule 2'', reg_summary = Some ''Summary 2'', reg_jurisdiction = Some ''US'', reg_category = Some ''financial'', reg_priority = Some ''high'', source_url = ''https://www.sec.gov/rules/2'', effective_date = Some ''2024-01-01''\<rparr>] \<lparr>doc_id = ''doc-1'', doc_content = ''text of chunk 1'', doc_similarity = 9 / 10, doc_metadata = Some \<lparr>meta_regulation_id = Some ''reg-1'', meta_title = Some ''Chunk 1'', meta_url = None\<rparr>\<rparr>, to_result [\<lparr>reg_id = ''reg-1'', reg_title = ''Rule 1'', reg_summary = Some ''Summary 1'', reg_jurisdiction = Some ''US'', reg_category = Some ''financial'', reg_priority = Some ''high'', source_url = ''https://www.sec.gov/rules/1'', effective_date = Some ''2024-01-01''\<rparr>, \<lparr>reg_id = ''reg-2'', reg_title = ''Rule 2'', reg_summary = Some ''Summary 2'', reg_jurisdiction = Some ''US'', reg_category = Some ''financial'', reg_priority = Some ''high'', source_url = ''https://www.sec.gov/rules/2'', effective_date = Some ''2024-01-01''\<rparr>] \<lparr>doc_id = ''doc-2'', doc_content = ''text of chunk 2'', doc_similarity = 7 / 10, doc_metadata = Some \<lparr>meta_regulation_id = Some ''reg-2'', meta_title = Some ''Chunk 2'', meta_url = None\<rparr>\<rparr>] + length (case Some [\<lparr>reg_id = ''reg-2'', reg_title = ''Rule 2'', reg_summary = Some ''Summary 2'', reg_jurisdiction = Some ''US'', reg_category = Some ''financial'', reg_priority = Some ''high'', source_url = ''https://www.sec.gov/rules/2'', effective_date = Some ''2024-01-01''\<rparr>, \<lparr>reg_id = ''reg-3'', reg_title = ''Rule 3'', reg_summary = Some ''Summary 3'', reg_jurisdiction = Some ''US'', reg_category = Some ''financial'', reg_priority = Some ''high'', source_url = ''https://www.sec.gov/rules/3'', effective_date = Some ''2024-01-01''\<rparr>] of None \<Rightarrow> [] | Some rs \<Rightarrow> rs)) \<le> 5 \<longrightarrow>
                length (filter (\<lambda>r. regulationId r = Some ''reg-3'') out) = 1"
      by (rule conjunct2)
    from this fits have p2: "length (filter (\<lambda>r. regulationId r = Some ''reg-3'') out) = 1"
      by (rule mp)
    show ?thesis
      by (intro exI conjI) (rule o p2 p1)+
  qed
  show ?thesis
    by (intro conjI) (rule s run two three)+
qed

subsection \<open>Semantic results without a record id\<close>

text \<open>
  Claim C10. Whenever the semantic search returns, \<open>hybridSearch\<close> returns a list in which
  every element has a record id: a semantic result whose \<open>regulationId\<close> is undefined is not
  in the output, whatever its similarity. The map after the loop over the semantic results
  holds only semantic results, each under its own non-empty record id.
\<close>

theorem hybridSearch_needs_record_id:
  assumes "search matched regsData filters limit = Inr sem"
  shows "\<exists>out. hybridSearch matched regsData keywordResults filters limit = Inr out
     \<and> (\<forall>r \<in> set out. regulationId r \<noteq> None)
     \<and> (\<forall>s \<in> set sem. regulationId s = None \<longrightarrow> s \<notin> set out)
     \<and> (\<forall>(k, v) \<in> set (add_semantic sem []). v \<in> set sem \<and> regulationId v = Some k \<and> k \<noteq> [])"
proof -
  define kw where "kw = (case keywordResults of None \<Rightarrow> [] | Some rs \<Rightarrow> rs)"
  define m2 where "m2 = add_keyword kw (add_semantic sem [])"
  define out where "out = slice (sort_key (\<lambda>r. - similarity r) (map snd m2)) 0 limit"
  have run: "hybridSearch matched regsData keywordResults filters limit = Inr out"
    by (simp only: hybridSearch_unfold [OF assms] out_def m2_def kw_def)
  have k2: "keyed m2" unfolding m2_def by (rule merged_facts(2))
  have ids: "regulationId r \<noteq> None" if "r \<in> set out" for r
  proof -
    from that set_slice_from_0 [of "sort_key (\<lambda>r. - similarity r) (map snd m2)" limit]
    have "r \<in> set (sort_key (\<lambda>r. - similarity r) (map snd m2))"
      unfolding out_def by (rule subsetD [rotated])
    then have "r \<in> snd ` set m2" by simp
    then obtain k where "(k, r) \<in> set m2" by force
    with k2 have "regulationId r = Some k" unfolding keyed_def by blast
    then show ?thesis by simp
  qed
  have ent: "v \<in> set sem \<and> regulationId v = Some k \<and> k \<noteq> []"
    if "(k, v) \<in> set (add_semantic sem [])" for k v
    using add_semantic_entries [OF that] by simp
  show ?thesis
  proof (intro exI conjI)
    show "hybridSearch matched regsData keywordResults filters limit = Inr out" by (rule run)
    show "\<forall>r \<in> set out. regulationId r \<noteq> None" using ids by blast
    show "\<forall>s \<in> set sem. regulationId s = None \<longrightarrow> s \<notin> set out" using ids by blast
    show "\<forall>(k, v) \<in> set (add_semantic sem []). v \<in> set sem \<and> regulationId v = Some k \<and> k \<noteq> []"
      using ent by blast
  qed
qed

text \<open>
  Claim C10 at an instance: the semantic search returns a result without record id (similarity
  0.95) and one for \<open>reg-2\<close> (similarity 0.7); the output is the second one alone.
\<close>

theorem hybridSearch_needs_record_id_witness:
  "search (Inr [\<lparr>doc_id = ''doc-5'', doc_content = ''text of chunk 5'', doc_similarity = 19 / 20, doc_metadata = Some \<lparr>meta_regulation_id = None, meta_title = Some ''Chunk 5'', meta_url = None\<rparr>\<rparr>, \<lparr>doc_id = ''doc-2'', doc_content = ''text of chunk 2'', doc_similarity = 7 / 10, doc_metadata = Some \<lparr>meta_regulation_id = Some ''reg-2'', meta_title = Some ''Chunk 2'', meta_url = None\<rparr>\<rparr>]) (Some [\<lparr>reg_id = ''reg-2'', reg_title = ''Rule 2'', reg_summary = Some ''Summary 2'', reg_jurisdiction = Some ''US'', reg_category = Some ''financial'', reg_priority = Some ''high'', source_url = ''https://www.sec.gov/rules/2'', effective_date = Some ''2024-01-01''\<rparr>]) \<lparr>SearchFilter.jurisdiction = None, SearchFilter.category = None, SearchFilter.priority = None, dateRange = None\<rparr> 5 = Inr [to_result [\<lparr>reg_id = ''reg-2'', reg_title = ''Rule 2'', reg_summary = Some ''Summary 2'', reg_jurisdiction = Some ''US'', reg_category = Some ''financial'', reg_priority = Some ''high'', source_url = ''https://www.sec.gov/rules/2'', effective_date = Some ''2024-01-01''\<rparr>] \<lparr>doc_id = ''doc-5'', doc_content = ''text of chunk 5'', doc_similarity = 19 / 20, doc_metadata = Some \<lparr>meta_regulation_id = None, meta_title = Some ''Chunk 5'', meta_url = None\<rparr>\<rparr>, to_result [\<lparr>reg_id = ''reg-2'', reg_title = ''Rule 2'', reg_summary = Some ''Summary 2'', reg_jurisdiction = Some ''US'', reg_category = Some ''financial'', reg_priority = Some ''high'', source_url = ''https://www.sec.gov/rules/2'', effective_date = Some ''2024-01-01''\<rparr>] \<lparr>doc_id = ''doc-2'', doc_content = ''text of chunk 2'', doc_similarity = 7 / 10, doc_metadata = Some \<lparr>meta_regulation_id = Some ''reg-2'', meta_title = Some ''Chunk 2'', meta_url = None\<rparr>\<rparr>]
   \<and> regulationId (to_result [\<lparr>reg_id = ''reg-2'', reg_title = ''Rule 2'', reg_summary = Some ''Summary 2'', reg_jurisdiction = Some ''US'', reg_category = Some ''financial'', reg_priority = Some ''high'', source_url = ''https://www.sec.gov/rules/2'', effective_date = Some ''2024-01-01''\<rparr>] \<lparr>doc_id = ''doc-5'', doc_content = ''text of chunk 5'', doc_similarity = 19 / 20, doc_metadata = Some \<lparr>meta_regulation_id = None, meta_title = Some ''Chunk 5'', meta_url = None\<rparr>\<rparr>) = None
   \<and> similarity (to_result [\<lparr>reg_id = ''reg-2'', reg_title = ''Rule 2'', reg_summary = Some ''Summary 2'', reg_jurisdiction = Some ''US'', reg_category = Some ''financial'', reg_priority = Some ''high'', source_url = ''https://www.sec.gov/rules/2'', effective_date = Some ''2024-01-01''\<rparr>] \<lparr>doc_id = ''doc-5'', doc_content = ''text of chunk 5'', doc_similarity = 19 / 20, doc_metadata = Some \<lparr>meta_regulation_id = None, meta_title = Some ''Chunk 5'', meta_url = None\<rparr>\<rparr>) = 19 / 20
   \<and> hybridSearch (Inr [\<lparr>doc_id = ''doc-5'', doc_content = ''text of chunk 5'', doc_similarity = 19 / 20, doc_metadata = Some \<lparr>meta_regulation_id = None, meta_title = Some ''Chunk 5'', meta_url = None\<rparr>\<rparr>, \<lparr>doc_id = ''doc-2'', doc_content = ''text of chunk 2'', doc_similarity = 7 / 10, doc_metadata = Some \<lparr>meta_regulation_id = Some ''reg-2'', meta_title = Some ''Chunk 2'', meta_url = None\<rparr>\<rparr>]) (Some [\<lparr>reg_id = ''reg-2'', reg_title = ''Rule 2'', reg_summary = Some ''Summary 2'', reg_jurisdiction = Some ''US'', reg_category = Some ''financial'', reg_priority = Some ''high'', source_url = ''https://www.sec.gov/rules/2'', effective_date = Some ''2024-01-01''\<rparr>]) None \<lparr>SearchFilter.jurisdiction = None, SearchFilter.category = None, SearchFilter.priority = None, dateRange = None\<rparr> 5 = Inr [to_result [\<lparr>reg_id = ''reg-2'', reg_title = ''Rule 2'', reg_summary = Some ''Summary 2'', reg_jurisdiction = Some ''US'', reg_category = Some ''financial'', reg_priority = Some ''high'', source_url = ''https://www.sec.gov/rules/2'', effective_date = Some ''2024-01-01''\<rparr>] \<lparr>doc_id = ''doc-2'', doc_content = ''text of chunk 2'', doc_similarity = 7 / 10, doc_metadata = Some \<lparr>meta_regulation_id = Some ''reg-2'', meta_title = Some ''Chunk 2'', meta_url = None\<rparr>\<rparr>]
   \<and> similarity (to_result [\<lparr>reg_id = ''reg-2'', reg_title = ''Rule 2'', reg_summary = Some ''Summary 2'', reg_jurisdiction = Some ''US'', reg_category = Some ''financial'', reg_priority = Some ''high'', source_url = ''https://www.sec.gov/rules/2'', effective_date = Some ''2024-01-01''\<rparr>] \<lparr>doc_id = ''doc-2'', doc_content = ''text of chunk 2'', doc_similarity = 7 / 10, doc_metadata = Some \<lparr>meta_regulation_id = Some ''reg-2'', meta_title = Some ''Chunk 2'', meta_url = None\<rparr>\<rparr>) = 7 / 10
   \<and> (\<exists>out. hybridSearch (Inr [\<lparr>doc_id = ''doc-5'', doc_content = ''text of chunk 5'', doc_similarity = 19 / 20, doc_metadata = Some \<lparr>meta_regulation_id = None, meta_title = Some ''Chunk 5'', meta_url = None\<rparr>\<rparr>, \<lparr>doc_id = ''doc-2'', doc_content = ''text of chunk 2'', doc_similarity = 7 / 10, doc_metadata = Some \<lparr>meta_regulation_id = Some ''reg-2'', meta_title = Some ''Chunk 2'', meta_url = None\<rparr>\<rparr>]) (Some [\<lparr>reg_id = ''reg-2'', reg_title = ''Rule 2'', reg_summary = Some ''Summary 2'', reg_jurisdiction = Some ''US'', reg_category = Some ''financial'', reg_priority = Some ''high'', source_url = ''https://www.sec.gov/rules/2'', effective_date = Some ''2024-01-01''\<rparr>]) None \<lparr>SearchFilter.jurisdiction = None, SearchFilter.category = None, SearchFilter.priority = None, dateRange = None\<rparr> 5 = Inr out
          \<and> to_result [\<lparr>reg_id = ''reg-2'', reg_title = ''Rule 2'', reg_summary = Some ''Summary 2'', reg_jurisdiction = Some ''US'', reg_category = Some ''financial'', reg_priority = Some ''high'', source_url = ''https://www.sec.gov/rules/2'', effective_date = Some ''2024-01-01''\<rparr>] \<lparr>doc_id = ''doc-5'', doc_content = ''text of chunk 5'', doc_similarity = 19 / 20, doc_metadata = Some \<lparr>meta_regulation_id = None, meta_title = Some ''Chunk 5'', meta_url = None\<rparr>\<rparr> \<notin> set out)"
proof -
  have s: "search (Inr [\<lparr>doc_id = ''doc-5'', doc_content = ''text of chunk 5'', doc_similarity = 19 / 20, doc_metadata = Some \<lparr>meta_regulation_id = None, meta_title = Some ''Chunk 5'', meta_url = None\<rparr>\<rparr>, \<lparr>doc_id = ''doc-2'', doc_content = ''text of chunk 2'', doc_similarity = 7 / 10, doc_metadata = Some \<lparr>meta_regulation_id = Some ''reg-2'', meta_title = Some ''Chunk 2'', meta_url = None\<rparr>\<rparr>]) (Some [\<lparr>reg_id = ''reg-2'', reg_title = ''Rule 2'', reg_summary = Some ''Summary 2'', reg_jurisdiction = Some ''US'', reg_category = Some ''financial'', reg_priority = Some ''high'', source_url = ''https://www.sec.gov/rules/2'', effective_date = Some ''2024-01-01''\<rparr>]) \<lparr>SearchFilter.jurisdiction = None, SearchFilter.category = None, SearchFilter.priority = None, dateRange = None\<rparr> 5 = Inr [to_result [\<lparr>reg_id = ''reg-2'', reg_title = ''Rule 2'', reg_summary = Some ''Summary 2'', reg_jurisdiction = Some ''US'', reg_category = Some ''financial'', reg_priority = Some ''high'', source_url = ''https://www.sec.gov/rules/2'', effective_date = Some ''2024-01-01''\<rparr>] \<lparr>doc_id = ''doc-5'', doc_content = ''text of chunk 5'', doc_similarity = 19 / 20, doc_metadata = Some \<lparr>meta_regulation_id = None, meta_title = Some ''Chunk 5'', meta_url = None\<rparr>\<rparr>, to_result [\<lparr>reg_id = ''reg-2'', reg_title = ''Rule 2'', reg_summary = Some ''Summary 2'', reg_jurisdiction = Some ''US'', reg_category = Some ''financial'', reg_priority = Some ''high'', source_url = ''https://www.sec.gov/rules/2'', effective_date = Some ''2024-01-01''\<rparr>] \<lparr>doc_id = ''doc-2'', doc_content = ''text of chunk 2'', doc_similarity = 7 / 10, doc_metadata = Some \<lparr>meta_regulation_id = Some ''reg-2'', meta_title = Some ''Chunk 2'', meta_url = None\<rparr>\<rparr>]"
    by code_simp
  have u: "regulationId (to_result [\<lparr>reg_id = ''reg-2'', reg_title = ''Rule 2'', reg_summary = Some ''Summary 2'', reg_jurisdiction = Some ''US'', reg_category = Some ''financial'', reg_priority = Some ''high'', source_url = ''https://www.sec.gov/rules/2'', effective_date = Some ''2024-01-01''\<rparr>] \<lparr>doc_id = ''doc-5'', doc_content = ''text of chunk 5'', doc_similarity = 19 / 20, doc_metadata = Some \<lparr>meta_regulation_id = None, meta_title = Some ''Chunk 5'', meta_url = None\<rparr>\<rparr>) = None"
    by code_simp
  have v1: "similarity (to_result [\<lparr>reg_id = ''reg-2'', reg_title = ''Rule 2'', reg_summary = Some ''Summary 2'', reg_jurisdiction = Some ''US'', reg_category = Some ''financial'', reg_priority = Some ''high'', source_url = ''https://www.sec.gov/rules/2'', effective_date = Some ''2024-01-01''\<rparr>] \<lparr>doc_id = ''doc-5'', doc_content = ''text of chunk 5'', doc_similarity = 19 / 20, doc_metadata = Some \<lparr>meta_regulation_id = None, meta_title = Some ''Chunk 5'', meta_url = None\<rparr>\<rparr>) = 19 / 20"
    by code_simp
  have v2: "similarity (to_result [\<lparr>reg_id = ''reg-2'', reg_title = ''Rule 2'', reg_summary = Some ''Summary 2'', reg_jurisdiction = Some ''US'', reg_category = Some ''financial'', reg_priority = Some ''high'', source_url = ''https://www.sec.gov/rules/2'', effective_date = Some ''2024-01-01''\<rparr>] \<lparr>doc_id = ''doc-2'', doc_content = ''text of chunk 2'', doc_similarity = 7 / 10, doc_metadata = Some \<lparr>meta_regulation_id = Some ''reg-2'', meta_title = Some ''Chunk 2'', meta_url = None\<rparr>\<rparr>) = 7 / 10"
    by code_simp
  have run: "hybridSearch (Inr [\<lparr>doc_id = ''doc-5'', doc_content = ''text of chunk 5'', doc_similarity = 19 / 20, doc_metadata = Some \<lparr>meta_regulation_id = None, meta_title = Some ''Chunk 5'', meta_url = None\<rparr>\<rparr>, \<lparr>doc_id = ''doc-2'', doc_content = ''text of chunk 2'', doc_similarity = 7 / 10, doc_metadata = Some \<lparr>meta_regulation_id = Some ''reg-2'', meta_title = Some ''Chunk 2'', meta_url = None\<rparr>\<rparr>]) (Some [\<lparr>reg_id = ''reg-2'', reg_title = ''Rule 2'', reg_summary = Some ''Summary 2'', reg_jurisdiction = Some ''US'', reg_category = Some ''financial'', reg_priority = Some ''high'', source_url = ''https://www.sec.gov/rules/2'', effective_date = Some ''2024-01-01''\<rparr>]) None \<lparr>SearchFilter.jurisdiction = None, SearchFilter.category = None, SearchFilter.priority = None, dateRange = None\<rparr> 5 = Inr [to_result [\<lparr>reg_id = ''reg-2'', reg_title = ''Rule 2'', reg_summary = Some ''Summary 2'', reg_jurisdiction = Some ''US'', reg_category = Some ''financial'', reg_priority = Some ''high'', source_url = ''https://www.sec.gov/rules/2'', effective_date = Some ''2024-01-01''\<rparr>] \<lparr>doc_id = ''doc-2'', doc_content = ''text of chunk 2'', doc_similarity = 7 / 10, doc_metadata = Some \<lparr>meta_regulation_id = Some ''reg-2'', meta_title = Some ''Chunk 2'', meta_url = None\<rparr>\<rparr>]"
    by code_simp
  from hybridSearch_needs_record_id [OF s, where keywordResults = None]
  obtain out where o: "hybridSearch (Inr [\<lparr>doc_id = ''doc-5'', doc_content = ''text of chunk 5'', doc_similarity = 19 / 20, doc_metadata = Some \<lparr>meta_regulation_id = None, meta_title = Some ''Chunk 5'', meta_url = None\<rparr>\<rparr>, \<lparr>doc_id = ''doc-2'', doc_content = ''text of chunk 2'', doc_similarity = 7 / 10, doc_metadata = Some \<lparr>meta_regulation_id = Some ''reg-2'', meta_title = Some ''Chunk 2'', meta_url = None\<rparr>\<rparr>]) (Some [\<lparr>reg_id = ''reg-2'', reg_title = ''Rule 2'', reg_summary = Some ''Summary 2'', reg_jurisdiction = Some ''US'', reg_category = Some ''financial'', reg_priority = Some ''high'', source_url = ''https://www.sec.gov/rules/2'', effective_date = Some ''2024-01-01''\<rparr>]) None \<lparr>SearchFilter.jurisdiction = None, SearchFilter.category = None, SearchFilter.priority = None, dateRange = None\<rparr> 5 = Inr out"
    and n: "\<forall>s \<in> set [to_result [\<lparr>reg_id = ''reg-2'', reg_title = ''Rule 2'', reg_summary = Some ''Summary 2'', reg_jurisdiction = Some ''US'', reg_category = Some ''financial'', reg_priority = Some ''high'', source_url = ''https://www.sec.gov/rules/2'', effective_date = Some ''2024-01-01''\<rparr>] \<lparr>doc_id = ''doc-5'', doc_content = ''text of chunk 5'', doc_similarity = 19 / 20, doc_metadata = Some \<lparr>meta_regulation_id = None, meta_title = Some ''Chunk 5'', meta_url = None\<rparr>\<rparr>, to_result [\<lparr>reg_id = ''reg-2'', reg_title = ''Rule 2'', reg_summary = Some ''Summary 2'', reg_jurisdiction = Some ''US'', reg_category = Some ''financial'', reg_priority = Some ''high'', source_url = ''https://www.sec.gov/rules/2'', effective_date = Some ''2024-01-01''\<rparr>] \<lparr>doc_id = ''doc-2'', doc_content = ''text of chunk 2'', doc_similarity = 7 / 10, doc_metadata = Some \<lparr>meta_regulation_id = Some ''reg-2'', meta_title = Some ''Chunk 2'', meta_url = None\<rparr>\<rparr>]. regulationId s = None \<longrightarrow> s \<notin> set out"
    by (elim exE conjE)
  have "to_result [\<lparr>reg_id = ''reg-2'', reg_title = ''Rule 2'', reg_summary = Some ''Summary 2'', reg_jurisdiction = Some ''US'', reg_category = Some ''financial'', reg_priority = Some ''high'', source_url = ''https://www.sec.gov/rules/2'', effective_date = Some ''2024-01-01''\<rparr>] \<lparr>doc_id = ''doc-5'', doc_content = ''text of chunk 5'', doc_similarity = 19 / 20, doc_metadata = Some \<lparr>meta_regulation_id = None, meta_title = Some ''Chunk 5'', meta_url = None\<rparr>\<rparr> \<in> set [to_result [\<lparr>reg_id = ''reg-2'', reg_title = ''Rule 2'', reg_summary = Some ''Summary 2'', reg_jurisdiction = Some ''US'', reg_category = Some ''financial'', reg_priority = Some ''high'', source_url = ''https://www.sec.gov/rules/2'', effective_date = Some ''2024-01-01''\<rparr>] \<lparr>doc_id = ''doc-5'', doc_content = ''text of chunk 5'', doc_similarity = 19 / 20, doc_metadata = Some \<lparr>meta_regulation_id = None, meta_title = Some ''Chunk 5'', meta_url = None\<rparr>\<rparr>, to_result [\<lparr>reg_id = ''reg-2'', reg_title = ''Rule 2'', reg_summary = Some ''Summary 2'', reg_jurisdiction = Some ''US'', reg_category = Some ''financial'', reg_priority = Some ''high'', source_url = ''https://www.sec.gov/rules/2'', effective_date = Some ''2024-01-01''\<rparr>] \<lparr>doc_id = ''doc-2'', doc_content = ''text of chunk 2'', doc_similarity = 7 / 10, doc_metadata = Some \<lparr>meta_regulation_id = Some ''reg-2'', meta_title = Some ''Chunk 2'', meta_url = None\<rparr>\<rparr>]"
    by (rule list.set_intros(1))
  with n have "regulationId (to_result [\<lparr>reg_id = ''reg-2'', reg_title = ''Rule 2'', reg_summary = Some ''Summary 2'', reg_jurisdiction = Some ''US'', reg_category = Some ''financial'', reg_priority = Some ''high'', source_url = ''https://www.sec.gov/rules/2'', effective_date = Some ''2024-01-01''\<rparr>] \<lparr>doc_id = ''doc-5'', doc_content = ''text of chunk 5'', doc_similarity = 19 / 20, doc_metadata = Some \<lparr>meta_regulation_id = None, meta_title = Some ''Chunk 5'', meta_url = None\<rparr>\<rparr>) = None \<longrightarrow> to_result [\<lparr>reg_id = ''reg-2'', reg_title = ''Rule 2'', reg_summary = Some ''Summary 2'', reg_jurisdiction = Some ''US'', reg_category = Some ''financial'', reg_priority = Some ''high'', source_url = ''https://www.sec.gov/rules/2'', effective_date = Some ''2024-01-01''\<rparr>] \<lparr>doc_id = ''doc-5'', doc_content = ''text of chunk 5'', doc_similarity = 19 / 20, doc_metadata = Some \<lparr>meta_regulation_id = None, meta_title = Some ''Chunk 5'', meta_url = None\<rparr>\<rparr> \<notin> set out"
    by (rule bspec)
  with u have "to_result [\<lparr>reg_id = ''reg-2'', reg_title = ''Rule 2'', reg_summary = Some ''Summary 2'', reg_jurisdiction = Some ''US'', reg_category = Some ''financial'', reg_priority = Some ''high'', source_url = ''https://www.sec.gov/rules/2'', effective_date = Some ''2024-01-01''\<rparr>] \<lparr>doc_id = ''doc-5'', doc_content = ''text of chunk 5'', doc_similarity = 19 / 20, doc_metadata = Some \<lparr>meta_regulation_id = None, meta_title = Some ''Chunk 5'', meta_url = None\<rparr>\<rparr> \<notin> set out" by (rule mp [rotated])
  with o have w: "\<exists>out. hybridSearch (Inr [\<lparr>doc_id = ''doc-5'', doc_content = ''text of chunk 5'', doc_similarity = 19 / 20, doc_metadata = Some \<lparr>meta_regulation_id = None, meta_title = Some ''Chunk 5'', meta_url = None\<rparr>\<rparr>, \<lparr>doc_id = ''doc-2'', doc_content = ''text of chunk 2'', doc_similarity = 7 / 10, doc_metadata = Some \<lparr>meta_regulation_id = Some ''reg-2'', meta_title = Some ''Chunk 2'', meta_url = None\<rparr>\<rparr>]) (Some [\<lparr>reg_id = ''reg-2'', reg_title = ''Rule 2'', reg_summary = Some ''Summary 2'', reg_jurisdiction = Some ''US'', reg_category = Some ''financial'', reg_priority = Some ''high'', source_url = ''https://www.sec.gov/rules/2'', effective_date = Some ''2024-01-01''\<rparr>]) None \<lparr>SearchFilter.jurisdiction = None, SearchFilter.category = None, SearchFilter.priority = None, dateRange = None\<rparr> 5 = Inr out
          \<and> to_result [\<lparr>reg_id = ''reg-2'', reg_title = ''Rule 2'', reg_summary = Some ''Summary 2'', reg_jurisdiction = Some ''US'', reg_category = Some ''financial'', reg_priority = Some ''high'', source_url = ''https://www.sec.gov/rules/2'', effective_date = Some ''2024-01-01''\<rparr>] \<lparr>doc_id = ''doc-5'', doc_content = ''text of chunk 5'', doc_similarity = 19 / 20, doc_metadata = Some \<lparr>meta_regulation_id = None, meta_title = Some ''Chunk 5'', meta_url = None\<rparr>\<rparr> \<notin> set out"
    by (intro exI conjI)
  show ?thesis
    by (intro conjI) (rule s u v1 run v2 w)+
qed

end
